theory Spec2Isabelle
  imports Main "HOL-Library.Word"
begin

unbundle bit_operations_syntax

section \<open>The Vulkan side: handles, objects and the log of API calls\<close>

text \<open>
  The renderer of \<^verbatim>\<open>qe-renderer-vulkan/src/main/cpp\<close> is a C++ class whose
  methods mutate its fields and call the Vulkan API. The embedding passes the object
  explicitly; the Vulkan driver is a record \<open>vk_world\<close> holding the API calls made so far
  (oldest first), the set of live objects and the next handle the driver will hand out.
  Whether a fallible API call succeeds is an input of the method that makes it.

  Several methods are defined twice in the repository, once in
  \<^verbatim>\<open>vulkan_renderer_native.cpp\<close> and once in a \<^verbatim>\<open>vk_*.cpp\<close> file. The
  definition of \<^verbatim>\<open>vulkan_renderer_native.cpp\<close> keeps the method's name; the other
  one carries the name of its file as a suffix.
\<close>

type_synonym u32 = "32 word"
type_synonym u64 = "64 word"
type_synonym handle = nat

text \<open>A C \<^verbatim>\<open>int\<close> is its 32 bits; \<open>sint\<close> reads its value, \<open>scast\<close> widens it as the
  conversion to \<^verbatim>\<open>size_t\<close> or \<^verbatim>\<open>VkDeviceSize\<close> (64 bits) does.\<close>

type_synonym c_int = "32 word"

definition VK_NULL_HANDLE :: handle where
  "VK_NULL_HANDLE = 0"

definition UINT32_MAX :: u32 where
  "UINT32_MAX = 0xFFFFFFFF"

datatype vk_kind =
    KInstance | KDevice | KSurface | KSwapchain | KImageView | KFramebuffer | KRenderPass
  | KCommandPool | KSemaphore | KFence | KDescriptorPool | KBuffer | KMemory | KImage
  | KSampler | KShaderModule

text \<open>The fields of \<^verbatim>\<open>VkImageCreateInfo\<close> and \<^verbatim>\<open>VkImageViewCreateInfo\<close> that
  \<^verbatim>\<open>loadTexture\<close> and \<^verbatim>\<open>createSwapchain\<close> set, with the enumerators of the Vulkan
  headers as numbers.\<close>

definition VK_FORMAT_UNDEFINED :: nat where "VK_FORMAT_UNDEFINED = 0"
definition VK_FORMAT_R8G8B8A8_UNORM :: nat where "VK_FORMAT_R8G8B8A8_UNORM = 37"
definition VK_FORMAT_B8G8R8A8_UNORM :: nat where "VK_FORMAT_B8G8R8A8_UNORM = 44"
definition VK_FORMAT_B8G8R8A8_SRGB :: nat where "VK_FORMAT_B8G8R8A8_SRGB = 50"
definition VK_COLOR_SPACE_SRGB_NONLINEAR_KHR :: nat where "VK_COLOR_SPACE_SRGB_NONLINEAR_KHR = 0"
definition VK_PRESENT_MODE_MAILBOX_KHR :: nat where "VK_PRESENT_MODE_MAILBOX_KHR = 1"
definition VK_PRESENT_MODE_FIFO_KHR :: nat where "VK_PRESENT_MODE_FIFO_KHR = 2"
definition VK_IMAGE_USAGE_TRANSFER_DST_BIT :: u32 where "VK_IMAGE_USAGE_TRANSFER_DST_BIT = 2"
definition VK_IMAGE_USAGE_SAMPLED_BIT :: u32 where "VK_IMAGE_USAGE_SAMPLED_BIT = 4"
definition VK_BUFFER_USAGE_TRANSFER_SRC_BIT :: u32 where "VK_BUFFER_USAGE_TRANSFER_SRC_BIT = 1"
definition VK_BUFFER_USAGE_TRANSFER_DST_BIT :: u32 where "VK_BUFFER_USAGE_TRANSFER_DST_BIT = 2"
definition VK_BUFFER_USAGE_INDEX_BUFFER_BIT :: u32 where "VK_BUFFER_USAGE_INDEX_BUFFER_BIT = 64"
definition VK_BUFFER_USAGE_VERTEX_BUFFER_BIT :: u32 where "VK_BUFFER_USAGE_VERTEX_BUFFER_BIT = 128"
definition VK_MEMORY_PROPERTY_DEVICE_LOCAL_BIT :: u32 where "VK_MEMORY_PROPERTY_DEVICE_LOCAL_BIT = 1"
definition VK_MEMORY_PROPERTY_HOST_VISIBLE_BIT :: u32 where "VK_MEMORY_PROPERTY_HOST_VISIBLE_BIT = 2"
definition VK_MEMORY_PROPERTY_HOST_COHERENT_BIT :: u32 where "VK_MEMORY_PROPERTY_HOST_COHERENT_BIT = 4"
definition VK_QUEUE_GRAPHICS_BIT :: u32 where "VK_QUEUE_GRAPHICS_BIT = 1"
definition VK_QUEUE_COMPUTE_BIT :: u32 where "VK_QUEUE_COMPUTE_BIT = 2"
definition VK_QUEUE_TRANSFER_BIT :: u32 where "VK_QUEUE_TRANSFER_BIT = 4"

record VkImageCreateInfo =
  ici_width :: u32
  ici_height :: u32
  ici_depth :: u32
  ici_mipLevels :: u32
  ici_arrayLayers :: u32
  ici_format :: nat
  ici_usage :: u32

record VkImageViewCreateInfo =
  ivi_image :: handle
  ivi_format :: nat
  ivi_levelCount :: u32
  ivi_layerCount :: u32

record VkSwapchainCreateInfoKHR =
  sci_surface :: handle
  sci_minImageCount :: u32
  sci_imageFormat :: nat
  sci_imageColorSpace :: nat
  sci_extent :: "u32 \<times> u32"
  sci_presentMode :: nat

text \<open>One entry of the log per API call. A successful creation carries the handle the
  driver returned; \<open>CreateFailed\<close> is a creation that returned an error.\<close>

datatype vk_call =
    Create vk_kind handle
  | CreateFailed vk_kind
  | CreateImage VkImageCreateInfo handle
  | CreateImageView VkImageViewCreateInfo handle
  | CreateSwapchain VkSwapchainCreateInfoKHR handle
  | CreateFramebuffer handle handle "u32 \<times> u32" handle
  | CreateBuffer u64 u32 handle
  | CreateShaderModule u64 handle
  | Destroy vk_kind handle
  | DeviceWaitIdle handle
  | GetDeviceQueue u32 handle
  | AllocateMemory u64 u32 handle
  | AllocateMemoryFailed u64 u32
  | BindBufferMemory handle handle
  | BindImageMemory handle handle
  | MapMemory handle u64
  | Memcpy u64
  | UnmapMemory handle
  | FreeMemory handle
  | AllocateCommandBuffers handle nat bool
  | FreeCommandBuffers handle handle
  | CmdCopyBuffer handle handle handle u64
  | QueueSubmit handle "handle list" "handle list" handle
  | QueueWaitIdle handle
  | WaitForFences handle
  | ResetFences handle
  | AcquireNextImage handle handle
  | QueuePresent handle "handle list" handle u32

record VkPhysicalDeviceMemoryProperties =
  memoryTypeCount :: u32
  memoryTypes :: "u32 list"

record vk_world =
  calls :: "vk_call list"
  live :: "(vk_kind \<times> handle) set"
  fresh :: handle
  memProperties :: VkPhysicalDeviceMemoryProperties

definition api :: "vk_call \<Rightarrow> vk_world \<Rightarrow> vk_world" where
  "api c w = w\<lparr>calls := calls w @ [c]\<rparr>"

text \<open>A \<^verbatim>\<open>vkCreate*\<close> call: on success the driver writes a fresh non-null handle into
  the output variable and the object is live; on failure the output variable keeps the
  value \<open>out\<close> it had.\<close>

definition vkCreateWith :: "(handle \<Rightarrow> vk_call) \<Rightarrow> vk_kind \<Rightarrow> bool \<Rightarrow> handle \<Rightarrow> vk_world
    \<Rightarrow> bool \<times> handle \<times> vk_world" where
  "vkCreateWith ev k ok out w =
     (if ok
      then (True, fresh w,
            w\<lparr>calls := calls w @ [ev (fresh w)],
              live := insert (k, fresh w) (live w),
              fresh := fresh w + 1\<rparr>)
      else (False, out, api (CreateFailed k) w))"

definition vkCreate :: "vk_kind \<Rightarrow> bool \<Rightarrow> handle \<Rightarrow> vk_world \<Rightarrow> bool \<times> handle \<times> vk_world" where
  "vkCreate k ok out w = vkCreateWith (Create k) k ok out w"

definition vkDestroy :: "vk_kind \<Rightarrow> handle \<Rightarrow> vk_world \<Rightarrow> vk_world" where
  "vkDestroy k h w = w\<lparr>calls := calls w @ [Destroy k h], live := live w - {(k, h)}\<rparr>"

definition vkAllocateMemory :: "u64 \<Rightarrow> u32 \<Rightarrow> bool \<Rightarrow> handle \<Rightarrow> vk_world
    \<Rightarrow> bool \<times> handle \<times> vk_world" where
  "vkAllocateMemory sz idx ok out w =
     (if ok
      then (True, fresh w,
            w\<lparr>calls := calls w @ [AllocateMemory sz idx (fresh w)],
              live := insert (KMemory, fresh w) (live w),
              fresh := fresh w + 1\<rparr>)
      else (False, out, api (AllocateMemoryFailed sz idx) w))"

definition vkFreeMemory :: "handle \<Rightarrow> vk_world \<Rightarrow> vk_world" where
  "vkFreeMemory h w = w\<lparr>calls := calls w @ [FreeMemory h], live := live w - {(KMemory, h)}\<rparr>"

section \<open>The data of \<^verbatim>\<open>vulkan_renderer_native.h\<close>\<close>

record VulkanInfo =
  deviceName :: string
  apiVersion :: string
  driverVersion :: string
  vendorId :: int
  deviceType :: string
  maxTextureSize :: int
  supportsRayTracing :: bool
  supportsMeshShaders :: bool

record Mesh =
  vertexBuffer :: handle
  indexBuffer :: handle
  vertexMemory :: handle
  indexMemory :: handle
  indexCount :: u32

record Texture =
  image :: handle
  imageView :: handle
  sampler :: handle
  memory :: handle

record Shader =
  module :: handle
  stage :: u32

record Pipeline =
  pipeline :: handle
  layout :: handle

datatype VkPhysicalDeviceType =
    VK_PHYSICAL_DEVICE_TYPE_OTHER
  | VK_PHYSICAL_DEVICE_TYPE_INTEGRATED_GPU
  | VK_PHYSICAL_DEVICE_TYPE_DISCRETE_GPU
  | VK_PHYSICAL_DEVICE_TYPE_VIRTUAL_GPU
  | VK_PHYSICAL_DEVICE_TYPE_CPU

record VkPhysicalDeviceProperties =
  pd_apiVersion :: u32
  pd_driverVersion :: u32
  pd_vendorID :: u32
  pd_deviceType :: VkPhysicalDeviceType
  pd_deviceName :: string
  pd_maxImageDimension2D :: u32

text \<open>The class \<^verbatim>\<open>VulkanRendererNative\<close>. The float-valued \<^verbatim>\<open>clearColor\<close> and the
  feature structs, which no method modelled here reads, are left out; \<open>world\<close> is the
  driver the object talks to.\<close>

record VulkanRendererNative =
  instance_h :: handle
  physicalDevice :: handle
  device :: handle
  graphicsQueue :: handle
  computeQueue :: handle
  transferQueue :: handle
  surface :: handle
  swapchain :: handle
  swapchainImages :: "handle list"
  swapchainImageViews :: "handle list"
  framebuffers :: "handle list"
  renderPass :: handle
  commandPool :: handle
  computeCommandPool :: handle
  commandBuffers :: "handle list"
  imageAvailableSemaphore :: handle
  renderFinishedSemaphore :: handle
  inFlightFence :: handle
  descriptorPool :: handle
  descriptorSetLayout :: handle
  deviceProperties :: VkPhysicalDeviceProperties
  graphicsQueueFamily :: u32
  computeQueueFamily :: u32
  transferQueueFamily :: u32
  currentFrame :: u32
  imageIndex :: u32
  swapchainExtent :: "u32 \<times> u32"
  swapchainFormat :: nat
  meshes :: "u64 \<rightharpoonup> Mesh"
  textures :: "u64 \<rightharpoonup> Texture"
  shaders :: "u64 \<rightharpoonup> Shader"
  pipelines :: "u64 \<rightharpoonup> Pipeline"
  nextResourceId :: u64
  world :: vk_world


section \<open>Memory types and buffers\<close>

text \<open>
  \<^verbatim>\<open>findMemoryType\<close> (the same loop in \<^verbatim>\<open>vulkan_renderer_native.cpp\<close>,
  \<^verbatim>\<open>vk_device.cpp\<close> and \<^verbatim>\<open>vk_utils.cpp\<close>):
  \<^verbatim>\<open>for (uint32_t i = 0; i < memProperties.memoryTypeCount; i++)
    if ((typeFilter & (1 << i)) && (memoryTypes[i].propertyFlags & properties) == properties)
      return i;
  return 0;\<close>
  \<open>memoryTypes\<close> lists the \<^verbatim>\<open>propertyFlags\<close> of the array's entries.
\<close>

function findMemoryType_loop ::
    "VkPhysicalDeviceMemoryProperties \<Rightarrow> u32 \<Rightarrow> u32 \<Rightarrow> u32 \<Rightarrow> u32" where
  "findMemoryType_loop mp typeFilter properties i =
     (if i < memoryTypeCount mp then
        (if typeFilter AND push_bit (unat i) 1 \<noteq> 0 \<and>
            (memoryTypes mp ! unat i) AND properties = properties
         then i
         else findMemoryType_loop mp typeFilter properties (i + 1))
      else 0)"
  by pat_completeness auto
termination
proof (relation "measure (\<lambda>(mp, tf, p, i). unat (memoryTypeCount mp) - unat i)")
  show "wf (measure (\<lambda>(mp, tf, p, i). unat (memoryTypeCount mp) - unat i))"
    by simp
next
  fix mp :: VkPhysicalDeviceMemoryProperties and typeFilter properties i :: u32
  assume lt: "i < memoryTypeCount mp"
  then have "i \<noteq> - 1"
    by (metis word_order.extremum_strict)
  then have "1 + i \<noteq> 0"
    by (metis add_eq_0_iff)
  then have "unat (i + 1) = Suc (unat i)"
    by (simp add: unatSuc add.commute)
  moreover from lt have "unat i < unat (memoryTypeCount mp)"
    by (simp add: word_less_nat_alt)
  ultimately show "((mp, typeFilter, properties, i + 1), (mp, typeFilter, properties, i))
      \<in> measure (\<lambda>(mp, tf, p, i). unat (memoryTypeCount mp) - unat i)"
    by simp
qed

declare findMemoryType_loop.simps [simp del]

definition findMemoryType :: "VulkanRendererNative \<Rightarrow> u32 \<Rightarrow> u32 \<Rightarrow> u32" where
  "findMemoryType s typeFilter properties =
     findMemoryType_loop (memProperties (world s)) typeFilter properties 0"

text \<open>What the driver answers during one \<^verbatim>\<open>createBuffer\<close>: the results of
  \<^verbatim>\<open>vkCreateBuffer\<close> and \<^verbatim>\<open>vkAllocateMemory\<close> and the buffer's memory
  requirements.\<close>

record buffer_env =
  be_buffer_ok :: bool
  be_req_size :: u64
  be_req_typeBits :: u32
  be_alloc_ok :: bool

text \<open>\<^verbatim>\<open>createBuffer\<close> of \<^verbatim>\<open>vulkan_renderer_native.cpp\<close> checks no result. The
  reference parameters \<^verbatim>\<open>buffer\<close> and \<^verbatim>\<open>memory\<close> come in with the caller's values
  and go out as the first component of the result.\<close>

definition createBuffer :: "buffer_env \<Rightarrow> u64 \<Rightarrow> u32 \<Rightarrow> u32 \<Rightarrow> handle \<Rightarrow> handle
    \<Rightarrow> VulkanRendererNative \<Rightarrow> (handle \<times> handle) \<times> VulkanRendererNative" where
  "createBuffer e sizeB usage properties buffer bufferMemory s =
     (case vkCreateWith (CreateBuffer sizeB usage) KBuffer (be_buffer_ok e) buffer (world s) of
        (ok1, buffer', w1) \<Rightarrow>
     (case vkAllocateMemory (be_req_size e) (findMemoryType s (be_req_typeBits e) properties)
             (be_alloc_ok e) bufferMemory w1 of
        (ok2, memory', w2) \<Rightarrow>
       ((buffer', memory'), s\<lparr>world := api (BindBufferMemory buffer' memory') w2\<rparr>)))"

text \<open>\<^verbatim>\<open>createBuffer\<close> of \<^verbatim>\<open>vk_buffer.cpp\<close> returns early (it is \<^verbatim>\<open>void\<close>) when
  the buffer or the memory cannot be had.\<close>

definition createBuffer_vk_buffer :: "buffer_env \<Rightarrow> u64 \<Rightarrow> u32 \<Rightarrow> u32 \<Rightarrow> handle \<Rightarrow> handle
    \<Rightarrow> VulkanRendererNative \<Rightarrow> (handle \<times> handle) \<times> VulkanRendererNative" where
  "createBuffer_vk_buffer e sizeB usage properties buffer bufferMemory s =
     (case vkCreateWith (CreateBuffer sizeB usage) KBuffer (be_buffer_ok e) buffer (world s) of
        (ok1, buffer', w1) \<Rightarrow>
       if \<not> ok1 then ((buffer', bufferMemory), s\<lparr>world := w1\<rparr>)
       else
     (case vkAllocateMemory (be_req_size e) (findMemoryType s (be_req_typeBits e) properties)
             (be_alloc_ok e) bufferMemory w1 of
        (ok2, memory', w2) \<Rightarrow>
       if \<not> ok2 then ((buffer', memory'), s\<lparr>world := w2\<rparr>)
       else ((buffer', memory'), s\<lparr>world := api (BindBufferMemory buffer' memory') w2\<rparr>)))"

text \<open>\<^verbatim>\<open>copyBuffer\<close>: a one-time command buffer from \<^verbatim>\<open>commandPool\<close>, submitted with
  no semaphore and no fence, then a wait for the queue. The result of the allocation is not
  checked; when it fails the local \<^verbatim>\<open>commandBuffer\<close> keeps its indeterminate value
  \<open>uninit\<close>. The two definitions differ in the queue.\<close>

definition copyBuffer_on :: "handle \<Rightarrow> bool \<Rightarrow> handle \<Rightarrow> handle \<Rightarrow> handle \<Rightarrow> u64
    \<Rightarrow> VulkanRendererNative \<Rightarrow> VulkanRendererNative" where
  "copyBuffer_on queue cb_ok uninit srcBuffer dstBuffer sizeB s =
     (let w = world s;
          commandBuffer = (if cb_ok then fresh w else uninit);
          w1 = api (AllocateCommandBuffers (commandPool s) 1 cb_ok) w;
          w2 = (if cb_ok then w1\<lparr>fresh := fresh w1 + 1\<rparr> else w1);
          w3 = api (CmdCopyBuffer commandBuffer srcBuffer dstBuffer sizeB) w2;
          w4 = api (QueueSubmit queue [commandBuffer] [] VK_NULL_HANDLE) w3;
          w5 = api (QueueWaitIdle queue) w4;
          w6 = api (FreeCommandBuffers (commandPool s) commandBuffer) w5
      in s\<lparr>world := w6\<rparr>)"

definition copyBuffer :: "bool \<Rightarrow> handle \<Rightarrow> handle \<Rightarrow> handle \<Rightarrow> u64
    \<Rightarrow> VulkanRendererNative \<Rightarrow> VulkanRendererNative" where
  "copyBuffer cb_ok uninit srcBuffer dstBuffer sizeB s =
     copyBuffer_on (transferQueue s) cb_ok uninit srcBuffer dstBuffer sizeB s"

definition copyBuffer_vk_buffer :: "bool \<Rightarrow> handle \<Rightarrow> handle \<Rightarrow> handle \<Rightarrow> u64
    \<Rightarrow> VulkanRendererNative \<Rightarrow> VulkanRendererNative" where
  "copyBuffer_vk_buffer cb_ok uninit srcBuffer dstBuffer sizeB s =
     copyBuffer_on (graphicsQueue s) cb_ok uninit srcBuffer dstBuffer sizeB s"


section \<open>Resources: meshes, textures, shaders, pipelines\<close>

text \<open>The four stubs of \<^verbatim>\<open>vulkan_renderer_native.cpp\<close>: each is
  \<^verbatim>\<open>return nextResourceId++;\<close> and registers nothing.\<close>

definition loadMesh :: "u32 list \<Rightarrow> c_int \<Rightarrow> u32 list \<Rightarrow> c_int \<Rightarrow> u32 list \<Rightarrow> c_int
    \<Rightarrow> u32 list \<Rightarrow> c_int \<Rightarrow> VulkanRendererNative \<Rightarrow> u64 \<times> VulkanRendererNative" where
  "loadMesh vertices vertexCount indices indexCount' normals normalCount uvs uvCount s =
     (nextResourceId s, s\<lparr>nextResourceId := nextResourceId s + 1\<rparr>)"

definition loadTexture :: "8 word list \<Rightarrow> c_int \<Rightarrow> c_int \<Rightarrow> c_int
    \<Rightarrow> VulkanRendererNative \<Rightarrow> u64 \<times> VulkanRendererNative" where
  "loadTexture pixels width height format s =
     (nextResourceId s, s\<lparr>nextResourceId := nextResourceId s + 1\<rparr>)"

definition compileShader :: "8 word list \<Rightarrow> c_int \<Rightarrow> c_int
    \<Rightarrow> VulkanRendererNative \<Rightarrow> u64 \<times> VulkanRendererNative" where
  "compileShader spirvCode codeSize stage' s =
     (nextResourceId s, s\<lparr>nextResourceId := nextResourceId s + 1\<rparr>)"

definition createGraphicsPipeline :: "u64 \<Rightarrow> u64 \<Rightarrow> c_int list
    \<Rightarrow> VulkanRendererNative \<Rightarrow> u64 \<times> VulkanRendererNative" where
  "createGraphicsPipeline vertexShader fragmentShader config s =
     (nextResourceId s, s\<lparr>nextResourceId := nextResourceId s + 1\<rparr>)"

text \<open>\<^verbatim>\<open>loadTexture\<close> of \<^verbatim>\<open>vk_texture.cpp\<close>. \<open>texture_env\<close> is what the driver
  answers: the results of \<^verbatim>\<open>vkCreateImage\<close>, \<^verbatim>\<open>vkAllocateMemory\<close>,
  \<^verbatim>\<open>vkCreateImageView\<close> and \<^verbatim>\<open>vkCreateSampler\<close>, and the image's memory
  requirements. \<^verbatim>\<open>std::make_shared<Texture>()\<close> value-initialises the struct: its
  handles start null. The struct has no destructor, so dropping the pointer on an early
  return destroys no Vulkan object.\<close>

record texture_env =
  te_image_ok :: bool
  te_req_size :: u64
  te_req_typeBits :: u32
  te_alloc_ok :: bool
  te_view_ok :: bool
  te_sampler_ok :: bool

definition loadTexture_vk_texture :: "texture_env \<Rightarrow> 8 word list \<Rightarrow> c_int \<Rightarrow> c_int \<Rightarrow> c_int
    \<Rightarrow> VulkanRendererNative \<Rightarrow> u64 \<times> VulkanRendererNative" where
  "loadTexture_vk_texture e pixels width height format s =
     (let texture = \<lparr>image = VK_NULL_HANDLE, imageView = VK_NULL_HANDLE,
                     sampler = VK_NULL_HANDLE, memory = VK_NULL_HANDLE\<rparr>;
          imageInfo = \<lparr>ici_width = width, ici_height = height, ici_depth = 1,
                       ici_mipLevels = 1, ici_arrayLayers = 1,
                       ici_format = VK_FORMAT_R8G8B8A8_UNORM,
                       ici_usage = VK_IMAGE_USAGE_TRANSFER_DST_BIT OR VK_IMAGE_USAGE_SAMPLED_BIT\<rparr>
      in case vkCreateWith (CreateImage imageInfo) KImage (te_image_ok e) (image texture) (world s) of
        (ok1, img, w1) \<Rightarrow>
      if \<not> ok1 then (0, s\<lparr>world := w1\<rparr>)
      else
      case vkAllocateMemory (te_req_size e)
             (findMemoryType s (te_req_typeBits e) VK_MEMORY_PROPERTY_DEVICE_LOCAL_BIT)
             (te_alloc_ok e) (memory texture) w1 of
        (ok2, mem, w2) \<Rightarrow>
      if \<not> ok2 then (0, s\<lparr>world := w2\<rparr>)
      else
      let w3 = api (BindImageMemory img mem) w2;
          viewInfo = \<lparr>ivi_image = img, ivi_format = VK_FORMAT_R8G8B8A8_UNORM,
                      ivi_levelCount = 1, ivi_layerCount = 1\<rparr>
      in case vkCreateWith (CreateImageView viewInfo) KImageView (te_view_ok e)
                (imageView texture) w3 of
        (ok3, view, w4) \<Rightarrow>
      if \<not> ok3 then (0, s\<lparr>world := w4\<rparr>)
      else
      case vkCreate KSampler (te_sampler_ok e) (sampler texture) w4 of
        (ok4, smp, w5) \<Rightarrow>
      if \<not> ok4 then (0, s\<lparr>world := w5\<rparr>)
      else
      let h = nextResourceId s
      in (h, s\<lparr>nextResourceId := nextResourceId s + 1,
               textures := (textures s)(h \<mapsto>
                   \<lparr>image = img, imageView = view, sampler = smp, memory = mem\<rparr>),
               world := w5\<rparr>))"

text \<open>\<^verbatim>\<open>compileShader\<close> of \<^verbatim>\<open>vk_shader.cpp\<close>; \<open>module_ok\<close> is the result of
  \<^verbatim>\<open>vkCreateShaderModule\<close>.\<close>

definition compileShader_vk_shader :: "bool \<Rightarrow> 8 word list \<Rightarrow> c_int \<Rightarrow> c_int
    \<Rightarrow> VulkanRendererNative \<Rightarrow> u64 \<times> VulkanRendererNative" where
  "compileShader_vk_shader module_ok spirvCode codeSize stage' s =
     (case vkCreateWith (CreateShaderModule (scast codeSize)) KShaderModule module_ok
             VK_NULL_HANDLE (world s) of
        (ok, m, w1) \<Rightarrow>
      if \<not> ok then (0, s\<lparr>world := w1\<rparr>)
      else
      let h = nextResourceId s
      in (h, s\<lparr>nextResourceId := nextResourceId s + 1,
               shaders := (shaders s)(h \<mapsto> \<lparr>module = m, stage = stage'\<rparr>),
               world := w1\<rparr>))"

text \<open>\<^verbatim>\<open>loadMesh\<close> of \<^verbatim>\<open>vk_buffer.cpp\<close>, with the \<^verbatim>\<open>createBuffer\<close> and
  \<^verbatim>\<open>copyBuffer\<close> of the same file. It has no failing path. The locals
  \<^verbatim>\<open>stagingBuffer\<close> and \<^verbatim>\<open>stagingBufferMemory\<close> are not initialised: they start
  with the indeterminate values \<open>me_uninit_buffer\<close> and \<open>me_uninit_memory\<close>.\<close>

record mesh_env =
  me_uninit_buffer :: handle
  me_uninit_memory :: handle
  me_uninit_cb :: handle
  me_staging1 :: buffer_env
  me_vertex :: buffer_env
  me_copy1_ok :: bool
  me_staging2 :: buffer_env
  me_index :: buffer_env
  me_copy2_ok :: bool

text \<open>\<open>stage_in\<close> is the three lines \<^verbatim>\<open>vkMapMemory; memcpy; vkUnmapMemory\<close> and
  \<open>drop_staging\<close> the two lines \<^verbatim>\<open>vkDestroyBuffer; vkFreeMemory\<close>, which
  \<^verbatim>\<open>loadMesh\<close> has once for the vertices and once for the indices.\<close>

definition stage_in :: "handle \<Rightarrow> u64 \<Rightarrow> VulkanRendererNative \<Rightarrow> VulkanRendererNative" where
  "stage_in stagingBufferMemory bufferSize s =
     s\<lparr>world := api (UnmapMemory stagingBufferMemory)
                   (api (Memcpy bufferSize)
                     (api (MapMemory stagingBufferMemory bufferSize) (world s)))\<rparr>"

definition drop_staging :: "handle \<Rightarrow> handle \<Rightarrow> VulkanRendererNative \<Rightarrow> VulkanRendererNative" where
  "drop_staging stagingBuffer stagingBufferMemory s =
     s\<lparr>world := vkFreeMemory stagingBufferMemory (vkDestroy KBuffer stagingBuffer (world s))\<rparr>"

definition loadMesh_vk_buffer :: "mesh_env \<Rightarrow> u32 list \<Rightarrow> c_int \<Rightarrow> u32 list \<Rightarrow> c_int
    \<Rightarrow> u32 list \<Rightarrow> c_int \<Rightarrow> u32 list \<Rightarrow> c_int
    \<Rightarrow> VulkanRendererNative \<Rightarrow> u64 \<times> VulkanRendererNative" where
  "loadMesh_vk_buffer e vertices vertexCount indices indexCount' normals normalCount uvs uvCount s =
     (let bufferSize = scast vertexCount * 4;
          ((stagingBuffer, stagingBufferMemory), s1) =
             createBuffer_vk_buffer (me_staging1 e) bufferSize VK_BUFFER_USAGE_TRANSFER_SRC_BIT
               (VK_MEMORY_PROPERTY_HOST_VISIBLE_BIT OR VK_MEMORY_PROPERTY_HOST_COHERENT_BIT)
               (me_uninit_buffer e) (me_uninit_memory e) s;
          s2 = stage_in stagingBufferMemory bufferSize s1;
          ((vb, vm), s3) =
             createBuffer_vk_buffer (me_vertex e) bufferSize
               (VK_BUFFER_USAGE_TRANSFER_DST_BIT OR VK_BUFFER_USAGE_VERTEX_BUFFER_BIT)
               VK_MEMORY_PROPERTY_DEVICE_LOCAL_BIT VK_NULL_HANDLE VK_NULL_HANDLE s2;
          s4 = copyBuffer_vk_buffer (me_copy1_ok e) (me_uninit_cb e) stagingBuffer vb bufferSize s3;
          s5 = drop_staging stagingBuffer stagingBufferMemory s4;
          bufferSize2 = scast indexCount' * 4;
          ((stagingBuffer2, stagingBufferMemory2), s6) =
             createBuffer_vk_buffer (me_staging2 e) bufferSize2 VK_BUFFER_USAGE_TRANSFER_SRC_BIT
               (VK_MEMORY_PROPERTY_HOST_VISIBLE_BIT OR VK_MEMORY_PROPERTY_HOST_COHERENT_BIT)
               stagingBuffer stagingBufferMemory s5;
          s7 = stage_in stagingBufferMemory2 bufferSize2 s6;
          ((ib, im), s8) =
             createBuffer_vk_buffer (me_index e) bufferSize2
               (VK_BUFFER_USAGE_TRANSFER_DST_BIT OR VK_BUFFER_USAGE_INDEX_BUFFER_BIT)
               VK_MEMORY_PROPERTY_DEVICE_LOCAL_BIT VK_NULL_HANDLE VK_NULL_HANDLE s7;
          s9 = copyBuffer_vk_buffer (me_copy2_ok e) (me_uninit_cb e) stagingBuffer2 ib bufferSize2 s8;
          s10 = drop_staging stagingBuffer2 stagingBufferMemory2 s9;
          h = nextResourceId s10
      in (h, s10\<lparr>nextResourceId := nextResourceId s10 + 1,
                 meshes := (meshes s10)(h \<mapsto>
                    \<lparr>vertexBuffer = vb, indexBuffer = ib, vertexMemory = vm,
                     indexMemory = im, indexCount = indexCount'\<rparr>)\<rparr>))"

text \<open>One call of the resource interface, with what the driver answers during it, and
  whether the call succeeds (the stubs and \<^verbatim>\<open>loadMesh\<close> have no failing path).\<close>

datatype resource_call =
    LoadMesh "u32 list" c_int "u32 list" c_int "u32 list" c_int "u32 list" c_int
  | LoadMesh_vk_buffer mesh_env "u32 list" c_int "u32 list" c_int "u32 list" c_int "u32 list" c_int
  | LoadTexture "8 word list" c_int c_int c_int
  | LoadTexture_vk_texture texture_env "8 word list" c_int c_int c_int
  | CompileShader "8 word list" c_int c_int
  | CompileShader_vk_shader bool "8 word list" c_int c_int
  | CreateGraphicsPipeline u64 u64 "c_int list"

fun run_call :: "resource_call \<Rightarrow> VulkanRendererNative \<Rightarrow> u64 \<times> VulkanRendererNative" where
  "run_call (LoadMesh v vc i ic n nc u uc) s = loadMesh v vc i ic n nc u uc s"
| "run_call (LoadMesh_vk_buffer e v vc i ic n nc u uc) s = loadMesh_vk_buffer e v vc i ic n nc u uc s"
| "run_call (LoadTexture p w h f) s = loadTexture p w h f s"
| "run_call (LoadTexture_vk_texture e p w h f) s = loadTexture_vk_texture e p w h f s"
| "run_call (CompileShader c n st) s = compileShader c n st s"
| "run_call (CompileShader_vk_shader ok c n st) s = compileShader_vk_shader ok c n st s"
| "run_call (CreateGraphicsPipeline vs fs cfg) s = createGraphicsPipeline vs fs cfg s"

fun call_fails :: "resource_call \<Rightarrow> bool" where
  "call_fails (LoadTexture_vk_texture e p w h f) =
     (\<not> te_image_ok e \<or> \<not> te_alloc_ok e \<or> \<not> te_view_ok e \<or> \<not> te_sampler_ok e)"
| "call_fails (CompileShader_vk_shader ok c n st) = (\<not> ok)"
| "call_fails _ = False"

text \<open>A sequence of calls on one renderer: the handles returned, in call order, and the
  renderer afterwards.\<close>

fun run_calls :: "resource_call list \<Rightarrow> VulkanRendererNative \<Rightarrow> u64 list \<times> VulkanRendererNative" where
  "run_calls [] s = ([], s)"
| "run_calls (c # cs) s =
     (case run_call c s of (h, s1) \<Rightarrow>
        (case run_calls cs s1 of (hs, s2) \<Rightarrow> (h # hs, s2)))"


section \<open>Construction and initialisation\<close>

text \<open>The constructor sets every handle to \<^verbatim>\<open>VK_NULL_HANDLE\<close>, the queue families to
  \<^verbatim>\<open>UINT32_MAX\<close> and \<^verbatim>\<open>nextResourceId\<close> to 1; the containers start empty.
  \<^verbatim>\<open>deviceProperties\<close> is not initialised: it starts with the indeterminate value
  \<open>uninit\<close>. \<open>w\<close> is the driver the object will talk to.\<close>

definition new_VulkanRendererNative :: "VkPhysicalDeviceProperties \<Rightarrow> vk_world \<Rightarrow> VulkanRendererNative" where
  "new_VulkanRendererNative uninit w =
     \<lparr>instance_h = VK_NULL_HANDLE, physicalDevice = VK_NULL_HANDLE, device = VK_NULL_HANDLE,
      graphicsQueue = VK_NULL_HANDLE, computeQueue = VK_NULL_HANDLE,
      transferQueue = VK_NULL_HANDLE, surface = VK_NULL_HANDLE, swapchain = VK_NULL_HANDLE,
      swapchainImages = [], swapchainImageViews = [], framebuffers = [],
      renderPass = VK_NULL_HANDLE, commandPool = VK_NULL_HANDLE,
      computeCommandPool = VK_NULL_HANDLE, commandBuffers = [],
      imageAvailableSemaphore = VK_NULL_HANDLE, renderFinishedSemaphore = VK_NULL_HANDLE,
      inFlightFence = VK_NULL_HANDLE, descriptorPool = VK_NULL_HANDLE,
      descriptorSetLayout = VK_NULL_HANDLE, deviceProperties = uninit,
      graphicsQueueFamily = UINT32_MAX, computeQueueFamily = UINT32_MAX,
      transferQueueFamily = UINT32_MAX, currentFrame = 0, imageIndex = 0,
      swapchainExtent = (0, 0), swapchainFormat = VK_FORMAT_UNDEFINED,
      meshes = Map.empty, textures = Map.empty, shaders = Map.empty, pipelines = Map.empty,
      nextResourceId = 1, world = w\<rparr>"

text \<open>A driver on which nothing has been called yet.\<close>

definition new_world :: "VkPhysicalDeviceMemoryProperties \<Rightarrow> vk_world" where
  "new_world mp = \<lparr>calls = [], live = {}, fresh = 1, memProperties = mp\<rparr>"

text \<open>What the driver answers during \<^verbatim>\<open>initialize\<close>: the result of each creation,
  the physical devices it enumerates (handle and properties), the \<^verbatim>\<open>queueFlags\<close> of
  the queue families of the device, and the queue of each family.\<close>

record init_env =
  ie_instance_ok :: bool
  ie_devices :: "(handle \<times> VkPhysicalDeviceProperties) list"
  ie_queueFamilies :: "u32 list"
  ie_device_ok :: bool
  ie_queueOf :: "u32 \<Rightarrow> handle"
  ie_commandPool_ok :: bool
  ie_computeCommandPool_ok :: bool
  ie_imageAvailable_ok :: bool
  ie_renderFinished_ok :: bool
  ie_inFlight_ok :: bool
  ie_descriptorPool_ok :: bool

text \<open>\<^verbatim>\<open>createInstance\<close> (the same in \<^verbatim>\<open>vulkan_renderer_native.cpp\<close> and
  \<^verbatim>\<open>vk_instance.cpp\<close>).\<close>

definition createInstance :: "init_env \<Rightarrow> VulkanRendererNative \<Rightarrow> bool \<times> VulkanRendererNative" where
  "createInstance e s =
     (case vkCreate KInstance (ie_instance_ok e) (instance_h s) (world s) of
        (ok, h, w) \<Rightarrow> (ok, s\<lparr>instance_h := h, world := w\<rparr>))"

text \<open>\<^verbatim>\<open>pickPhysicalDevice\<close> (both files): no device is a failure; otherwise the loop
  returns in its first iteration, with the first device and its properties.\<close>

definition pickPhysicalDevice :: "init_env \<Rightarrow> VulkanRendererNative \<Rightarrow> bool \<times> VulkanRendererNative" where
  "pickPhysicalDevice e s =
     (case ie_devices e of
        [] \<Rightarrow> (False, s)
      | (dev, properties) # _ \<Rightarrow>
          (True, s\<lparr>physicalDevice := dev, deviceProperties := properties\<rparr>))"

text \<open>The loop over the queue families, in both definitions of
  \<^verbatim>\<open>createLogicalDevice\<close>:
  \<^verbatim>\<open>for (uint32_t i = 0; i < queueFamilyCount; i++) {
    if (queueFamilies[i].queueFlags & VK_QUEUE_GRAPHICS_BIT) graphicsQueueFamily = i;
    if (queueFamilies[i].queueFlags & VK_QUEUE_COMPUTE_BIT) computeQueueFamily = i;
    if (queueFamilies[i].queueFlags & VK_QUEUE_TRANSFER_BIT) transferQueueFamily = i; }\<close>
  The triple is (graphics, compute, transfer).\<close>

fun scanQueueFamilies :: "u32 list \<Rightarrow> u32 \<Rightarrow> u32 \<times> u32 \<times> u32 \<Rightarrow> u32 \<times> u32 \<times> u32" where
  "scanQueueFamilies [] i gct = gct"
| "scanQueueFamilies (queueFlags # rest) i (g, c, t) =
     scanQueueFamilies rest (i + 1)
       (if queueFlags AND VK_QUEUE_GRAPHICS_BIT \<noteq> 0 then i else g,
        if queueFlags AND VK_QUEUE_COMPUTE_BIT \<noteq> 0 then i else c,
        if queueFlags AND VK_QUEUE_TRANSFER_BIT \<noteq> 0 then i else t)"

text \<open>\<^verbatim>\<open>createLogicalDevice\<close> of \<^verbatim>\<open>vulkan_renderer_native.cpp\<close>: the scan starts
  from the fields as they are, the compute and transfer fields fall back to the graphics
  family, and one queue serves the three roles.\<close>

definition createLogicalDevice :: "init_env \<Rightarrow> VulkanRendererNative \<Rightarrow> bool \<times> VulkanRendererNative" where
  "createLogicalDevice e s =
     (case scanQueueFamilies (ie_queueFamilies e) 0
             (graphicsQueueFamily s, computeQueueFamily s, transferQueueFamily s) of
        (g, c, t) \<Rightarrow>
      let s1 = s\<lparr>graphicsQueueFamily := g, computeQueueFamily := c, transferQueueFamily := t\<rparr>
      in if g = UINT32_MAX then (False, s1)
      else
      let s2 = s1\<lparr>computeQueueFamily := (if c = UINT32_MAX then g else c),
                  transferQueueFamily := (if t = UINT32_MAX then g else t)\<rparr>
      in case vkCreate KDevice (ie_device_ok e) (device s2) (world s2) of
        (ok, dev, w) \<Rightarrow>
      if \<not> ok then (False, s2\<lparr>device := dev, world := w\<rparr>)
      else
      let q = ie_queueOf e g
      in (True, s2\<lparr>device := dev, graphicsQueue := q, computeQueue := q, transferQueue := q,
                   world := api (GetDeviceQueue g q) w\<rparr>))"

text \<open>\<^verbatim>\<open>createLogicalDevice\<close> of \<^verbatim>\<open>vk_device.cpp\<close>: the fields are reset before
  the scan and keep what the scan found; the fallback to the graphics family is taken
  where the queues are fetched.\<close>

definition createLogicalDevice_vk_device :: "init_env \<Rightarrow> VulkanRendererNative \<Rightarrow> bool \<times> VulkanRendererNative" where
  "createLogicalDevice_vk_device e s =
     (case scanQueueFamilies (ie_queueFamilies e) 0 (UINT32_MAX, UINT32_MAX, UINT32_MAX) of
        (g, c, t) \<Rightarrow>
      let s1 = s\<lparr>graphicsQueueFamily := g, computeQueueFamily := c, transferQueueFamily := t\<rparr>
      in if g = UINT32_MAX then (False, s1)
      else
      case vkCreate KDevice (ie_device_ok e) (device s1) (world s1) of
        (ok, dev, w) \<Rightarrow>
      if \<not> ok then (False, s1\<lparr>device := dev, world := w\<rparr>)
      else
      let cf = (if c \<noteq> UINT32_MAX then c else g);
          tf = (if t \<noteq> UINT32_MAX then t else g)
      in (True, s1\<lparr>device := dev,
                   graphicsQueue := ie_queueOf e g,
                   computeQueue := ie_queueOf e cf,
                   transferQueue := ie_queueOf e tf,
                   world := api (GetDeviceQueue tf (ie_queueOf e tf))
                             (api (GetDeviceQueue cf (ie_queueOf e cf))
                               (api (GetDeviceQueue g (ie_queueOf e g)) w))\<rparr>))"

definition createCommandPools :: "init_env \<Rightarrow> VulkanRendererNative \<Rightarrow> bool \<times> VulkanRendererNative" where
  "createCommandPools e s =
     (case vkCreate KCommandPool (ie_commandPool_ok e) (commandPool s) (world s) of
        (ok1, p1, w1) \<Rightarrow>
      if \<not> ok1 then (False, s\<lparr>commandPool := p1, world := w1\<rparr>)
      else
      case vkCreate KCommandPool (ie_computeCommandPool_ok e) (computeCommandPool s) w1 of
        (ok2, p2, w2) \<Rightarrow>
      (ok2, s\<lparr>commandPool := p1, computeCommandPool := p2, world := w2\<rparr>))"

text \<open>\<^verbatim>\<open>createSyncObjects\<close>: the three creations are the operands of \<^verbatim>\<open>||\<close>, so
  the first failure skips the rest.\<close>

definition createSyncObjects :: "init_env \<Rightarrow> VulkanRendererNative \<Rightarrow> bool \<times> VulkanRendererNative" where
  "createSyncObjects e s =
     (case vkCreate KSemaphore (ie_imageAvailable_ok e) (imageAvailableSemaphore s) (world s) of
        (ok1, h1, w1) \<Rightarrow>
      if \<not> ok1 then (False, s\<lparr>imageAvailableSemaphore := h1, world := w1\<rparr>)
      else
      case vkCreate KSemaphore (ie_renderFinished_ok e) (renderFinishedSemaphore s) w1 of
        (ok2, h2, w2) \<Rightarrow>
      if \<not> ok2
      then (False, s\<lparr>imageAvailableSemaphore := h1, renderFinishedSemaphore := h2, world := w2\<rparr>)
      else
      case vkCreate KFence (ie_inFlight_ok e) (inFlightFence s) w2 of
        (ok3, h3, w3) \<Rightarrow>
      (ok3, s\<lparr>imageAvailableSemaphore := h1, renderFinishedSemaphore := h2,
               inFlightFence := h3, world := w3\<rparr>))"

definition createDescriptorPool :: "init_env \<Rightarrow> VulkanRendererNative \<Rightarrow> bool \<times> VulkanRendererNative" where
  "createDescriptorPool e s =
     (case vkCreate KDescriptorPool (ie_descriptorPool_ok e) (descriptorPool s) (world s) of
        (ok, h, w) \<Rightarrow> (ok, s\<lparr>descriptorPool := h, world := w\<rparr>))"

text \<open>\<^verbatim>\<open>initialize\<close>: six steps, each \<^verbatim>\<open>if (!step()) return false;\<close>. \<open>cld\<close> is the
  definition of \<^verbatim>\<open>createLogicalDevice\<close> that is linked.\<close>

definition initialize_with ::
    "(init_env \<Rightarrow> VulkanRendererNative \<Rightarrow> bool \<times> VulkanRendererNative)
     \<Rightarrow> init_env \<Rightarrow> VulkanRendererNative \<Rightarrow> bool \<times> VulkanRendererNative" where
  "initialize_with cld e s =
     (case createInstance e s of (ok1, s1) \<Rightarrow>
      if \<not> ok1 then (False, s1) else
      case pickPhysicalDevice e s1 of (ok2, s2) \<Rightarrow>
      if \<not> ok2 then (False, s2) else
      case cld e s2 of (ok3, s3) \<Rightarrow>
      if \<not> ok3 then (False, s3) else
      case createCommandPools e s3 of (ok4, s4) \<Rightarrow>
      if \<not> ok4 then (False, s4) else
      case createSyncObjects e s4 of (ok5, s5) \<Rightarrow>
      if \<not> ok5 then (False, s5) else
      case createDescriptorPool e s5 of (ok6, s6) \<Rightarrow>
      if \<not> ok6 then (False, s6) else
      (True, s6))"

definition initialize :: "init_env \<Rightarrow> VulkanRendererNative \<Rightarrow> bool \<times> VulkanRendererNative" where
  "initialize = initialize_with createLogicalDevice"

definition initialize_vk_device :: "init_env \<Rightarrow> VulkanRendererNative \<Rightarrow> bool \<times> VulkanRendererNative" where
  "initialize_vk_device = initialize_with createLogicalDevice_vk_device"


section \<open>The presentation objects\<close>

text \<open>What the driver answers while the swapchain and its dependants are built: the
  results of the creations (per index for image views and framebuffers), the images of the
  swapchain, and, for \<^verbatim>\<open>vk_swapchain.cpp\<close>, the surface's capabilities, formats
  (format and colour space; \<^verbatim>\<open>formats[0]\<close> is read unguarded, so the first one is a
  field of its own) and present modes.\<close>

record swap_env =
  se_swapchain_ok :: bool
  se_images :: "handle list"
  se_view_ok :: "nat \<Rightarrow> bool"
  se_renderPass_ok :: bool
  se_framebuffer_ok :: "nat \<Rightarrow> bool"
  se_commandBuffers_ok :: bool
  se_minImageCount :: u32
  se_maxImageCount :: u32
  se_currentExtent :: "u32 \<times> u32"
  se_format0 :: "nat \<times> nat"
  se_formats :: "(nat \<times> nat) list"
  se_presentModes :: "nat list"

text \<open>\<^verbatim>\<open>std::vector::resize\<close>: new entries are null handles.\<close>

definition resize :: "nat \<Rightarrow> handle list \<Rightarrow> handle list" where
  "resize n xs = take n xs @ replicate (n - length xs) VK_NULL_HANDLE"

text \<open>The image-view loop of \<^verbatim>\<open>createSwapchain\<close> in
  \<^verbatim>\<open>vulkan_renderer_native.cpp\<close>, which ignores the result of
  \<^verbatim>\<open>vkCreateImageView\<close>; \<open>i\<close> is the loop index and \<open>views\<close> the vector
  \<^verbatim>\<open>swapchainImageViews\<close>.\<close>

fun createImageViews :: "(nat \<Rightarrow> bool) \<Rightarrow> nat \<Rightarrow> handle list \<Rightarrow> nat \<Rightarrow> handle list \<Rightarrow> vk_world
    \<Rightarrow> handle list \<times> vk_world" where
  "createImageViews ok fmt [] i views w = (views, w)"
| "createImageViews ok fmt (img # imgs) i views w =
     (case vkCreateWith
             (CreateImageView \<lparr>ivi_image = img, ivi_format = fmt,
                                ivi_levelCount = 1, ivi_layerCount = 1\<rparr>)
             KImageView (ok i) (views ! i) w of
        (r, v, w1) \<Rightarrow> createImageViews ok fmt imgs (Suc i) (views[i := v]) w1)"

text \<open>The same loop in \<^verbatim>\<open>vk_swapchain.cpp\<close>, which returns \<^verbatim>\<open>false\<close> at the first
  view that cannot be created.\<close>

fun createImageViews_vk_swapchain :: "(nat \<Rightarrow> bool) \<Rightarrow> nat \<Rightarrow> handle list \<Rightarrow> nat \<Rightarrow> handle list
    \<Rightarrow> vk_world \<Rightarrow> bool \<times> handle list \<times> vk_world" where
  "createImageViews_vk_swapchain ok fmt [] i views w = (True, views, w)"
| "createImageViews_vk_swapchain ok fmt (img # imgs) i views w =
     (case vkCreateWith
             (CreateImageView \<lparr>ivi_image = img, ivi_format = fmt,
                                ivi_levelCount = 1, ivi_layerCount = 1\<rparr>)
             KImageView (ok i) (views ! i) w of
        (r, v, w1) \<Rightarrow>
          if \<not> r then (False, views[i := v], w1)
          else createImageViews_vk_swapchain ok fmt imgs (Suc i) (views[i := v]) w1)"

definition createSwapchain :: "swap_env \<Rightarrow> VulkanRendererNative \<Rightarrow> bool \<times> VulkanRendererNative" where
  "createSwapchain e s =
     (let s0 = s\<lparr>swapchainFormat := VK_FORMAT_B8G8R8A8_UNORM\<rparr>;
          createInfo = \<lparr>sci_surface = surface s0, sci_minImageCount = 2,
                        sci_imageFormat = swapchainFormat s0,
                        sci_imageColorSpace = VK_COLOR_SPACE_SRGB_NONLINEAR_KHR,
                        sci_extent = swapchainExtent s0,
                        sci_presentMode = VK_PRESENT_MODE_FIFO_KHR\<rparr>
      in case vkCreateWith (CreateSwapchain createInfo) KSwapchain (se_swapchain_ok e)
                (swapchain s0) (world s0) of
        (ok, sc, w) \<Rightarrow>
      if \<not> ok then (False, s0\<lparr>swapchain := sc, world := w\<rparr>)
      else
      case createImageViews (se_view_ok e) (swapchainFormat s0) (se_images e) 0
             (resize (length (se_images e)) (swapchainImageViews s0)) w of
        (views, w1) \<Rightarrow>
      (True, s0\<lparr>swapchain := sc, swapchainImages := se_images e,
                 swapchainImageViews := views, world := w1\<rparr>))"

text \<open>The choices of \<^verbatim>\<open>createSwapchain\<close> in \<^verbatim>\<open>vk_swapchain.cpp\<close>: the first
  sRGB BGRA format, else \<^verbatim>\<open>formats[0]\<close>; mailbox if offered, else FIFO; one image
  more than the minimum, capped by a non-zero maximum.\<close>

fun chooseFormat :: "nat \<times> nat \<Rightarrow> (nat \<times> nat) list \<Rightarrow> nat \<times> nat" where
  "chooseFormat d [] = d"
| "chooseFormat d (f # fs) =
     (if fst f = VK_FORMAT_B8G8R8A8_SRGB \<and> snd f = VK_COLOR_SPACE_SRGB_NONLINEAR_KHR
      then f else chooseFormat d fs)"

definition choosePresentMode :: "nat list \<Rightarrow> nat" where
  "choosePresentMode presentModes =
     (if VK_PRESENT_MODE_MAILBOX_KHR \<in> set presentModes
      then VK_PRESENT_MODE_MAILBOX_KHR else VK_PRESENT_MODE_FIFO_KHR)"

definition chooseImageCount :: "u32 \<Rightarrow> u32 \<Rightarrow> u32" where
  "chooseImageCount minImageCount maxImageCount =
     (let imageCount = minImageCount + 1
      in if maxImageCount > 0 \<and> imageCount > maxImageCount then maxImageCount else imageCount)"

definition createSwapchain_vk_swapchain :: "swap_env \<Rightarrow> VulkanRendererNative \<Rightarrow> bool \<times> VulkanRendererNative" where
  "createSwapchain_vk_swapchain e s =
     (let surfaceFormat = chooseFormat (se_format0 e) (se_format0 e # se_formats e);
          s0 = s\<lparr>swapchainFormat := fst surfaceFormat\<rparr>;
          s1 = (if fst (se_currentExtent e) \<noteq> UINT32_MAX
                then s0\<lparr>swapchainExtent := se_currentExtent e\<rparr> else s0);
          createInfo = \<lparr>sci_surface = surface s1,
                        sci_minImageCount = chooseImageCount (se_minImageCount e) (se_maxImageCount e),
                        sci_imageFormat = swapchainFormat s1,
                        sci_imageColorSpace = snd surfaceFormat,
                        sci_extent = swapchainExtent s1,
                        sci_presentMode = choosePresentMode (se_presentModes e)\<rparr>
      in case vkCreateWith (CreateSwapchain createInfo) KSwapchain (se_swapchain_ok e)
                (swapchain s1) (world s1) of
        (ok, sc, w) \<Rightarrow>
      if \<not> ok then (False, s1\<lparr>swapchain := sc, world := w\<rparr>)
      else
      case createImageViews_vk_swapchain (se_view_ok e) (swapchainFormat s1) (se_images e) 0
             (resize (length (se_images e)) (swapchainImageViews s1)) w of
        (r, views, w1) \<Rightarrow>
      (r, s1\<lparr>swapchain := sc, swapchainImages := se_images e,
              swapchainImageViews := views, world := w1\<rparr>))"

definition createRenderPass :: "swap_env \<Rightarrow> VulkanRendererNative \<Rightarrow> bool \<times> VulkanRendererNative" where
  "createRenderPass e s =
     (case vkCreate KRenderPass (se_renderPass_ok e) (renderPass s) (world s) of
        (ok, h, w) \<Rightarrow> (ok, s\<lparr>renderPass := h, world := w\<rparr>))"

text \<open>The loop of \<^verbatim>\<open>createFramebuffers\<close>: one framebuffer per image view, over the
  current render pass and extent; the first failure returns \<^verbatim>\<open>false\<close>.\<close>

fun createFramebuffers_loop :: "(nat \<Rightarrow> bool) \<Rightarrow> handle \<Rightarrow> u32 \<times> u32 \<Rightarrow> handle list \<Rightarrow> nat
    \<Rightarrow> handle list \<Rightarrow> vk_world \<Rightarrow> bool \<times> handle list \<times> vk_world" where
  "createFramebuffers_loop ok rp ext [] i fbs w = (True, fbs, w)"
| "createFramebuffers_loop ok rp ext (view # views) i fbs w =
     (case vkCreateWith (CreateFramebuffer rp view ext) KFramebuffer (ok i) (fbs ! i) w of
        (r, fb, w1) \<Rightarrow>
          if \<not> r then (False, fbs[i := fb], w1)
          else createFramebuffers_loop ok rp ext views (Suc i) (fbs[i := fb]) w1)"

definition createFramebuffers :: "swap_env \<Rightarrow> VulkanRendererNative \<Rightarrow> bool \<times> VulkanRendererNative" where
  "createFramebuffers e s =
     (case createFramebuffers_loop (se_framebuffer_ok e) (renderPass s) (swapchainExtent s)
             (swapchainImageViews s) 0
             (resize (length (swapchainImageViews s)) (framebuffers s)) (world s) of
        (r, fbs, w) \<Rightarrow> (r, s\<lparr>framebuffers := fbs, world := w\<rparr>))"

text \<open>\<^verbatim>\<open>createCommandBuffers\<close>: as many command buffers as framebuffers, from
  \<^verbatim>\<open>commandPool\<close>. Command buffers belong to their pool and are not tracked as live
  objects of their own.\<close>

definition createCommandBuffers :: "swap_env \<Rightarrow> VulkanRendererNative \<Rightarrow> bool \<times> VulkanRendererNative" where
  "createCommandBuffers e s =
     (let n = length (framebuffers s);
          w = world s;
          w1 = api (AllocateCommandBuffers (commandPool s) n (se_commandBuffers_ok e)) w
      in if se_commandBuffers_ok e
         then (True, s\<lparr>commandBuffers := [fresh w..<fresh w + n],
                       world := w1\<lparr>fresh := fresh w + n\<rparr>\<rparr>)
         else (False, s\<lparr>commandBuffers := resize n (commandBuffers s), world := w1\<rparr>))"

text \<open>\<^verbatim>\<open>setSurface\<close>: the surface, the extent, then the four construction steps, whose
  results are not looked at.\<close>

definition setSurface :: "bool \<Rightarrow> swap_env \<Rightarrow> c_int \<Rightarrow> c_int
    \<Rightarrow> VulkanRendererNative \<Rightarrow> VulkanRendererNative" where
  "setSurface surface_ok e width height s =
     (case vkCreate KSurface surface_ok (surface s) (world s) of
        (ok, h, w) \<Rightarrow>
      if \<not> ok then s\<lparr>surface := h, world := w\<rparr>
      else
      let s1 = s\<lparr>surface := h, world := w, swapchainExtent := (width, height)\<rparr>;
          s2 = snd (createSwapchain e s1);
          s3 = snd (createRenderPass e s2);
          s4 = snd (createFramebuffers e s3);
          s5 = snd (createCommandBuffers e s4)
      in s5)"

definition destroy_all :: "vk_kind \<Rightarrow> handle list \<Rightarrow> vk_world \<Rightarrow> vk_world" where
  "destroy_all k hs w = foldl (\<lambda>w h. vkDestroy k h w) w hs"

text \<open>\<^verbatim>\<open>if (h != VK_NULL_HANDLE) { vkDestroy...(h); h = VK_NULL_HANDLE; }\<close>: the call
  that is made; the field is null afterwards in both cases.\<close>

definition destroy_if :: "vk_kind \<Rightarrow> handle \<Rightarrow> vk_world \<Rightarrow> vk_world" where
  "destroy_if k h w = (if h \<noteq> VK_NULL_HANDLE then vkDestroy k h w else w)"

text \<open>\<^verbatim>\<open>destroySwapchain\<close> of \<^verbatim>\<open>vulkan_renderer_native.cpp\<close>: every framebuffer,
  every image view (the vectors are cleared), then the render pass and the swapchain if
  they are not null. The calls are made in this order, innermost first.\<close>

definition destroySwapchain :: "VulkanRendererNative \<Rightarrow> VulkanRendererNative" where
  "destroySwapchain s =
     s\<lparr>world :=
         destroy_if KSwapchain (swapchain s)
           (destroy_if KRenderPass (renderPass s)
             (destroy_all KImageView (swapchainImageViews s)
               (destroy_all KFramebuffer (framebuffers s) (world s)))),
       framebuffers := [], swapchainImageViews := [],
       renderPass := VK_NULL_HANDLE, swapchain := VK_NULL_HANDLE\<rparr>"

text \<open>\<^verbatim>\<open>destroySwapchain\<close> of \<^verbatim>\<open>vk_swapchain.cpp\<close>: the image views and the
  swapchain only.\<close>

definition destroySwapchain_vk_swapchain :: "VulkanRendererNative \<Rightarrow> VulkanRendererNative" where
  "destroySwapchain_vk_swapchain s =
     s\<lparr>world :=
         destroy_if KSwapchain (swapchain s)
           (destroy_all KImageView (swapchainImageViews s) (world s)),
       swapchainImageViews := [], swapchain := VK_NULL_HANDLE\<rparr>"

definition recreateSwapchain :: "swap_env \<Rightarrow> VulkanRendererNative \<Rightarrow> VulkanRendererNative" where
  "recreateSwapchain e s =
     (let s1 = s\<lparr>world := api (DeviceWaitIdle (device s)) (world s)\<rparr>;
          s2 = destroySwapchain s1;
          s3 = snd (createSwapchain e s2);
          s4 = snd (createRenderPass e s3);
          s5 = snd (createFramebuffers e s4);
          s6 = snd (createCommandBuffers e s5)
      in s6)"

definition recreateSwapchain_vk_swapchain :: "swap_env \<Rightarrow> VulkanRendererNative \<Rightarrow> VulkanRendererNative" where
  "recreateSwapchain_vk_swapchain e s =
     (let s1 = s\<lparr>world := api (DeviceWaitIdle (device s)) (world s)\<rparr>;
          s2 = destroySwapchain_vk_swapchain s1;
          s3 = s2\<lparr>world := destroy_all KFramebuffer (framebuffers s2) (world s2),
                  framebuffers := []\<rparr>;
          s4 = snd (createSwapchain_vk_swapchain e s3);
          s5 = snd (createFramebuffers e s4)
      in s5)"


section \<open>Frames\<close>

text \<open>\<^verbatim>\<open>beginFrame\<close>: wait for the fence, reset it, acquire an image signalling
  \<^verbatim>\<open>imageAvailableSemaphore\<close>. \<open>acquired\<close> is the index the driver writes to
  \<^verbatim>\<open>imageIndex\<close>, \<open>None\<close> when the acquisition fails and writes nothing.\<close>

definition beginFrame :: "u32 option \<Rightarrow> VulkanRendererNative \<Rightarrow> VulkanRendererNative" where
  "beginFrame acquired s =
     (let w1 = api (WaitForFences (inFlightFence s)) (world s);
          w2 = api (ResetFences (inFlightFence s)) w1;
          w3 = api (AcquireNextImage (swapchain s) (imageAvailableSemaphore s)) w2
      in s\<lparr>imageIndex := (case acquired of None \<Rightarrow> imageIndex s | Some i \<Rightarrow> i),
            world := w3\<rparr>)"

text \<open>\<^verbatim>\<open>endFrame\<close>: one \<^verbatim>\<open>vkQueuePresentKHR\<close> on the graphics queue, waiting on
  \<^verbatim>\<open>renderFinishedSemaphore\<close>, for \<^verbatim>\<open>swapchain\<close> and \<^verbatim>\<open>imageIndex\<close>.\<close>

definition endFrame :: "VulkanRendererNative \<Rightarrow> VulkanRendererNative" where
  "endFrame s =
     s\<lparr>world := api (QueuePresent (graphicsQueue s) [renderFinishedSemaphore s]
                        (swapchain s) (imageIndex s)) (world s)\<rparr>"

section \<open>Shutdown\<close>

text \<open>\<^verbatim>\<open>shutdown\<close>, block by block. Inside \<^verbatim>\<open>if (device != VK_NULL_HANDLE)\<close>:
  wait for the device and clear the four tables (the structs in them have no destructor,
  so that destroys no Vulkan object); destroy the fence and the two semaphores; call
  \<^verbatim>\<open>destroySwapchain\<close>; destroy the descriptor pool and the two command pools; destroy
  the device. After the \<^verbatim>\<open>if\<close>: the surface and the instance. Every handle but the
  device's is guarded by \<^verbatim>\<open>!= VK_NULL_HANDLE\<close> and set to null once destroyed. In each
  block the calls are made innermost first. \<open>ds\<close> is the definition of
  \<^verbatim>\<open>destroySwapchain\<close> that is linked.\<close>

definition clear_resources :: "VulkanRendererNative \<Rightarrow> VulkanRendererNative" where
  "clear_resources s =
     s\<lparr>world := api (DeviceWaitIdle (device s)) (world s),
       meshes := Map.empty, textures := Map.empty,
       shaders := Map.empty, pipelines := Map.empty\<rparr>"

definition destroy_sync_objects :: "VulkanRendererNative \<Rightarrow> VulkanRendererNative" where
  "destroy_sync_objects s =
     s\<lparr>world :=
         destroy_if KSemaphore (imageAvailableSemaphore s)
           (destroy_if KSemaphore (renderFinishedSemaphore s)
             (destroy_if KFence (inFlightFence s) (world s))),
       inFlightFence := VK_NULL_HANDLE, renderFinishedSemaphore := VK_NULL_HANDLE,
       imageAvailableSemaphore := VK_NULL_HANDLE\<rparr>"

definition destroy_pools :: "VulkanRendererNative \<Rightarrow> VulkanRendererNative" where
  "destroy_pools s =
     s\<lparr>world :=
         destroy_if KCommandPool (computeCommandPool s)
           (destroy_if KCommandPool (commandPool s)
             (destroy_if KDescriptorPool (descriptorPool s) (world s))),
       descriptorPool := VK_NULL_HANDLE, commandPool := VK_NULL_HANDLE,
       computeCommandPool := VK_NULL_HANDLE\<rparr>"

definition destroy_device :: "VulkanRendererNative \<Rightarrow> VulkanRendererNative" where
  "destroy_device s =
     s\<lparr>world := vkDestroy KDevice (device s) (world s), device := VK_NULL_HANDLE\<rparr>"

definition destroy_surface_and_instance :: "VulkanRendererNative \<Rightarrow> VulkanRendererNative" where
  "destroy_surface_and_instance s =
     s\<lparr>world :=
         destroy_if KInstance (instance_h s) (destroy_if KSurface (surface s) (world s)),
       surface := VK_NULL_HANDLE, instance_h := VK_NULL_HANDLE\<rparr>"

definition shutdown_with :: "(VulkanRendererNative \<Rightarrow> VulkanRendererNative)
    \<Rightarrow> VulkanRendererNative \<Rightarrow> VulkanRendererNative" where
  "shutdown_with ds s =
     destroy_surface_and_instance
       (if device s \<noteq> VK_NULL_HANDLE
        then destroy_device (destroy_pools (ds (destroy_sync_objects (clear_resources s))))
        else s)"

definition shutdown :: "VulkanRendererNative \<Rightarrow> VulkanRendererNative" where
  "shutdown = shutdown_with destroySwapchain"

definition shutdown_vk_swapchain :: "VulkanRendererNative \<Rightarrow> VulkanRendererNative" where
  "shutdown_vk_swapchain = shutdown_with destroySwapchain_vk_swapchain"

section \<open>Device information\<close>

text \<open>\<^verbatim>\<open>std::to_string\<close> of an unsigned value: its decimal digits.\<close>

definition digit :: "nat \<Rightarrow> char" where
  "digit d = ''0123456789'' ! d"

fun to_string :: "nat \<Rightarrow> string" where
  "to_string n = (if n < 10 then [digit n] else to_string (n div 10) @ [digit (n mod 10)])"

declare to_string.simps [simp del]

text \<open>The macros of the Vulkan headers, which are not part of the repository:
  \<^verbatim>\<open>VK_VERSION_MAJOR(v) ((uint32_t)(v) >> 22)\<close>,
  \<^verbatim>\<open>VK_VERSION_MINOR(v) (((uint32_t)(v) >> 12) & 0x3FF)\<close>,
  \<^verbatim>\<open>VK_VERSION_PATCH(v) ((uint32_t)(v) & 0xFFF)\<close>.\<close>

definition VK_VERSION_MAJOR :: "u32 \<Rightarrow> u32" where
  "VK_VERSION_MAJOR v = drop_bit 22 v"

definition VK_VERSION_MINOR :: "u32 \<Rightarrow> u32" where
  "VK_VERSION_MINOR v = drop_bit 12 v AND 0x3FF"

definition VK_VERSION_PATCH :: "u32 \<Rightarrow> u32" where
  "VK_VERSION_PATCH v = v AND 0xFFF"

text \<open>\<^verbatim>\<open>getVulkanInfo\<close> of \<^verbatim>\<open>vulkan_renderer_native.cpp\<close>. \<^verbatim>\<open>vendorId\<close> and
  \<^verbatim>\<open>maxTextureSize\<close> are \<^verbatim>\<open>int\<close> fields assigned from \<^verbatim>\<open>uint32_t\<close>.\<close>

definition getVulkanInfo :: "VulkanRendererNative \<Rightarrow> VulkanInfo" where
  "getVulkanInfo s =
     (let p = deviceProperties s;
          apiVer = pd_apiVersion p
      in \<lparr>deviceName = pd_deviceName p,
          apiVersion = to_string (unat (VK_VERSION_MAJOR apiVer)) @ ''.'' @
                       to_string (unat (VK_VERSION_MINOR apiVer)) @ ''.'' @
                       to_string (unat (VK_VERSION_PATCH apiVer)),
          driverVersion = to_string (unat (pd_driverVersion p)),
          vendorId = sint (pd_vendorID p),
          deviceType =
            (case pd_deviceType p of
               VK_PHYSICAL_DEVICE_TYPE_DISCRETE_GPU \<Rightarrow> ''Discrete GPU''
             | VK_PHYSICAL_DEVICE_TYPE_INTEGRATED_GPU \<Rightarrow> ''Integrated GPU''
             | _ \<Rightarrow> ''Other''),
          maxTextureSize = sint (pd_maxImageDimension2D p),
          supportsRayTracing = False,
          supportsMeshShaders = False\<rparr>)"

text \<open>\<^verbatim>\<open>getVulkanInfo\<close> of \<^verbatim>\<open>vk_utils.cpp\<close>: without a physical device it returns
  the default-initialised struct, whose strings are empty and whose other fields are
  indeterminate (taken from \<open>uninit\<close>); it knows two more device types.\<close>

definition getVulkanInfo_vk_utils :: "VulkanInfo \<Rightarrow> VulkanRendererNative \<Rightarrow> VulkanInfo" where
  "getVulkanInfo_vk_utils uninit s =
     (if physicalDevice s = VK_NULL_HANDLE
      then uninit\<lparr>deviceName := [], apiVersion := [], driverVersion := [], deviceType := []\<rparr>
      else
      let p = deviceProperties s;
          apiVer = pd_apiVersion p
      in \<lparr>deviceName = pd_deviceName p,
          apiVersion = to_string (unat (VK_VERSION_MAJOR apiVer)) @ ''.'' @
                       to_string (unat (VK_VERSION_MINOR apiVer)) @ ''.'' @
                       to_string (unat (VK_VERSION_PATCH apiVer)),
          driverVersion = to_string (unat (pd_driverVersion p)),
          vendorId = sint (pd_vendorID p),
          deviceType =
            (case pd_deviceType p of
               VK_PHYSICAL_DEVICE_TYPE_DISCRETE_GPU \<Rightarrow> ''Discrete GPU''
             | VK_PHYSICAL_DEVICE_TYPE_INTEGRATED_GPU \<Rightarrow> ''Integrated GPU''
             | VK_PHYSICAL_DEVICE_TYPE_VIRTUAL_GPU \<Rightarrow> ''Virtual GPU''
             | VK_PHYSICAL_DEVICE_TYPE_CPU \<Rightarrow> ''CPU''
             | _ \<Rightarrow> ''Other''),
          maxTextureSize = sint (pd_maxImageDimension2D p),
          supportsRayTracing = False,
          supportsMeshShaders = False\<rparr>)"


section \<open>Example inputs\<close>

text \<open>A device of API version 1.3.0 and driver version 1.2.3 (packed), with a
  device-local memory type and a host-visible, host-coherent one; a renderer fresh from
  its constructor on a driver on which nothing has been called; and drivers' answers in
  which every call succeeds.\<close>

definition example_properties :: VkPhysicalDeviceProperties where
  "example_properties =
     \<lparr>pd_apiVersion = 4206592, pd_driverVersion = 4202499, pd_vendorID = 5045,
      pd_deviceType = VK_PHYSICAL_DEVICE_TYPE_INTEGRATED_GPU, pd_deviceName = ''Mali'',
      pd_maxImageDimension2D = 8192\<rparr>"

definition example_memory :: VkPhysicalDeviceMemoryProperties where
  "example_memory = \<lparr>memoryTypeCount = 2, memoryTypes = [1, 6] @ replicate 30 0\<rparr>"

definition example_renderer :: VulkanRendererNative where
  "example_renderer = new_VulkanRendererNative example_properties (new_world example_memory)"

definition texture_ok :: texture_env where
  "texture_ok = \<lparr>te_image_ok = True, te_req_size = 64, te_req_typeBits = 3,
                  te_alloc_ok = True, te_view_ok = True, te_sampler_ok = True\<rparr>"

definition texture_view_fails :: texture_env where
  "texture_view_fails = texture_ok\<lparr>te_view_ok := False\<rparr>"

definition buffer_ok :: buffer_env where
  "buffer_ok = \<lparr>be_buffer_ok = True, be_req_size = 64, be_req_typeBits = 3, be_alloc_ok = True\<rparr>"

definition init_ok :: init_env where
  "init_ok =
     \<lparr>ie_instance_ok = True, ie_devices = [(7, example_properties)],
      ie_queueFamilies = [7, 6], ie_device_ok = True, ie_queueOf = (\<lambda>f. 100 + unat f),
      ie_commandPool_ok = True, ie_computeCommandPool_ok = True,
      ie_imageAvailable_ok = True, ie_renderFinished_ok = True, ie_inFlight_ok = True,
      ie_descriptorPool_ok = True\<rparr>"

definition swap_ok :: swap_env where
  "swap_ok =
     \<lparr>se_swapchain_ok = True, se_images = [201, 202], se_view_ok = (\<lambda>i. True),
      se_renderPass_ok = True, se_framebuffer_ok = (\<lambda>i. True), se_commandBuffers_ok = True,
      se_minImageCount = 2, se_maxImageCount = 3, se_currentExtent = (640, 480),
      se_format0 = (VK_FORMAT_B8G8R8A8_UNORM, VK_COLOR_SPACE_SRGB_NONLINEAR_KHR),
      se_formats = [], se_presentModes = [VK_PRESENT_MODE_FIFO_KHR]\<rparr>"

text \<open>The example renderer after a successful \<^verbatim>\<open>initialize\<close>.\<close>

definition example_initialized :: VulkanRendererNative where
  "example_initialized = snd (initialize init_ok example_renderer)"

text \<open>The initialized example renderer with a surface attached, and then with a frame
  begun for which the driver handed out image 1.\<close>

definition example_attached :: VulkanRendererNative where
  "example_attached = setSurface True swap_ok 640 480 example_initialized"

definition example_frame :: VulkanRendererNative where
  "example_frame = beginFrame (Some 1) example_attached"

section \<open>Observations on a run\<close>

text \<open>The frame protocol: a queue submission that signals the semaphore \<open>sem\<close> and the
  fence \<open>f\<close>, and later a presentation that waits on \<open>sem\<close>.\<close>

fun is_QueueSubmit :: "vk_call \<Rightarrow> bool" where
  "is_QueueSubmit (QueueSubmit q cbs sigs fence) = True"
| "is_QueueSubmit _ = False"

fun submits_signalling :: "handle \<Rightarrow> handle \<Rightarrow> vk_call \<Rightarrow> bool" where
  "submits_signalling sem f (QueueSubmit q cbs sigs fence) = (sem \<in> set sigs \<and> fence = f)"
| "submits_signalling sem f _ = False"

fun presents_waiting :: "handle \<Rightarrow> vk_call \<Rightarrow> bool" where
  "presents_waiting sem (QueuePresent q waits sc i) = (sem \<in> set waits)"
| "presents_waiting sem _ = False"

fun submits_then_presents :: "handle \<Rightarrow> handle \<Rightarrow> vk_call list \<Rightarrow> bool" where
  "submits_then_presents sem f [] = False"
| "submits_then_presents sem f (c # cs) =
     ((submits_signalling sem f c \<and> list_ex (presents_waiting sem) cs) \<or>
      submits_then_presents sem f cs)"

text \<open>A packed version number as a dotted string: the major number is what lies above
  bit 22, the minor number the ten bits from bit 12, the patch number the low twelve
  bits.\<close>

definition dotted :: "nat \<Rightarrow> string" where
  "dotted v = to_string (v div 2 ^ 22) @ ''.'' @ to_string (v div 2 ^ 12 mod 2 ^ 10) @ ''.'' @
              to_string (v mod 2 ^ 12)"

text \<open>The handles a sequence of calls issued: those returned by the calls that did not
  fail, in call order.\<close>

definition issued :: "resource_call list \<Rightarrow> u64 list \<Rightarrow> u64 list" where
  "issued cs hs = map snd (filter (\<lambda>(c, h). \<not> call_fails c) (zip cs hs))"

text \<open>The API calls a method made: the log of the renderer after, without the log
  before.\<close>

definition calls_since :: "VulkanRendererNative \<Rightarrow> VulkanRendererNative \<Rightarrow> vk_call list" where
  "calls_since s s' = drop (length (calls (world s))) (calls (world s'))"

text \<open>The pixel format a call creates an image or an image view with, if it creates
  one.\<close>

fun texel_format :: "vk_call \<Rightarrow> nat option" where
  "texel_format (CreateImage info h) = Some (ici_format info)"
| "texel_format (CreateImageView info h) = Some (ivi_format info)"
| "texel_format _ = None"

text \<open>The memory type index an allocation is asked with, whether it succeeds or not.\<close>

fun allocation_index :: "vk_call \<Rightarrow> u32 option" where
  "allocation_index (AllocateMemory sz idx h) = Some idx"
| "allocation_index (AllocateMemoryFailed sz idx) = Some idx"
| "allocation_index _ = None"

text \<open>Memory type \<open>i\<close> qualifies for a request: bit \<open>i\<close> of the filter is set and the
  type has every required property.\<close>

definition qualifies :: "VkPhysicalDeviceMemoryProperties \<Rightarrow> u32 \<Rightarrow> u32 \<Rightarrow> nat \<Rightarrow> bool" where
  "qualifies mp typeFilter properties i =
     (bit typeFilter i \<and> (memoryTypes mp ! i) AND properties = properties)"

text \<open>Family \<open>i\<close> of the enumeration offers a capability; it is the first, or the last,
  that does.\<close>

definition offers :: "u32 \<Rightarrow> u32 list \<Rightarrow> nat \<Rightarrow> bool" where
  "offers flag fams i = (i < length fams \<and> fams ! i AND flag \<noteq> 0)"

definition first_offering :: "u32 \<Rightarrow> u32 list \<Rightarrow> nat \<Rightarrow> bool" where
  "first_offering flag fams i = (offers flag fams i \<and> (\<forall>j<i. \<not> offers flag fams j))"

definition last_offering :: "u32 \<Rightarrow> u32 list \<Rightarrow> nat \<Rightarrow> bool" where
  "last_offering flag fams i = (offers flag fams i \<and> (\<forall>j>i. \<not> offers flag fams j))"

text \<open>One component of \<open>scanQueueFamilies\<close>: the scan for a single capability.\<close>

fun scan1 :: "u32 \<Rightarrow> u32 list \<Rightarrow> u32 \<Rightarrow> u32 \<Rightarrow> u32" where
  "scan1 flag [] i d = d"
| "scan1 flag (f # fs) i d = scan1 flag fs (i + 1) (if f AND flag \<noteq> 0 then i else d)"

text \<open>Example answers of the driver: a device with a single, graphics-only queue family,
  and one with no graphics family.\<close>

definition init_graphics_only :: init_env where
  "init_graphics_only = init_ok\<lparr>ie_queueFamilies := [1]\<rparr>"

definition init_no_graphics :: init_env where
  "init_no_graphics = init_ok\<lparr>ie_queueFamilies := [6]\<rparr>"

text \<open>Calls that destroy or free an object.\<close>

fun is_destruction :: "vk_call \<Rightarrow> bool" where
  "is_destruction (Destroy k h) = True"
| "is_destruction (FreeMemory h) = True"
| "is_destruction _ = False"

text \<open>The object a call creates, if it creates one.\<close>

fun created_object :: "vk_call \<Rightarrow> (vk_kind \<times> handle) option" where
  "created_object (Create k h) = Some (k, h)"
| "created_object (CreateImage info h) = Some (KImage, h)"
| "created_object (CreateImageView info h) = Some (KImageView, h)"
| "created_object (CreateSwapchain info h) = Some (KSwapchain, h)"
| "created_object (CreateFramebuffer rp view ext h) = Some (KFramebuffer, h)"
| "created_object (CreateBuffer sz usage h) = Some (KBuffer, h)"
| "created_object (CreateShaderModule sz h) = Some (KShaderModule, h)"
| "created_object (AllocateMemory sz idx h) = Some (KMemory, h)"
| "created_object _ = None"

definition created :: "vk_call list \<Rightarrow> (vk_kind \<times> handle) set" where
  "created cs = set (List.map_filter created_object cs)"

text \<open>The results of the six steps of \<^verbatim>\<open>initialize\<close>, each run on what the one before
  left.\<close>

definition step_results ::
    "(init_env \<Rightarrow> VulkanRendererNative \<Rightarrow> bool \<times> VulkanRendererNative)
     \<Rightarrow> init_env \<Rightarrow> VulkanRendererNative \<Rightarrow> bool list" where
  "step_results cld e s =
     (let r1 = createInstance e s;
          r2 = pickPhysicalDevice e (snd r1);
          r3 = cld e (snd r2);
          r4 = createCommandPools e (snd r3);
          r5 = createSyncObjects e (snd r4);
          r6 = createDescriptorPool e (snd r5)
      in [fst r1, fst r2, fst r3, fst r4, fst r5, fst r6])"

text \<open>The objects whose handles the renderer holds in the fields that \<^verbatim>\<open>shutdown\<close>
  looks at; those of the device only when there is a device.\<close>

definition opt :: "vk_kind \<Rightarrow> handle \<Rightarrow> (vk_kind \<times> handle) set" where
  "opt k h = (if h \<noteq> VK_NULL_HANDLE then {(k, h)} else {})"

definition held :: "VulkanRendererNative \<Rightarrow> (vk_kind \<times> handle) set" where
  "held s =
     opt KInstance (instance_h s) \<union> opt KSurface (surface s) \<union>
     (if device s = VK_NULL_HANDLE then {}
      else {(KDevice, device s)} \<union>
           opt KFence (inFlightFence s) \<union> opt KSemaphore (renderFinishedSemaphore s) \<union>
           opt KSemaphore (imageAvailableSemaphore s) \<union>
           Pair KFramebuffer ` set (framebuffers s) \<union>
           Pair KImageView ` set (swapchainImageViews s) \<union>
           opt KRenderPass (renderPass s) \<union> opt KSwapchain (swapchain s) \<union>
           opt KDescriptorPool (descriptorPool s) \<union> opt KCommandPool (commandPool s) \<union>
           opt KCommandPool (computeCommandPool s))"

text \<open>Where \<^verbatim>\<open>initialize\<close> stands after \<open>n\<close> of its steps: every live object is held
  and was created by a logged call, nothing has been destroyed, and the fields of the steps
  still to come are null.\<close>

definition init_stage :: "nat \<Rightarrow> VulkanRendererNative \<Rightarrow> bool" where
  "init_stage n s =
     (live (world s) \<subseteq> held s \<and>
      created (calls (world s)) = live (world s) \<and>
      filter is_destruction (calls (world s)) = [] \<and>
      fresh (world s) \<noteq> VK_NULL_HANDLE \<and>
      framebuffers s = [] \<and> swapchainImageViews s = [] \<and>
      renderPass s = VK_NULL_HANDLE \<and> swapchain s = VK_NULL_HANDLE \<and>
      (n < 1 \<longrightarrow> instance_h s = VK_NULL_HANDLE) \<and>
      (n < 3 \<longrightarrow> device s = VK_NULL_HANDLE) \<and>
      (n < 4 \<longrightarrow> commandPool s = VK_NULL_HANDLE \<and> computeCommandPool s = VK_NULL_HANDLE) \<and>
      (n < 5 \<longrightarrow> imageAvailableSemaphore s = VK_NULL_HANDLE \<and>
                renderFinishedSemaphore s = VK_NULL_HANDLE \<and> inFlightFence s = VK_NULL_HANDLE) \<and>
      (n < 6 \<longrightarrow> descriptorPool s = VK_NULL_HANDLE))"

text \<open>Example answers of the driver in which the descriptor pool cannot be created.\<close>

definition init_no_descriptor_pool :: init_env where
  "init_no_descriptor_pool = init_ok\<lparr>ie_descriptorPool_ok := False\<rparr>"

text \<open>The kind of object a call destroys, and the surface a call creates a swapchain
  on.\<close>

fun destroyed_kind :: "vk_call \<Rightarrow> vk_kind option" where
  "destroyed_kind (Destroy k h) = Some k"
| "destroyed_kind (FreeMemory h) = Some KMemory"
| "destroyed_kind _ = None"

fun swapchain_surface :: "vk_call \<Rightarrow> handle option" where
  "swapchain_surface (CreateSwapchain info h) = Some (sci_surface info)"
| "swapchain_surface _ = None"

text \<open>A call that may occur while the presentation objects are rebuilt on surface
  \<open>srf\<close>: it destroys nothing, and a swapchain it creates is on \<open>srf\<close>.\<close>

definition rebuild_call :: "handle \<Rightarrow> vk_call \<Rightarrow> bool" where
  "rebuild_call srf c =
     (\<not> is_destruction c \<and> (swapchain_surface c = None \<or> swapchain_surface c = Some srf))"

text \<open>The four construction steps in the order in which both \<^verbatim>\<open>setSurface\<close> and
  \<^verbatim>\<open>recreateSwapchain\<close> of \<^verbatim>\<open>vulkan_renderer_native.cpp\<close> call them.\<close>

definition construction :: "swap_env \<Rightarrow> VulkanRendererNative \<Rightarrow> VulkanRendererNative" where
  "construction e s =
     snd (createCommandBuffers e (snd (createFramebuffers e
       (snd (createRenderPass e (snd (createSwapchain e s)))))))"

text \<open>The log of \<open>w'\<close> is the log of \<open>w\<close> followed by calls that all satisfy
  \<open>P\<close>.\<close>

definition appends :: "(vk_call \<Rightarrow> bool) \<Rightarrow> vk_world \<Rightarrow> vk_world \<Rightarrow> bool" where
  "appends P w w' =
     (take (length (calls w)) (calls w') = calls w \<and>
      list_all P (drop (length (calls w)) (calls w')))"

text \<open>A call that tries to create a swapchain on surface \<open>srf\<close>, whether it succeeds or
  not.\<close>

definition swapchain_attempt :: "handle \<Rightarrow> vk_call \<Rightarrow> bool" where
  "swapchain_attempt srf c = (c = CreateFailed KSwapchain \<or> swapchain_surface c = Some srf)"

text \<open>The calls that create one image view per image, and one framebuffer per image view,
  when each of them succeeds: the driver hands out the handles \<open>f\<close>, \<open>f + 1\<close>, and so
  on.\<close>

fun view_creations :: "nat \<Rightarrow> handle list \<Rightarrow> handle \<Rightarrow> vk_call list" where
  "view_creations fmt [] f = []"
| "view_creations fmt (img # imgs) f =
     CreateImageView \<lparr>ivi_image = img, ivi_format = fmt,
                        ivi_levelCount = 1, ivi_layerCount = 1\<rparr> f #
     view_creations fmt imgs (f + 1)"

fun framebuffer_creations :: "handle \<Rightarrow> u32 \<times> u32 \<Rightarrow> handle list \<Rightarrow> handle \<Rightarrow> vk_call list" where
  "framebuffer_creations rp ext [] f = []"
| "framebuffer_creations rp ext (view # views) f =
     CreateFramebuffer rp view ext f # framebuffer_creations rp ext views (f + 1)"

text \<open>The state of fence \<open>f\<close> after a call, \<open>b\<close> being whether it was signalled
  before: a reset unsignals it, a queue submission that names it signals it. No other call
  of the log touches a fence.\<close>

fun fence_after :: "handle \<Rightarrow> bool \<Rightarrow> vk_call \<Rightarrow> bool" where
  "fence_after f b (ResetFences g) = (if g = f then False else b)"
| "fence_after f b (QueueSubmit q cbs sigs fence) = (if fence = f then True else b)"
| "fence_after f b _ = b"

text \<open>Some call of the log waits for fence \<open>f\<close> at a moment when it is not signalled and
  no submission that would signal it has been made.\<close>

fun waits_unsignalled :: "handle \<Rightarrow> bool \<Rightarrow> vk_call list \<Rightarrow> bool" where
  "waits_unsignalled f b [] = False"
| "waits_unsignalled f b (c # cs) =
     ((c = WaitForFences f \<and> \<not> b) \<or> waits_unsignalled f (fence_after f b c) cs)"


section \<open>Handles\<close>

lemma createBuffer_vk_buffer_next:
  "nextResourceId (snd (createBuffer_vk_buffer e sz u p b m s)) = nextResourceId s"
  by (simp add: createBuffer_vk_buffer_def vkCreateWith_def vkAllocateMemory_def split: prod.splits)

lemma copyBuffer_vk_buffer_next:
  "nextResourceId (copyBuffer_vk_buffer ok un a b sz s) = nextResourceId s"
  by (simp add: copyBuffer_vk_buffer_def copyBuffer_on_def Let_def)

lemma stage_in_next: "nextResourceId (stage_in m sz s) = nextResourceId s"
  by (simp add: stage_in_def)

lemma drop_staging_next: "nextResourceId (drop_staging b m s) = nextResourceId s"
  by (simp add: drop_staging_def)

lemma loadMesh_vk_buffer_result:
  "loadMesh_vk_buffer e v vc i ic n nc u uc s = (h, s') \<Longrightarrow>
     h = nextResourceId s \<and> nextResourceId s' = nextResourceId s + 1"
  by (auto simp: loadMesh_vk_buffer_def Let_def case_prod_beta createBuffer_vk_buffer_next
      copyBuffer_vk_buffer_next stage_in_next drop_staging_next)

lemma loadTexture_vk_texture_result:
  "loadTexture_vk_texture e p w h f s = (r, s') \<Longrightarrow>
     (if call_fails (LoadTexture_vk_texture e p w h f)
      then r = 0 \<and> nextResourceId s' = nextResourceId s
      else r = nextResourceId s \<and> nextResourceId s' = nextResourceId s + 1)"
  by (auto simp: loadTexture_vk_texture_def Let_def vkCreateWith_def vkCreate_def
      vkAllocateMemory_def split: prod.splits if_splits)

lemma compileShader_vk_shader_result:
  "compileShader_vk_shader ok c n st s = (r, s') \<Longrightarrow>
     (if \<not> ok
      then r = 0 \<and> nextResourceId s' = nextResourceId s
      else r = nextResourceId s \<and> nextResourceId s' = nextResourceId s + 1)"
  by (auto simp: compileShader_vk_shader_def Let_def vkCreateWith_def
      split: prod.splits if_splits)

text \<open>Every call either fails, returns 0 and leaves the counter alone, or returns the
  counter and advances it by one.\<close>

lemma run_call_result:
  "run_call c s = (h, s') \<Longrightarrow>
     (if call_fails c
      then h = 0 \<and> nextResourceId s' = nextResourceId s
      else h = nextResourceId s \<and> nextResourceId s' = nextResourceId s + 1)"
proof (cases c)
  case (LoadMesh_vk_buffer e v vc i ic n nc u uc)
  assume "run_call c s = (h, s')"
  with LoadMesh_vk_buffer show ?thesis
    using loadMesh_vk_buffer_result [of e v vc i ic n nc u uc s h s'] by simp
next
  case (LoadTexture_vk_texture e p w ht f)
  assume "run_call c s = (h, s')"
  with LoadTexture_vk_texture show ?thesis
    using loadTexture_vk_texture_result [of e p w ht f s h s'] by simp
next
  case (CompileShader_vk_shader ok cd n st)
  assume "run_call c s = (h, s')"
  with CompileShader_vk_shader show ?thesis
    using compileShader_vk_shader_result [of ok cd n st s h s'] by simp
qed (auto simp: loadMesh_def loadTexture_def compileShader_def createGraphicsPipeline_def)

lemma run_calls_Cons_fst:
  "fst (run_calls (c # cs) s) = fst (run_call c s) # fst (run_calls cs (snd (run_call c s)))"
  by (simp split: prod.splits)

lemma run_calls_length: "length (fst (run_calls cs s)) = length cs"
  by (induction cs arbitrary: s) (simp_all add: run_calls_Cons_fst del: run_calls.simps(2))

text \<open>The issued handles are the consecutive values of the counter.\<close>

lemma issued_run_calls:
  "issued cs (fst (run_calls cs s)) =
     map (\<lambda>k. nextResourceId s + of_nat k) [0..<length (filter (\<lambda>c. \<not> call_fails c) cs)]"
proof (induction cs arbitrary: s)
  case Nil
  show ?case by (simp add: issued_def)
next
  case (Cons c cs)
  obtain h s1 where r: "run_call c s = (h, s1)" by (cases "run_call c s")
  obtain hs s2 where rs: "run_calls cs s1 = (hs, s2)" by (cases "run_calls cs s1")
  have ih: "issued cs hs =
     map (\<lambda>k. nextResourceId s1 + of_nat k) [0..<length (filter (\<lambda>c. \<not> call_fails c) cs)]"
    using Cons.IH [of s1] rs by simp
  show ?case
  proof (cases "call_fails c")
    case True
    then have "nextResourceId s1 = nextResourceId s"
      using run_call_result [OF r] by simp
    with True ih r rs show ?thesis by (simp add: issued_def)
  next
    case False
    then have h: "h = nextResourceId s" and n: "nextResourceId s1 = nextResourceId s + 1"
      using run_call_result [OF r] by simp_all
    have "issued (c # cs) (h # hs) = h # issued cs hs"
      using False by (simp add: issued_def)
    also have "\<dots> = nextResourceId s #
        map (\<lambda>k. nextResourceId s + of_nat (Suc k)) [0..<length (filter (\<lambda>c. \<not> call_fails c) cs)]"
      using ih h n by (simp add: add.assoc add.commute)
    also have "\<dots> = map (\<lambda>k. nextResourceId s + of_nat k)
        [0..<Suc (length (filter (\<lambda>c. \<not> call_fails c) cs))]"
      by (simp add: upt_conv_Cons map_Suc_upt [symmetric] del: upt_Suc)
    finally show ?thesis using False r rs by simp
  qed
qed

lemma unat_base_plus:
  fixes n :: u64
  assumes "unat n + k < 2 ^ 64"
  shows "unat (n + of_nat k) = unat n + k"
proof -
  have "k < 2 ^ 64" using assms by simp
  then have "unat (of_nat k :: u64) = k"
    by (simp add: unat_of_nat)
  then show ?thesis using assms
    by (simp add: unat_add_lem [THEN iffD1])
qed

lemma consecutive_sorted:
  fixes n :: u64
  assumes "unat n + m \<le> 2 ^ 64"
  shows "sorted_wrt (<) (map (\<lambda>k. n + of_nat k) [0..<m])"
proof -
  have "n + of_nat i < n + of_nat j" if "i < j" "j < m" for i j
  proof -
    have "unat (n + of_nat i) = unat n + i" "unat (n + of_nat j) = unat n + j"
      using that assms by (simp_all add: unat_base_plus)
    then show ?thesis using that by (simp add: word_less_nat_alt)
  qed
  then show ?thesis
    by (simp add: sorted_wrt_map sorted_wrt_iff_nth_less)
qed

lemma consecutive_nonzero:
  fixes n :: u64
  assumes "n \<noteq> 0" "unat n + m \<le> 2 ^ 64"
  shows "0 \<notin> set (map (\<lambda>k. n + of_nat k) [0..<m])"
proof
  assume "0 \<in> set (map (\<lambda>k. n + of_nat k) [0..<m])"
  then obtain k where k: "k < m" "n + of_nat k = 0" by auto
  have "unat n + k < 2 ^ 64"
    using k(1) assms(2) by simp
  then have "unat (n + of_nat k) = unat n + k"
    by (rule unat_base_plus)
  moreover have "unat (n + of_nat k) = 0"
    using k(2) by simp
  ultimately have "unat n = 0" by simp
  with assms show False by (simp add: unat_eq_0)
qed

lemma run_calls_failed_zero:
  "i < length cs \<Longrightarrow> call_fails (cs ! i) \<Longrightarrow> fst (run_calls cs s) ! i = 0"
proof (induction cs arbitrary: s i)
  case Nil
  then show ?case by simp
next
  case (Cons c cs)
  obtain h s1 where r: "run_call c s = (h, s1)" by (cases "run_call c s")
  show ?case
  proof (cases i)
    case 0
    with Cons.prems r run_call_result [OF r] show ?thesis
      by (simp add: run_calls_Cons_fst del: run_calls.simps(2))
  next
    case (Suc j)
    with Cons.prems Cons.IH [of j s1] r show ?thesis
      by (simp add: run_calls_Cons_fst del: run_calls.simps(2))
  qed
qed

lemma succeeded_is_issued:
  assumes "i < length cs" "length hs = length cs" "\<not> call_fails (cs ! i)"
  shows "hs ! i \<in> set (issued cs hs)"
proof -
  have "(cs ! i, hs ! i) \<in> set (zip cs hs)"
    using assms(1,2) by (metis in_set_zip fst_conv snd_conv)
  then have "(cs ! i, hs ! i) \<in> set (filter (\<lambda>(c, h). \<not> call_fails c) (zip cs hs))"
    using assms(3) by simp
  then show ?thesis
    unfolding issued_def by force
qed

text \<open>
  C1. On one renderer, whatever mix of \<^verbatim>\<open>loadMesh\<close>, \<^verbatim>\<open>loadTexture\<close>,
  \<^verbatim>\<open>compileShader\<close> and \<^verbatim>\<open>createGraphicsPipeline\<close> calls is made (in either
  definition of each), the handles of the calls that succeed are strictly increasing in
  call order, pairwise distinct and never 0, and a call returns 0 exactly when it fails.
  The counter \<^verbatim>\<open>nextResourceId\<close> is a \<^verbatim>\<open>uint64_t\<close> that the constructor sets to 1:
  the statement is for a renderer whose counter is not 0 and a sequence that does not take
  the counter past \<open>2 ^ 64 - 1\<close>.
\<close>

theorem handles_increasing_distinct_nonzero:
  assumes "nextResourceId s \<noteq> 0"
    and "unat (nextResourceId s) + length cs \<le> 2 ^ 64"
  shows "sorted_wrt (<) (issued cs (fst (run_calls cs s))) \<and>
         distinct (issued cs (fst (run_calls cs s))) \<and>
         0 \<notin> set (issued cs (fst (run_calls cs s))) \<and>
         (\<forall>i<length cs. (fst (run_calls cs s) ! i = 0) = call_fails (cs ! i))"
proof -
  let ?m = "length (filter (\<lambda>c. \<not> call_fails c) cs)"
  let ?hs = "fst (run_calls cs s)"
  have m: "unat (nextResourceId s) + ?m \<le> 2 ^ 64"
    using assms(2) length_filter_le [of "\<lambda>c. \<not> call_fails c" cs] by linarith
  have sorted: "sorted_wrt (<) (issued cs ?hs)"
    unfolding issued_run_calls using m by (rule consecutive_sorted)
  have nonzero: "0 \<notin> set (issued cs ?hs)"
    unfolding issued_run_calls using assms(1) m by (rule consecutive_nonzero)
  have "distinct (issued cs ?hs)"
    using sorted by (simp add: strict_sorted_iff)
  moreover have "(?hs ! i = 0) = call_fails (cs ! i)" if "i < length cs" for i
  proof (cases "call_fails (cs ! i)")
    case True
    with that show ?thesis by (simp add: run_calls_failed_zero)
  next
    case False
    with that have "?hs ! i \<in> set (issued cs ?hs)"
      by (simp add: succeeded_is_issued run_calls_length)
    with nonzero False show ?thesis by metis
  qed
  ultimately show ?thesis using sorted nonzero by simp
qed

theorem handles_increasing_distinct_nonzero_witness:
  "fst (run_calls [LoadTexture_vk_texture texture_ok [] 1 1 0,
                   CompileShader_vk_shader False [] 4 1,
                   CreateGraphicsPipeline 1 1 []] example_renderer) = [1, 0, 2] \<and>
   sorted_wrt (<) (issued [LoadTexture_vk_texture texture_ok [] 1 1 0,
                   CompileShader_vk_shader False [] 4 1,
                   CreateGraphicsPipeline 1 1 []]
      (fst (run_calls [LoadTexture_vk_texture texture_ok [] 1 1 0,
                   CompileShader_vk_shader False [] 4 1,
                   CreateGraphicsPipeline 1 1 []] example_renderer))) \<and>
   0 \<notin> set (issued [LoadTexture_vk_texture texture_ok [] 1 1 0,
                   CompileShader_vk_shader False [] 4 1,
                   CreateGraphicsPipeline 1 1 []]
      (fst (run_calls [LoadTexture_vk_texture texture_ok [] 1 1 0,
                   CompileShader_vk_shader False [] 4 1,
                   CreateGraphicsPipeline 1 1 []] example_renderer)))"
proof -
  have n: "nextResourceId example_renderer = 1"
    by (simp add: example_renderer_def new_VulkanRendererNative_def)
  have v: "fst (run_calls [LoadTexture_vk_texture texture_ok [] 1 1 0,
                   CompileShader_vk_shader False [] 4 1,
                   CreateGraphicsPipeline 1 1 []] example_renderer) = [1, 0, 2]"
    by (simp add: example_renderer_def new_VulkanRendererNative_def new_world_def
        texture_ok_def loadTexture_vk_texture_def compileShader_vk_shader_def
        createGraphicsPipeline_def vkCreateWith_def vkCreate_def vkAllocateMemory_def
        api_def Let_def)
  show ?thesis
    using handles_increasing_distinct_nonzero [of example_renderer
        "[LoadTexture_vk_texture texture_ok [] 1 1 0,
          CompileShader_vk_shader False [] 4 1,
          CreateGraphicsPipeline 1 1 []]"] n v
    by simp
qed


section \<open>Memory type selection\<close>

lemma filter_bit_test: "(w AND push_bit i 1 \<noteq> 0) = bit w i" for w :: u32
  by (simp add: and_exp_eq_0_iff_not_bit)

lemma word_suc_unat:
  fixes i c :: u32
  assumes "i < c"
  shows "unat (i + 1) = Suc (unat i)"
proof -
  from assms have "i \<noteq> - 1"
    by (metis word_order.extremum_strict)
  then have "1 + i \<noteq> 0"
    by (metis add_eq_0_iff)
  then show ?thesis
    by (simp add: unatSuc add.commute)
qed

lemma findMemoryType_loop_step:
  "findMemoryType_loop mp tf p i =
     (if i < memoryTypeCount mp then
        (if qualifies mp tf p (unat i) then i else findMemoryType_loop mp tf p (i + 1))
      else 0)"
  by (subst findMemoryType_loop.simps) (simp only: qualifies_def filter_bit_test)

text \<open>From index \<open>i\<close> on, the loop returns 0 when no type qualifies, and the first
  qualifying index otherwise.\<close>

lemma findMemoryType_loop_none:
  "(\<forall>k. unat i \<le> k \<and> k < unat (memoryTypeCount mp) \<longrightarrow> \<not> qualifies mp tf p k) \<Longrightarrow>
     findMemoryType_loop mp tf p i = 0"
proof (induction mp tf p i rule: findMemoryType_loop.induct)
  case (1 mp tf p i)
  show ?case
  proof (cases "i < memoryTypeCount mp")
    case False
    then show ?thesis by (subst findMemoryType_loop_step) simp
  next
    case True
    then have lt: "unat i < unat (memoryTypeCount mp)" by (simp add: word_less_nat_alt)
    with "1.prems" have nq: "\<not> qualifies mp tf p (unat i)" by simp
    then have c: "\<not> (tf AND push_bit (unat i) 1 \<noteq> 0 \<and> memoryTypes mp ! unat i AND p = p)"
      by (simp only: qualifies_def filter_bit_test not_False_eq_True)
    have suc: "unat (i + 1) = Suc (unat i)" using True by (rule word_suc_unat)
    have pre: "\<forall>k. unat (i + 1) \<le> k \<and> k < unat (memoryTypeCount mp) \<longrightarrow> \<not> qualifies mp tf p k"
      unfolding suc using "1.prems" by (meson Suc_leD)
    have "findMemoryType_loop mp tf p (i + 1) = 0"
      by (rule "1.IH" [OF True c pre])
    with True nq show ?thesis
      by (subst findMemoryType_loop_step) simp
  qed
qed

lemma findMemoryType_loop_first:
  "unat i \<le> k \<Longrightarrow> k < unat (memoryTypeCount mp) \<Longrightarrow> qualifies mp tf p k \<Longrightarrow>
   (\<forall>j. unat i \<le> j \<and> j < k \<longrightarrow> \<not> qualifies mp tf p j) \<Longrightarrow>
     unat (findMemoryType_loop mp tf p i) = k"
proof (induction mp tf p i rule: findMemoryType_loop.induct)
  case (1 mp tf p i)
  from "1.prems" have lt: "unat i < unat (memoryTypeCount mp)" by simp
  then have True: "i < memoryTypeCount mp" by (simp add: word_less_nat_alt)
  have suc: "unat (i + 1) = Suc (unat i)" using True by (rule word_suc_unat)
  show ?case
  proof (cases "qualifies mp tf p (unat i)")
    case q: True
    have "\<not> unat i < k" using q "1.prems"(4) by blast
    with "1.prems"(1) have "k = unat i" by simp
    with True q show ?thesis
      by (subst findMemoryType_loop_step) simp
  next
    case nq: False
    then have c: "\<not> (tf AND push_bit (unat i) 1 \<noteq> 0 \<and> memoryTypes mp ! unat i AND p = p)"
      by (simp only: qualifies_def filter_bit_test not_False_eq_True)
    from nq "1.prems"(3) have "unat i \<noteq> k" by metis
    with "1.prems"(1) suc have le: "unat (i + 1) \<le> k" by simp
    have pre: "\<forall>j. unat (i + 1) \<le> j \<and> j < k \<longrightarrow> \<not> qualifies mp tf p j"
      unfolding suc using "1.prems"(4) by (meson Suc_leD)
    have "unat (findMemoryType_loop mp tf p (i + 1)) = k"
      by (rule "1.IH" [OF True c le "1.prems"(2,3) pre])
    with True nq show ?thesis
      by (subst findMemoryType_loop_step) simp
  qed
qed

lemma findMemoryType_none:
  "(\<forall>k<unat (memoryTypeCount (memProperties (world s))).
        \<not> qualifies (memProperties (world s)) tf p k) \<Longrightarrow>
     findMemoryType s tf p = 0"
  unfolding findMemoryType_def by (rule findMemoryType_loop_none) simp

lemma findMemoryType_first:
  "k < unat (memoryTypeCount (memProperties (world s))) \<Longrightarrow>
   qualifies (memProperties (world s)) tf p k \<Longrightarrow>
   (\<forall>j<k. \<not> qualifies (memProperties (world s)) tf p j) \<Longrightarrow>
     unat (findMemoryType s tf p) = k"
  unfolding findMemoryType_def by (rule findMemoryType_loop_first) simp_all

lemma createBuffer_vk_buffer_allocates:
  "be_buffer_ok e \<Longrightarrow>
     List.map_filter allocation_index
        (calls_since s (snd (createBuffer_vk_buffer e sz u p b m s))) =
     [findMemoryType s (be_req_typeBits e) p]"
  by (simp add: createBuffer_vk_buffer_def calls_since_def vkCreateWith_def vkAllocateMemory_def
      api_def split: prod.splits)

lemma createBuffer_allocates:
  "List.map_filter allocation_index (calls_since s (snd (createBuffer e sz u p b m s))) =
     [findMemoryType s (be_req_typeBits e) p]"
  by (simp add: createBuffer_def calls_since_def vkCreateWith_def vkAllocateMemory_def
      api_def split: prod.splits)

text \<open>
  C10. On a device that reports at most 32 memory types (the size of the array the loop
  indexes and the width of the filter), \<^verbatim>\<open>findMemoryType\<close> returns the first index whose
  filter bit is set and whose property flags contain all required bits. When no type
  qualifies it returns 0, which is also what it returns when type 0 qualifies. Both
  definitions of \<^verbatim>\<open>createBuffer\<close> pass the value on: the one allocation they ask for
  (in \<^verbatim>\<open>vk_buffer.cpp\<close>, once the buffer exists) carries the index
  \<^verbatim>\<open>findMemoryType\<close> returned, 0 included.
\<close>

theorem findMemoryType_first_match_or_zero:
  assumes "unat (memoryTypeCount (memProperties (world s))) \<le> length (memoryTypes (memProperties (world s)))"
    and "length (memoryTypes (memProperties (world s))) \<le> 32"
  shows "(if \<exists>k<unat (memoryTypeCount (memProperties (world s))).
               qualifies (memProperties (world s)) tf p k
          then unat (findMemoryType s tf p) < unat (memoryTypeCount (memProperties (world s))) \<and>
               qualifies (memProperties (world s)) tf p (unat (findMemoryType s tf p)) \<and>
               (\<forall>j<unat (findMemoryType s tf p). \<not> qualifies (memProperties (world s)) tf p j)
          else findMemoryType s tf p = 0) \<and>
         (0 < unat (memoryTypeCount (memProperties (world s))) \<and>
          qualifies (memProperties (world s)) tf p 0 \<longrightarrow> findMemoryType s tf p = 0) \<and>
         List.map_filter allocation_index (calls_since s (snd (createBuffer e sz u p b m s))) =
           [findMemoryType s (be_req_typeBits e) p] \<and>
         (be_buffer_ok e \<longrightarrow>
            List.map_filter allocation_index
              (calls_since s (snd (createBuffer_vk_buffer e sz u p b m s))) =
            [findMemoryType s (be_req_typeBits e) p])"
proof -
  let ?mp = "memProperties (world s)"
  let ?n = "unat (memoryTypeCount ?mp)"
  let ?r = "findMemoryType s tf p"
  have first: "?r = 0" if "0 < ?n" "qualifies ?mp tf p 0"
  proof -
    have "unat ?r = 0" using that by (intro findMemoryType_first) simp_all
    then show ?thesis by (simp add: unat_eq_0)
  qed
  have main: "if \<exists>k<?n. qualifies ?mp tf p k
      then unat ?r < ?n \<and> qualifies ?mp tf p (unat ?r) \<and> (\<forall>j<unat ?r. \<not> qualifies ?mp tf p j)
      else ?r = 0"
  proof (cases "\<exists>k<?n. qualifies ?mp tf p k")
    case False
    then have "?r = 0" by (intro findMemoryType_none) simp
    then show ?thesis unfolding if_not_P [OF False] .
  next
    case True
    define P where "P k = (k < ?n \<and> qualifies ?mp tf p k)" for k
    from True have ex: "\<exists>k. P k" by (auto simp: P_def)
    define k where "k = (LEAST k. P k)"
    have Pk: "P k" unfolding k_def using ex by (metis LeastI)
    have least: "\<not> P j" if "j < k" for j
      using that unfolding k_def by (rule not_less_Least)
    have "\<not> qualifies ?mp tf p j" if "j < k" for j
      using least [OF that] that Pk by (simp add: P_def)
    then have r: "unat ?r = k"
      using Pk by (intro findMemoryType_first) (simp_all add: P_def)
    have "unat ?r < ?n \<and> qualifies ?mp tf p (unat ?r) \<and>
        (\<forall>j<unat ?r. \<not> qualifies ?mp tf p j)"
      unfolding r using Pk \<open>\<And>j. j < k \<Longrightarrow> \<not> qualifies ?mp tf p j\<close>
      by (simp add: P_def)
    then show ?thesis unfolding if_P [OF True] .
  qed
  from main first show ?thesis
    by (simp add: createBuffer_allocates createBuffer_vk_buffer_allocates)
qed

theorem findMemoryType_first_match_or_zero_witness:
  "findMemoryType example_renderer 3 VK_MEMORY_PROPERTY_DEVICE_LOCAL_BIT = 0 \<and>
   qualifies example_memory 3 VK_MEMORY_PROPERTY_DEVICE_LOCAL_BIT 0 \<and>
   findMemoryType example_renderer 3 8 = 0 \<and>
   \<not> qualifies example_memory 3 8 0 \<and> \<not> qualifies example_memory 3 8 1 \<and>
   List.map_filter allocation_index
     (calls_since example_renderer
        (snd (createBuffer_vk_buffer buffer_ok 16 VK_BUFFER_USAGE_TRANSFER_SRC_BIT 8 0 0
                example_renderer))) = [0]"
proof -
  have mp: "memProperties (world example_renderer) = example_memory"
    by (simp add: example_renderer_def new_VulkanRendererNative_def new_world_def)
  have q: "qualifies example_memory 3 VK_MEMORY_PROPERTY_DEVICE_LOCAL_BIT 0"
     "\<not> qualifies example_memory 3 8 0" "\<not> qualifies example_memory 3 8 1"
    by (simp_all add: qualifies_def example_memory_def VK_MEMORY_PROPERTY_DEVICE_LOCAL_BIT_def)
  have none: "\<not> (\<exists>k<unat (memoryTypeCount example_memory). qualifies example_memory 3 8 k)"
  proof
    assume "\<exists>k<unat (memoryTypeCount example_memory). qualifies example_memory 3 8 k"
    then obtain k where "k < 2" "qualifies example_memory 3 8 k"
      by (auto simp: example_memory_def)
    then have "k = 0 \<or> k = 1" by auto
    with q \<open>qualifies example_memory 3 8 k\<close> show False by auto
  qed
  have len: "unat (memoryTypeCount example_memory) \<le> length (memoryTypes example_memory)"
    "length (memoryTypes example_memory) \<le> 32" "0 < unat (memoryTypeCount example_memory)"
    "be_req_typeBits buffer_ok = 3" "be_buffer_ok buffer_ok"
    by (simp_all add: example_memory_def buffer_ok_def)
  show ?thesis
    using findMemoryType_first_match_or_zero [of example_renderer 3 8 buffer_ok 16
        VK_BUFFER_USAGE_TRANSFER_SRC_BIT 0 0]
      findMemoryType_first_match_or_zero [of example_renderer 3
        VK_MEMORY_PROPERTY_DEVICE_LOCAL_BIT buffer_ok 16 VK_BUFFER_USAGE_TRANSFER_SRC_BIT 0 0]
      q none len
    by (simp add: mp)
qed

section \<open>Textures\<close>

lemma loadTexture_vk_texture_formats:
  "c \<in> set (calls_since s (snd (loadTexture_vk_texture e px w h f s))) \<Longrightarrow>
     texel_format c = None \<or> texel_format c = Some VK_FORMAT_R8G8B8A8_UNORM"
  by (auto simp: loadTexture_vk_texture_def calls_since_def Let_def vkCreateWith_def vkCreate_def
      vkAllocateMemory_def api_def split: prod.splits if_splits)

lemma example_texture_calls:
  "calls_since example_renderer (snd (loadTexture_vk_texture texture_ok [] 4 2 f example_renderer)) =
     [CreateImage \<lparr>ici_width = 4, ici_height = 2, ici_depth = 1, ici_mipLevels = 1,
                   ici_arrayLayers = 1, ici_format = 37, ici_usage = 6\<rparr> 1,
      AllocateMemory 64 0 2,
      BindImageMemory 1 2,
      CreateImageView \<lparr>ivi_image = 1, ivi_format = 37, ivi_levelCount = 1, ivi_layerCount = 1\<rparr> 3,
      Create KSampler 4]"
  by (simp add: loadTexture_vk_texture_def calls_since_def Let_def vkCreateWith_def vkCreate_def
      vkAllocateMemory_def api_def texture_ok_def example_renderer_def new_VulkanRendererNative_def
      new_world_def example_memory_def findMemoryType_def findMemoryType_loop.simps
      VK_FORMAT_R8G8B8A8_UNORM_def VK_IMAGE_USAGE_TRANSFER_DST_BIT_def VK_IMAGE_USAGE_SAMPLED_BIT_def
      VK_MEMORY_PROPERTY_DEVICE_LOCAL_BIT_def VK_NULL_HANDLE_def)

text \<open>
  C7. Two \<^verbatim>\<open>loadTexture\<close> calls that agree on everything but the \<^verbatim>\<open>format\<close>
  argument do the same thing: the same handle, the same renderer afterwards (texture table
  and log of API calls included), in both definitions. Every image and image view the call
  creates has the format \<^verbatim>\<open>VK_FORMAT_R8G8B8A8_UNORM\<close>.
\<close>

theorem loadTexture_ignores_format:
  "loadTexture_vk_texture e px w h f1 s = loadTexture_vk_texture e px w h f2 s \<and>
   loadTexture px w h f1 s = loadTexture px w h f2 s \<and>
   (\<forall>c \<in> set (calls_since s (snd (loadTexture_vk_texture e px w h f1 s))).
      texel_format c = None \<or> texel_format c = Some VK_FORMAT_R8G8B8A8_UNORM)"
  using loadTexture_vk_texture_formats [of _ s e px w h f1]
  by (simp add: loadTexture_vk_texture_def loadTexture_def)

theorem loadTexture_ignores_format_witness:
  "loadTexture_vk_texture texture_ok [] 4 2 0 example_renderer =
     loadTexture_vk_texture texture_ok [] 4 2 1 example_renderer \<and>
   map texel_format
     (calls_since example_renderer
        (snd (loadTexture_vk_texture texture_ok [] 4 2 0 example_renderer))) =
     [Some VK_FORMAT_R8G8B8A8_UNORM, None, None, Some VK_FORMAT_R8G8B8A8_UNORM, None]"
  using loadTexture_ignores_format [of texture_ok "[]" 4 2 0 example_renderer 1]
  by (simp add: example_texture_calls VK_FORMAT_R8G8B8A8_UNORM_def)

text \<open>
  C4, as the code has it. When one of the four sub-steps of \<^verbatim>\<open>loadTexture\<close> fails,
  the call returns 0, the texture table and the handle counter are as before, and the call
  has destroyed and freed nothing: every object that was live before is still live, and so
  are the objects the earlier sub-steps created (the image, whenever its creation
  succeeded), which no table entry holds.
\<close>

theorem loadTexture_failure_registers_nothing:
  assumes "\<not> te_image_ok e \<or> \<not> te_alloc_ok e \<or> \<not> te_view_ok e \<or> \<not> te_sampler_ok e"
  shows "fst (loadTexture_vk_texture e px w h f s) = 0 \<and>
         textures (snd (loadTexture_vk_texture e px w h f s)) = textures s \<and>
         nextResourceId (snd (loadTexture_vk_texture e px w h f s)) = nextResourceId s \<and>
         filter is_destruction (calls_since s (snd (loadTexture_vk_texture e px w h f s))) = [] \<and>
         live (world s) \<subseteq> live (world (snd (loadTexture_vk_texture e px w h f s))) \<and>
         (te_image_ok e \<longrightarrow>
            (KImage, fresh (world s)) \<in> live (world (snd (loadTexture_vk_texture e px w h f s))))"
  using assms
  by (auto simp: loadTexture_vk_texture_def calls_since_def Let_def vkCreateWith_def vkCreate_def
      vkAllocateMemory_def api_def split: prod.splits if_splits)

theorem loadTexture_failure_registers_nothing_witness:
  "fst (loadTexture_vk_texture texture_view_fails [] 4 2 0 example_renderer) = 0 \<and>
   textures (snd (loadTexture_vk_texture texture_view_fails [] 4 2 0 example_renderer)) = Map.empty \<and>
   nextResourceId (snd (loadTexture_vk_texture texture_view_fails [] 4 2 0 example_renderer)) = 1 \<and>
   (KImage, 1) \<in> live (world (snd (loadTexture_vk_texture texture_view_fails [] 4 2 0 example_renderer)))"
  using loadTexture_failure_registers_nothing [of texture_view_fails "[]" 4 2 0 example_renderer]
  by (simp add: texture_view_fails_def texture_ok_def example_renderer_def
      new_VulkanRendererNative_def new_world_def)

text \<open>The claim as the specification has it fails: when the image view cannot be created,
  the call returns 0 with an empty texture table, and the image and its memory, created by
  the first two sub-steps, are live.\<close>

theorem loadTexture_failure_leaves_image_and_memory:
  "fst (loadTexture_vk_texture texture_view_fails [] 4 2 0 example_renderer) = 0 \<and>
   textures (snd (loadTexture_vk_texture texture_view_fails [] 4 2 0 example_renderer)) = Map.empty \<and>
   live (world example_renderer) = {} \<and>
   live (world (snd (loadTexture_vk_texture texture_view_fails [] 4 2 0 example_renderer))) =
     {(KImage, 1), (KMemory, 2)}"
  by (auto simp: loadTexture_vk_texture_def Let_def vkCreateWith_def vkCreate_def
      vkAllocateMemory_def api_def texture_view_fails_def texture_ok_def example_renderer_def
      new_VulkanRendererNative_def new_world_def VK_NULL_HANDLE_def)


section \<open>Reported versions\<close>

lemma digit_not_dot: "d < 10 \<Longrightarrow> digit d \<noteq> CHR ''.''"
proof -
  assume "d < 10"
  then have "d \<in> {0, 1, 2, 3, 4, 5, 6, 7, 8, 9}" by auto
  then show ?thesis by (auto simp: digit_def)
qed

lemma to_string_no_dot: "CHR ''.'' \<notin> set (to_string n)"
proof (induction n rule: to_string.induct)
  case (1 n)
  show ?case
  proof (cases "n < 10")
    case True
    then show ?thesis
      using digit_not_dot [of n] by (subst to_string.simps) auto
  next
    case False
    have "n mod 10 < 10" by simp
    then have "digit (n mod 10) \<noteq> CHR ''.''" by (rule digit_not_dot)
    with False "1.IH" show ?thesis
      by (subst to_string.simps) auto
  qed
qed

lemma unat_and_low_bits:
  fixes v m :: u32
  assumes "m = mask n"
  shows "unat (v AND m) = unat v mod 2 ^ n"
proof -
  have "v AND m = take_bit n v"
    unfolding assms by (simp only: take_bit_eq_mask)
  then have "unat (v AND m) = unat (take_bit n v)" by (rule arg_cong)
  also have "\<dots> = take_bit n (unat v)" by (rule unsigned_take_bit_eq)
  also have "\<dots> = unat v mod 2 ^ n" by (rule take_bit_eq_mod)
  finally show ?thesis .
qed

lemma major_eq: "unat (VK_VERSION_MAJOR v) = unat v div 2 ^ 22"
  by (simp add: VK_VERSION_MAJOR_def drop_bit_eq_div unat_div)

lemma minor_eq: "unat (VK_VERSION_MINOR v) = unat v div 2 ^ 12 mod 2 ^ 10"
proof -
  have "(0x3FF :: u32) = mask 10" by (simp add: mask_eq_exp_minus_1)
  then have "unat (drop_bit 12 v AND 0x3FF) = unat (drop_bit 12 v) mod 2 ^ 10"
    by (rule unat_and_low_bits)
  then show ?thesis
    by (simp add: VK_VERSION_MINOR_def drop_bit_eq_div unat_div)
qed

lemma patch_eq: "unat (VK_VERSION_PATCH v) = unat v mod 2 ^ 12"
proof -
  have "(0xFFF :: u32) = mask 12" by (simp add: mask_eq_exp_minus_1)
  then have "unat (v AND 0xFFF) = unat v mod 2 ^ 12"
    by (rule unat_and_low_bits)
  then show ?thesis
    by (simp add: VK_VERSION_PATCH_def)
qed

lemma example_initialized_device:
  "physicalDevice example_initialized = 7 \<and> deviceProperties example_initialized = example_properties"
  by (simp add: example_initialized_def initialize_def initialize_with_def createInstance_def
      pickPhysicalDevice_def createLogicalDevice_def createCommandPools_def createSyncObjects_def
      createDescriptorPool_def vkCreate_def vkCreateWith_def api_def init_ok_def Let_def
      example_renderer_def new_VulkanRendererNative_def new_world_def UINT32_MAX_def
      VK_QUEUE_GRAPHICS_BIT_def VK_QUEUE_COMPUTE_BIT_def VK_QUEUE_TRANSFER_BIT_def)

text \<open>
  C8, as the code has it. \<^verbatim>\<open>getVulkanInfo\<close> formats \<^verbatim>\<open>apiVersion\<close> as the dotted
  major.minor.patch string decoded from the packed \<^verbatim>\<open>apiVersion\<close> of the device;
  \<^verbatim>\<open>driverVersion\<close> is the packed \<^verbatim>\<open>driverVersion\<close> printed as one decimal number,
  with no dot in it. This holds for the definition of \<^verbatim>\<open>vulkan_renderer_native.cpp\<close>,
  and for the one of \<^verbatim>\<open>vk_utils.cpp\<close> once a physical device has been picked.
\<close>

theorem getVulkanInfo_versions:
  "apiVersion (getVulkanInfo s) = dotted (unat (pd_apiVersion (deviceProperties s))) \<and>
   driverVersion (getVulkanInfo s) = to_string (unat (pd_driverVersion (deviceProperties s))) \<and>
   CHR ''.'' \<notin> set (driverVersion (getVulkanInfo s)) \<and>
   (physicalDevice s \<noteq> VK_NULL_HANDLE \<longrightarrow>
      apiVersion (getVulkanInfo_vk_utils u s) = dotted (unat (pd_apiVersion (deviceProperties s))) \<and>
      driverVersion (getVulkanInfo_vk_utils u s) =
        to_string (unat (pd_driverVersion (deviceProperties s))) \<and>
      CHR ''.'' \<notin> set (driverVersion (getVulkanInfo_vk_utils u s)))"
  by (simp add: getVulkanInfo_def getVulkanInfo_vk_utils_def Let_def dotted_def major_eq minor_eq
      patch_eq to_string_no_dot)

theorem getVulkanInfo_versions_witness:
  "apiVersion (getVulkanInfo example_initialized) = ''1.3.0'' \<and>
   driverVersion (getVulkanInfo example_initialized) = ''4202499'' \<and>
   apiVersion (getVulkanInfo_vk_utils (getVulkanInfo example_renderer) example_initialized) =
     ''1.3.0'' \<and>
   driverVersion (getVulkanInfo_vk_utils (getVulkanInfo example_renderer) example_initialized) =
     ''4202499''"
  using getVulkanInfo_versions [of example_initialized "getVulkanInfo example_renderer"]
  by (simp add: example_initialized_device example_properties_def dotted_def to_string.simps
      digit_def VK_NULL_HANDLE_def)

text \<open>The claim as the specification has it fails for \<^verbatim>\<open>driverVersion\<close>: the device of
  the example has the packed driver version 1.2.3, and both definitions report it as
  4202499.\<close>

theorem getVulkanInfo_driverVersion_not_dotted:
  "dotted (unat (pd_driverVersion (deviceProperties example_initialized))) = ''1.2.3'' \<and>
   driverVersion (getVulkanInfo example_initialized) = ''4202499'' \<and>
   physicalDevice example_initialized \<noteq> VK_NULL_HANDLE \<and>
   driverVersion (getVulkanInfo_vk_utils (getVulkanInfo example_renderer) example_initialized) =
     ''4202499''"
  by (simp add: example_initialized_device getVulkanInfo_def getVulkanInfo_vk_utils_def Let_def
      example_properties_def dotted_def to_string.simps digit_def VK_NULL_HANDLE_def)


section \<open>Queue families\<close>

lemma scan_components:
  "scanQueueFamilies fams i (g, c, t) =
     (scan1 VK_QUEUE_GRAPHICS_BIT fams i g, scan1 VK_QUEUE_COMPUTE_BIT fams i c,
      scan1 VK_QUEUE_TRANSFER_BIT fams i t)"
  by (induction fams arbitrary: i g c t) simp_all

lemma scan1_snoc:
  "scan1 flag (fams @ [f]) i d =
     (if f AND flag \<noteq> 0 then i + of_nat (length fams) else scan1 flag fams i d)"
  by (induction fams arbitrary: i d) (simp_all add: add.assoc add.commute)

lemma offers_snoc:
  "offers flag (fams @ [f]) k = (offers flag fams k \<or> (k = length fams \<and> f AND flag \<noteq> 0))"
  by (auto simp: offers_def nth_append less_Suc_eq)

lemma scan1_none:
  "(\<forall>k. \<not> offers flag fams k) \<Longrightarrow> scan1 flag fams i d = d"
proof (induction fams rule: rev_induct)
  case Nil
  show ?case by simp
next
  case (snoc f fams)
  from snoc.prems have nf: "\<not> f AND flag \<noteq> 0" and none: "\<forall>k. \<not> offers flag fams k"
    by (simp_all add: offers_snoc)
  have "scan1 flag fams i d = d" using none by (rule snoc.IH)
  with nf show ?case by (simp add: scan1_snoc)
qed

text \<open>A scan that starts at index \<open>i\<close> ends with the index of the last family that
  offers the capability.\<close>

lemma scan1_last:
  "last_offering flag fams k \<Longrightarrow> scan1 flag fams i d = i + of_nat k"
proof (induction fams rule: rev_induct)
  case Nil
  then show ?case by (simp add: last_offering_def offers_def)
next
  case (snoc f fams)
  show ?case
  proof (cases "f AND flag \<noteq> 0")
    case True
    then have "offers flag (fams @ [f]) (length fams)" by (simp add: offers_snoc)
    moreover from snoc.prems have "k < length (fams @ [f])"
      by (simp add: last_offering_def offers_def)
    ultimately have "k = length fams"
      using snoc.prems unfolding last_offering_def
      by (metis length_append_singleton less_Suc_eq)
    with True show ?thesis by (simp add: scan1_snoc)
  next
    case False
    with snoc.prems have "last_offering flag fams k"
      unfolding last_offering_def offers_snoc by simp
    then have "scan1 flag fams i d = i + of_nat k" by (rule snoc.IH)
    with False show ?thesis by (simp add: scan1_snoc)
  qed
qed

lemma index_not_max:
  "k < length fams \<Longrightarrow> length fams < 2 ^ 32 \<Longrightarrow> (of_nat k :: u32) \<noteq> UINT32_MAX"
proof
  assume a: "k < length fams" "length fams < 2 ^ 32" "(of_nat k :: u32) = UINT32_MAX"
  have "unat (of_nat k :: u32) = k" using a(1,2) by (simp add: unat_of_nat)
  moreover have "unat (of_nat k :: u32) = unat UINT32_MAX" by (simp only: a(3))
  moreover have "unat UINT32_MAX = 2 ^ 32 - 1" by (simp add: UINT32_MAX_def)
  ultimately show False using a(1,2) by simp
qed

lemma last_offering_not_max:
  "last_offering flag fams k \<Longrightarrow> length fams < 2 ^ 32 \<Longrightarrow> (of_nat k :: u32) \<noteq> UINT32_MAX"
  by (rule index_not_max [of k fams]) (simp_all add: last_offering_def offers_def)

lemma initialize_with_needs_device:
  "fst (initialize_with cld e s) \<Longrightarrow>
     fst (cld e (snd (pickPhysicalDevice e (snd (createInstance e s)))))"
  by (auto simp: initialize_with_def split: prod.splits if_splits)

lemma families_before_device:
  "graphicsQueueFamily (snd (pickPhysicalDevice e (snd (createInstance e s)))) = graphicsQueueFamily s \<and>
   computeQueueFamily (snd (pickPhysicalDevice e (snd (createInstance e s)))) = computeQueueFamily s \<and>
   transferQueueFamily (snd (pickPhysicalDevice e (snd (createInstance e s)))) = transferQueueFamily s"
  by (simp add: pickPhysicalDevice_def createInstance_def split: prod.splits list.splits)

lemma createLogicalDevice_none:
  assumes "\<forall>k. \<not> offers VK_QUEUE_GRAPHICS_BIT (ie_queueFamilies e) k"
  shows "graphicsQueueFamily s = UINT32_MAX \<Longrightarrow> \<not> fst (createLogicalDevice e s)"
    and "\<not> fst (createLogicalDevice_vk_device e s)"
  using scan1_none [OF assms]
  by (simp_all add: createLogicalDevice_def createLogicalDevice_vk_device_def scan_components Let_def)

lemma createLogicalDevice_graphics:
  assumes "last_offering VK_QUEUE_GRAPHICS_BIT (ie_queueFamilies e) k"
    and "length (ie_queueFamilies e) < 2 ^ 32"
  shows "graphicsQueueFamily (snd (createLogicalDevice e s)) = of_nat k"
    and "graphicsQueueFamily (snd (createLogicalDevice_vk_device e s)) = of_nat k"
    and "fst (createLogicalDevice e s) = ie_device_ok e"
    and "fst (createLogicalDevice_vk_device e s) = ie_device_ok e"
  using scan1_last [OF assms(1), of 0] last_offering_not_max [OF assms]
  by (simp_all add: createLogicalDevice_def createLogicalDevice_vk_device_def scan_components
      Let_def vkCreate_def vkCreateWith_def split: prod.splits)

lemma createLogicalDevice_compute:
  assumes "last_offering VK_QUEUE_COMPUTE_BIT (ie_queueFamilies e) k"
    and "length (ie_queueFamilies e) < 2 ^ 32"
  shows "computeQueueFamily (snd (createLogicalDevice e s)) = of_nat k"
    and "computeQueueFamily (snd (createLogicalDevice_vk_device e s)) = of_nat k"
  using scan1_last [OF assms(1), of 0] last_offering_not_max [OF assms]
  by (simp_all add: createLogicalDevice_def createLogicalDevice_vk_device_def scan_components
      Let_def vkCreate_def vkCreateWith_def split: prod.splits)

lemma createLogicalDevice_transfer:
  assumes "last_offering VK_QUEUE_TRANSFER_BIT (ie_queueFamilies e) k"
    and "length (ie_queueFamilies e) < 2 ^ 32"
  shows "transferQueueFamily (snd (createLogicalDevice e s)) = of_nat k"
    and "transferQueueFamily (snd (createLogicalDevice_vk_device e s)) = of_nat k"
  using scan1_last [OF assms(1), of 0] last_offering_not_max [OF assms]
  by (simp_all add: createLogicalDevice_def createLogicalDevice_vk_device_def scan_components
      Let_def vkCreate_def vkCreateWith_def split: prod.splits)

lemma createLogicalDevice_compute_alias:
  assumes "last_offering VK_QUEUE_GRAPHICS_BIT (ie_queueFamilies e) g"
    and "\<forall>k. \<not> offers VK_QUEUE_COMPUTE_BIT (ie_queueFamilies e) k"
    and "length (ie_queueFamilies e) < 2 ^ 32"
    and "computeQueueFamily s = UINT32_MAX"
  shows "computeQueueFamily (snd (createLogicalDevice e s)) =
           graphicsQueueFamily (snd (createLogicalDevice e s))"
    and "computeQueueFamily (snd (createLogicalDevice_vk_device e s)) = UINT32_MAX"
    and "ie_device_ok e \<Longrightarrow> computeQueue (snd (createLogicalDevice_vk_device e s)) =
           graphicsQueue (snd (createLogicalDevice_vk_device e s))"
  using scan1_last [OF assms(1), of 0] last_offering_not_max [OF assms(1,3)]
    scan1_none [OF assms(2)] assms(4)
  by (simp_all add: createLogicalDevice_def createLogicalDevice_vk_device_def scan_components
      Let_def vkCreate_def vkCreateWith_def split: prod.splits)

lemma createLogicalDevice_transfer_alias:
  assumes "last_offering VK_QUEUE_GRAPHICS_BIT (ie_queueFamilies e) g"
    and "\<forall>k. \<not> offers VK_QUEUE_TRANSFER_BIT (ie_queueFamilies e) k"
    and "length (ie_queueFamilies e) < 2 ^ 32"
    and "transferQueueFamily s = UINT32_MAX"
  shows "transferQueueFamily (snd (createLogicalDevice e s)) =
           graphicsQueueFamily (snd (createLogicalDevice e s))"
    and "transferQueueFamily (snd (createLogicalDevice_vk_device e s)) = UINT32_MAX"
    and "ie_device_ok e \<Longrightarrow> transferQueue (snd (createLogicalDevice_vk_device e s)) =
           graphicsQueue (snd (createLogicalDevice_vk_device e s))"
  using scan1_last [OF assms(1), of 0] last_offering_not_max [OF assms(1,3)]
    scan1_none [OF assms(2)] assms(4)
  by (simp_all add: createLogicalDevice_def createLogicalDevice_vk_device_def scan_components
      Let_def vkCreate_def vkCreateWith_def split: prod.splits)


text \<open>
  C6, as the code has it. For every list of queue families the device reports (its length
  is a \<^verbatim>\<open>uint32_t\<close>), on a renderer whose three family fields still hold
  \<^verbatim>\<open>UINT32_MAX\<close>: queue-family discovery records, for each of the graphics, compute and
  transfer capabilities, the last family in enumeration order that offers it. Without a
  graphics family \<^verbatim>\<open>createLogicalDevice\<close> fails, and \<^verbatim>\<open>initialize\<close> with it; with
  one, it succeeds exactly when \<^verbatim>\<open>vkCreateDevice\<close> does. Without a compute (transfer)
  family, \<^verbatim>\<open>vulkan_renderer_native.cpp\<close> sets the compute (transfer) family to the
  graphics family; \<^verbatim>\<open>vk_device.cpp\<close> leaves the field at \<^verbatim>\<open>UINT32_MAX\<close> and takes
  the compute (transfer) queue from the graphics family.
\<close>

theorem queue_family_discovery_records_last:
  assumes "length (ie_queueFamilies e) < 2 ^ 32"
    and "graphicsQueueFamily s = UINT32_MAX"
    and "computeQueueFamily s = UINT32_MAX"
    and "transferQueueFamily s = UINT32_MAX"
  shows "((\<forall>k. \<not> offers VK_QUEUE_GRAPHICS_BIT (ie_queueFamilies e) k) \<longrightarrow>
            \<not> fst (createLogicalDevice e s) \<and> \<not> fst (createLogicalDevice_vk_device e s) \<and>
            \<not> fst (initialize e s) \<and> \<not> fst (initialize_vk_device e s)) \<and>
         (\<forall>k. last_offering VK_QUEUE_GRAPHICS_BIT (ie_queueFamilies e) k \<longrightarrow>
            graphicsQueueFamily (snd (createLogicalDevice e s)) = of_nat k \<and>
            graphicsQueueFamily (snd (createLogicalDevice_vk_device e s)) = of_nat k \<and>
            fst (createLogicalDevice e s) = ie_device_ok e \<and>
            fst (createLogicalDevice_vk_device e s) = ie_device_ok e) \<and>
         (\<forall>k. last_offering VK_QUEUE_COMPUTE_BIT (ie_queueFamilies e) k \<longrightarrow>
            computeQueueFamily (snd (createLogicalDevice e s)) = of_nat k \<and>
            computeQueueFamily (snd (createLogicalDevice_vk_device e s)) = of_nat k) \<and>
         (\<forall>k. last_offering VK_QUEUE_TRANSFER_BIT (ie_queueFamilies e) k \<longrightarrow>
            transferQueueFamily (snd (createLogicalDevice e s)) = of_nat k \<and>
            transferQueueFamily (snd (createLogicalDevice_vk_device e s)) = of_nat k) \<and>
         (\<forall>g. last_offering VK_QUEUE_GRAPHICS_BIT (ie_queueFamilies e) g \<and>
              (\<forall>k. \<not> offers VK_QUEUE_COMPUTE_BIT (ie_queueFamilies e) k) \<longrightarrow>
            computeQueueFamily (snd (createLogicalDevice e s)) =
              graphicsQueueFamily (snd (createLogicalDevice e s)) \<and>
            computeQueueFamily (snd (createLogicalDevice_vk_device e s)) = UINT32_MAX \<and>
            (ie_device_ok e \<longrightarrow>
               computeQueue (snd (createLogicalDevice_vk_device e s)) =
                 graphicsQueue (snd (createLogicalDevice_vk_device e s)))) \<and>
         (\<forall>g. last_offering VK_QUEUE_GRAPHICS_BIT (ie_queueFamilies e) g \<and>
              (\<forall>k. \<not> offers VK_QUEUE_TRANSFER_BIT (ie_queueFamilies e) k) \<longrightarrow>
            transferQueueFamily (snd (createLogicalDevice e s)) =
              graphicsQueueFamily (snd (createLogicalDevice e s)) \<and>
            transferQueueFamily (snd (createLogicalDevice_vk_device e s)) = UINT32_MAX \<and>
            (ie_device_ok e \<longrightarrow>
               transferQueue (snd (createLogicalDevice_vk_device e s)) =
                 graphicsQueue (snd (createLogicalDevice_vk_device e s))))"
proof (intro conjI allI impI)
  assume none: "\<forall>k. \<not> offers VK_QUEUE_GRAPHICS_BIT (ie_queueFamilies e) k"
  let ?s2 = "snd (pickPhysicalDevice e (snd (createInstance e s)))"
  show "\<not> fst (createLogicalDevice e s)"
    using createLogicalDevice_none(1) [OF none assms(2)] .
  show "\<not> fst (createLogicalDevice_vk_device e s)"
    using createLogicalDevice_none(2) [OF none] .
  have "graphicsQueueFamily ?s2 = UINT32_MAX"
    using families_before_device [of e s] assms(2) by simp
  then have "\<not> fst (createLogicalDevice e ?s2)"
    by (rule createLogicalDevice_none(1) [OF none])
  then show "\<not> fst (initialize e s)"
    unfolding initialize_def using initialize_with_needs_device [of createLogicalDevice e s] by blast
  have "\<not> fst (createLogicalDevice_vk_device e ?s2)"
    by (rule createLogicalDevice_none(2) [OF none])
  then show "\<not> fst (initialize_vk_device e s)"
    unfolding initialize_vk_device_def
    using initialize_with_needs_device [of createLogicalDevice_vk_device e s] by blast
next
  fix k assume "last_offering VK_QUEUE_GRAPHICS_BIT (ie_queueFamilies e) k"
  note g = createLogicalDevice_graphics [OF this assms(1)]
  show "graphicsQueueFamily (snd (createLogicalDevice e s)) = of_nat k" by (rule g(1))
  show "graphicsQueueFamily (snd (createLogicalDevice_vk_device e s)) = of_nat k" by (rule g(2))
  show "fst (createLogicalDevice e s) = ie_device_ok e" by (rule g(3))
  show "fst (createLogicalDevice_vk_device e s) = ie_device_ok e" by (rule g(4))
next
  fix k assume "last_offering VK_QUEUE_COMPUTE_BIT (ie_queueFamilies e) k"
  note c = createLogicalDevice_compute [OF this assms(1)]
  show "computeQueueFamily (snd (createLogicalDevice e s)) = of_nat k" by (rule c(1))
  show "computeQueueFamily (snd (createLogicalDevice_vk_device e s)) = of_nat k" by (rule c(2))
next
  fix k assume "last_offering VK_QUEUE_TRANSFER_BIT (ie_queueFamilies e) k"
  note c = createLogicalDevice_transfer [OF this assms(1)]
  show "transferQueueFamily (snd (createLogicalDevice e s)) = of_nat k" by (rule c(1))
  show "transferQueueFamily (snd (createLogicalDevice_vk_device e s)) = of_nat k" by (rule c(2))
next
  fix g assume a: "last_offering VK_QUEUE_GRAPHICS_BIT (ie_queueFamilies e) g \<and>
      (\<forall>k. \<not> offers VK_QUEUE_COMPUTE_BIT (ie_queueFamilies e) k)"
  note c = createLogicalDevice_compute_alias [OF conjunct1 [OF a] conjunct2 [OF a] assms(1,3)]
  show "computeQueueFamily (snd (createLogicalDevice e s)) =
      graphicsQueueFamily (snd (createLogicalDevice e s))" by (rule c(1))
  show "computeQueueFamily (snd (createLogicalDevice_vk_device e s)) = UINT32_MAX" by (rule c(2))
  show "computeQueue (snd (createLogicalDevice_vk_device e s)) =
      graphicsQueue (snd (createLogicalDevice_vk_device e s))" if "ie_device_ok e"
    using that by (rule c(3))
next
  fix g assume a: "last_offering VK_QUEUE_GRAPHICS_BIT (ie_queueFamilies e) g \<and>
      (\<forall>k. \<not> offers VK_QUEUE_TRANSFER_BIT (ie_queueFamilies e) k)"
  note c = createLogicalDevice_transfer_alias [OF conjunct1 [OF a] conjunct2 [OF a] assms(1,4)]
  show "transferQueueFamily (snd (createLogicalDevice e s)) =
      graphicsQueueFamily (snd (createLogicalDevice e s))" by (rule c(1))
  show "transferQueueFamily (snd (createLogicalDevice_vk_device e s)) = UINT32_MAX" by (rule c(2))
  show "transferQueue (snd (createLogicalDevice_vk_device e s)) =
      graphicsQueue (snd (createLogicalDevice_vk_device e s))" if "ie_device_ok e"
    using that by (rule c(3))
qed

lemma example_families:
  "last_offering VK_QUEUE_GRAPHICS_BIT [7, 6] 0"
  "last_offering VK_QUEUE_COMPUTE_BIT [7, 6] 1"
  "last_offering VK_QUEUE_TRANSFER_BIT [7, 6] 1"
  "first_offering VK_QUEUE_COMPUTE_BIT [7, 6] 0"
  "first_offering VK_QUEUE_TRANSFER_BIT [7, 6] 0"
  "last_offering VK_QUEUE_GRAPHICS_BIT [1] 0"
  "\<forall>k. \<not> offers VK_QUEUE_COMPUTE_BIT [1] k"
  "\<forall>k. \<not> offers VK_QUEUE_TRANSFER_BIT [1] k"
  "\<forall>k. \<not> offers VK_QUEUE_GRAPHICS_BIT [6] k"
  by (auto simp: last_offering_def first_offering_def offers_def less_Suc_eq nth_Cons'
      VK_QUEUE_GRAPHICS_BIT_def VK_QUEUE_COMPUTE_BIT_def VK_QUEUE_TRANSFER_BIT_def)

lemma example_renderer_families:
  "graphicsQueueFamily example_renderer = UINT32_MAX"
  "computeQueueFamily example_renderer = UINT32_MAX"
  "transferQueueFamily example_renderer = UINT32_MAX"
  by (simp_all add: example_renderer_def new_VulkanRendererNative_def)

theorem queue_family_discovery_records_last_witness:
  "graphicsQueueFamily (snd (createLogicalDevice init_ok example_renderer)) = 0 \<and>
   computeQueueFamily (snd (createLogicalDevice init_ok example_renderer)) = 1 \<and>
   transferQueueFamily (snd (createLogicalDevice_vk_device init_ok example_renderer)) = 1 \<and>
   fst (createLogicalDevice init_ok example_renderer) \<and>
   computeQueueFamily (snd (createLogicalDevice init_graphics_only example_renderer)) =
     graphicsQueueFamily (snd (createLogicalDevice init_graphics_only example_renderer)) \<and>
   transferQueue (snd (createLogicalDevice_vk_device init_graphics_only example_renderer)) =
     graphicsQueue (snd (createLogicalDevice_vk_device init_graphics_only example_renderer)) \<and>
   \<not> fst (initialize init_no_graphics example_renderer) \<and>
   \<not> fst (initialize_vk_device init_no_graphics example_renderer)"
proof -
  have e: "ie_queueFamilies init_ok = [7, 6]" "ie_device_ok init_ok"
    "ie_queueFamilies init_graphics_only = [1]" "ie_device_ok init_graphics_only"
    "ie_queueFamilies init_no_graphics = [6]"
    by (simp_all add: init_ok_def init_graphics_only_def init_no_graphics_def)
  have len: "length (ie_queueFamilies init_ok) < 2 ^ 32"
    "length (ie_queueFamilies init_graphics_only) < 2 ^ 32"
    "length (ie_queueFamilies init_no_graphics) < 2 ^ 32"
    by (simp_all add: e)
  note ok = queue_family_discovery_records_last [OF len(1) example_renderer_families]
  note only = queue_family_discovery_records_last [OF len(2) example_renderer_families]
  note none = queue_family_discovery_records_last [OF len(3) example_renderer_families]
  have g: "graphicsQueueFamily (snd (createLogicalDevice init_ok example_renderer)) = 0 \<and>
      fst (createLogicalDevice init_ok example_renderer)"
    using ok [THEN conjunct2, THEN conjunct1, rule_format, of 0] example_families(1)
    by (simp add: e)
  have c: "computeQueueFamily (snd (createLogicalDevice init_ok example_renderer)) = 1"
    using ok [THEN conjunct2, THEN conjunct2, THEN conjunct1, rule_format, of 1]
      example_families(2)
    by (simp add: e)
  have t: "transferQueueFamily (snd (createLogicalDevice_vk_device init_ok example_renderer)) = 1"
    using ok [THEN conjunct2, THEN conjunct2, THEN conjunct2, THEN conjunct1, rule_format, of 1]
      example_families(3)
    by (simp add: e)
  have ca: "computeQueueFamily (snd (createLogicalDevice init_graphics_only example_renderer)) =
      graphicsQueueFamily (snd (createLogicalDevice init_graphics_only example_renderer))"
    using only [THEN conjunct2, THEN conjunct2, THEN conjunct2, THEN conjunct2, THEN conjunct1,
        rule_format, of 0] example_families(6,7)
    by (simp add: e)
  have ta: "transferQueue (snd (createLogicalDevice_vk_device init_graphics_only example_renderer)) =
      graphicsQueue (snd (createLogicalDevice_vk_device init_graphics_only example_renderer))"
    using only [THEN conjunct2, THEN conjunct2, THEN conjunct2, THEN conjunct2, THEN conjunct2,
        rule_format, of 0] example_families(6,8)
    by (simp add: e)
  have n: "\<not> fst (initialize init_no_graphics example_renderer) \<and>
      \<not> fst (initialize_vk_device init_no_graphics example_renderer)"
    using none [THEN conjunct1] example_families(9)
    by (simp add: e)
  from g c t ca ta n show ?thesis by simp
qed

text \<open>The claim as the specification has it fails: the device of the example offers compute
  and transfer in family 0 already, and both definitions record family 1.\<close>

theorem queue_family_discovery_not_first:
  "first_offering VK_QUEUE_COMPUTE_BIT (ie_queueFamilies init_ok) 0 \<and>
   computeQueueFamily (snd (createLogicalDevice init_ok example_renderer)) = 1 \<and>
   computeQueueFamily (snd (createLogicalDevice_vk_device init_ok example_renderer)) = 1 \<and>
   first_offering VK_QUEUE_TRANSFER_BIT (ie_queueFamilies init_ok) 0 \<and>
   transferQueueFamily (snd (createLogicalDevice init_ok example_renderer)) = 1 \<and>
   transferQueueFamily (snd (createLogicalDevice_vk_device init_ok example_renderer)) = 1"
proof -
  have e: "ie_queueFamilies init_ok = [7, 6]"
    by (simp add: init_ok_def)
  have l: "length (ie_queueFamilies init_ok) < 2 ^ 32"
    by (simp add: e)
  show ?thesis
    using createLogicalDevice_compute [of init_ok 1 example_renderer]
      createLogicalDevice_transfer [of init_ok 1 example_renderer]
      example_families l
    by (simp add: e)
qed




section \<open>The example renderer, step by step\<close>

lemmas init_defs = initialize_def initialize_with_def createInstance_def
  pickPhysicalDevice_def createLogicalDevice_def createCommandPools_def createSyncObjects_def
  createDescriptorPool_def vkCreate_def vkCreateWith_def api_def init_ok_def Let_def
  example_renderer_def new_VulkanRendererNative_def new_world_def UINT32_MAX_def
  VK_QUEUE_GRAPHICS_BIT_def VK_QUEUE_COMPUTE_BIT_def VK_QUEUE_TRANSFER_BIT_def
  VK_NULL_HANDLE_def VK_FORMAT_UNDEFINED_def

lemmas swap_defs = setSurface_def createSwapchain_def createRenderPass_def createFramebuffers_def
  createCommandBuffers_def resize_def swap_ok_def vkCreate_def vkCreateWith_def api_def Let_def
  VK_NULL_HANDLE_def VK_FORMAT_B8G8R8A8_UNORM_def VK_COLOR_SPACE_SRGB_NONLINEAR_KHR_def
  VK_PRESENT_MODE_FIFO_KHR_def

lemma example_initialized_eq:
  "example_initialized =
     \<lparr>instance_h = 1, physicalDevice = 7, device = 2,
      graphicsQueue = 100, computeQueue = 100, transferQueue = 100,
      surface = 0, swapchain = 0,
      swapchainImages = [], swapchainImageViews = [], framebuffers = [],
      renderPass = 0, commandPool = 3, computeCommandPool = 4, commandBuffers = [],
      imageAvailableSemaphore = 5, renderFinishedSemaphore = 6,
      inFlightFence = 7, descriptorPool = 8,
      descriptorSetLayout = 0, deviceProperties = example_properties,
      graphicsQueueFamily = 0, computeQueueFamily = 1,
      transferQueueFamily = 1, currentFrame = 0, imageIndex = 0,
      swapchainExtent = (0, 0), swapchainFormat = 0,
      meshes = Map.empty, textures = Map.empty, shaders = Map.empty, pipelines = Map.empty,
      nextResourceId = 1,
      world = \<lparr>calls = [Create KInstance 1, Create KDevice 2, GetDeviceQueue 0 100,
                 Create KCommandPool 3, Create KCommandPool 4, Create KSemaphore 5,
                 Create KSemaphore 6, Create KFence 7, Create KDescriptorPool 8],
               live = {(KDescriptorPool, 8), (KFence, 7), (KSemaphore, 6), (KSemaphore, 5),
                 (KCommandPool, 4), (KCommandPool, 3), (KDevice, 2), (KInstance, 1)},
               fresh = 9, memProperties = example_memory\<rparr>\<rparr>"
  by (simp add: example_initialized_def init_defs del: One_nat_def)

lemma example_attached_eq:
  "example_attached =
     \<lparr>instance_h = 1, physicalDevice = 7, device = 2,
      graphicsQueue = 100, computeQueue = 100, transferQueue = 100,
      surface = 9, swapchain = 10,
      swapchainImages = [201, 202], swapchainImageViews = [11, 12], framebuffers = [14, 15],
      renderPass = 13, commandPool = 3, computeCommandPool = 4, commandBuffers = [16, 17],
      imageAvailableSemaphore = 5, renderFinishedSemaphore = 6,
      inFlightFence = 7, descriptorPool = 8,
      descriptorSetLayout = 0, deviceProperties = example_properties,
      graphicsQueueFamily = 0, computeQueueFamily = 1,
      transferQueueFamily = 1, currentFrame = 0, imageIndex = 0,
      swapchainExtent = (640, 480), swapchainFormat = 44,
      meshes = Map.empty, textures = Map.empty, shaders = Map.empty, pipelines = Map.empty,
      nextResourceId = 1,
      world = \<lparr>calls = [Create KInstance 1, Create KDevice 2, GetDeviceQueue 0 100,
                 Create KCommandPool 3, Create KCommandPool 4, Create KSemaphore 5,
                 Create KSemaphore 6, Create KFence 7, Create KDescriptorPool 8,
                 Create KSurface 9,
                 CreateSwapchain \<lparr>sci_surface = 9, sci_minImageCount = 2, sci_imageFormat = 44,
                   sci_imageColorSpace = 0, sci_extent = (640, 480), sci_presentMode = 2\<rparr> 10,
                 CreateImageView \<lparr>ivi_image = 201, ivi_format = 44, ivi_levelCount = 1,
                   ivi_layerCount = 1\<rparr> 11,
                 CreateImageView \<lparr>ivi_image = 202, ivi_format = 44, ivi_levelCount = 1,
                   ivi_layerCount = 1\<rparr> 12,
                 Create KRenderPass 13, CreateFramebuffer 13 11 (640, 480) 14,
                 CreateFramebuffer 13 12 (640, 480) 15, AllocateCommandBuffers 3 2 True],
               live = {(KFramebuffer, 15), (KFramebuffer, 14), (KRenderPass, 13),
                 (KImageView, 12), (KImageView, 11), (KSwapchain, 10), (KSurface, 9),
                 (KDescriptorPool, 8), (KFence, 7), (KSemaphore, 6), (KSemaphore, 5),
                 (KCommandPool, 4), (KCommandPool, 3), (KDevice, 2), (KInstance, 1)},
               fresh = 18, memProperties = example_memory\<rparr>\<rparr>"
  by (simp add: example_attached_def example_initialized_eq swap_defs upt_rec del: One_nat_def)

lemma example_frame_fields:
  "graphicsQueue example_frame = 100 \<and> renderFinishedSemaphore example_frame = 6 \<and>
   inFlightFence example_frame = 7 \<and> swapchain example_frame = 10 \<and>
   imageIndex example_frame = 1"
  by (simp add: example_frame_def example_attached_eq beginFrame_def Let_def)

section \<open>Shutdown twice\<close>





lemma destroy_all_Nil: "destroy_all k [] w = w"
  by (simp add: destroy_all_def)





section \<open>Presenting a frame\<close>

lemma endFrame_calls:
  "calls_since s (endFrame s) =
     [QueuePresent (graphicsQueue s) [renderFinishedSemaphore s] (swapchain s) (imageIndex s)]"
  by (simp add: calls_since_def endFrame_def api_def)

lemma beginFrame_calls:
  "calls_since s (beginFrame a s) =
     [WaitForFences (inFlightFence s), ResetFences (inFlightFence s),
      AcquireNextImage (swapchain s) (imageAvailableSemaphore s)]"
  by (simp add: calls_since_def beginFrame_def api_def Let_def)

lemma beginFrame_fields:
  "graphicsQueue (beginFrame a s) = graphicsQueue s \<and>
   renderFinishedSemaphore (beginFrame a s) = renderFinishedSemaphore s \<and>
   inFlightFence (beginFrame a s) = inFlightFence s \<and>
   swapchain (beginFrame a s) = swapchain s \<and>
   imageIndex (beginFrame (Some i) s) = i"
  by (simp add: beginFrame_def Let_def)

lemma second_frame_calls:
  "calls_since s (beginFrame a' (endFrame (beginFrame a s))) =
     [WaitForFences (inFlightFence s), ResetFences (inFlightFence s),
      AcquireNextImage (swapchain s) (imageAvailableSemaphore s),
      QueuePresent (graphicsQueue s) [renderFinishedSemaphore s] (swapchain s)
        (case a of None \<Rightarrow> imageIndex s | Some i \<Rightarrow> i),
      WaitForFences (inFlightFence s), ResetFences (inFlightFence s),
      AcquireNextImage (swapchain s) (imageAvailableSemaphore s)]"
  by (simp add: calls_since_def beginFrame_def endFrame_def api_def Let_def)

text \<open>
  C3 against the code. The specification has \<^verbatim>\<open>endFrame\<close> submit the frame's command
  buffer, signalling the render-finished semaphore and the in-flight fence, and then
  present. The code does not submit: every call to \<^verbatim>\<open>endFrame\<close> makes exactly one API
  call, the presentation, on the graphics queue, of the image index stored by
  \<^verbatim>\<open>beginFrame\<close>, waiting on the render-finished semaphore; neither
  \<^verbatim>\<open>endFrame\<close> nor \<^verbatim>\<open>beginFrame\<close> submits anything. The code has the other half
  of the protocol: the presentation waits on the render-finished semaphore, and
  \<^verbatim>\<open>beginFrame\<close> waits for the in-flight fence and resets it. So in any two frames the
  second \<^verbatim>\<open>beginFrame\<close> waits for a fence that the first has reset and that no
  submission has signalled since.
\<close>

theorem endFrame_presents_only:
  "calls_since s (endFrame s) =
     [QueuePresent (graphicsQueue s) [renderFinishedSemaphore s] (swapchain s) (imageIndex s)] \<and>
   calls_since (beginFrame (Some i) s) (endFrame (beginFrame (Some i) s)) =
     [QueuePresent (graphicsQueue s) [renderFinishedSemaphore s] (swapchain s) i] \<and>
   filter is_QueueSubmit (calls_since s (endFrame s)) = [] \<and>
   filter is_QueueSubmit (calls_since s (beginFrame a s)) = [] \<and>
   \<not> submits_then_presents (renderFinishedSemaphore s) (inFlightFence s)
       (calls_since s (endFrame s)) \<and>
   waits_unsignalled (inFlightFence s) b
     (calls_since s (beginFrame a' (endFrame (beginFrame a s))))"
  by (simp add: endFrame_calls beginFrame_calls beginFrame_fields second_frame_calls)


theorem endFrame_presents_only_witness:
  "calls_since example_frame (endFrame example_frame) = [QueuePresent 100 [6] 10 1] \<and>
   filter is_QueueSubmit (calls_since example_frame (endFrame example_frame)) = []"
  using endFrame_presents_only [of example_frame]
  by (simp add: example_frame_fields)

text \<open>In the example, with a surface attached and a frame begun, \<^verbatim>\<open>endFrame\<close> only
  presents: no submission signalling semaphore 6 and fence 7 comes before the presentation.
  The next \<^verbatim>\<open>beginFrame\<close> then waits for fence 7, which was created signalled, has been
  reset by the first \<^verbatim>\<open>beginFrame\<close> and is signalled by nothing.\<close>

theorem endFrame_submits_nothing:
  "calls_since example_frame (endFrame example_frame) = [QueuePresent 100 [6] 10 1] \<and>
   renderFinishedSemaphore example_frame = 6 \<and> inFlightFence example_frame = 7 \<and>
   \<not> submits_then_presents 6 7 (calls_since example_frame (endFrame example_frame)) \<and>
   calls_since example_attached (beginFrame (Some 0) (endFrame example_frame)) =
     [WaitForFences 7, ResetFences 7, AcquireNextImage 10 5, QueuePresent 100 [6] 10 1,
      WaitForFences 7, ResetFences 7, AcquireNextImage 10 5] \<and>
   waits_unsignalled 7 True
     (calls_since example_attached (beginFrame (Some 0) (endFrame example_frame)))"
proof -
  have f: "inFlightFence example_attached = 7" "swapchain example_attached = 10"
    "imageAvailableSemaphore example_attached = 5" "graphicsQueue example_attached = 100"
    "renderFinishedSemaphore example_attached = 6"
    by (simp_all add: example_attached_eq)
  have c: "calls_since example_attached (beginFrame (Some 0) (endFrame example_frame)) =
     [WaitForFences 7, ResetFences 7, AcquireNextImage 10 5, QueuePresent 100 [6] 10 1,
      WaitForFences 7, ResetFences 7, AcquireNextImage 10 5]"
    unfolding example_frame_def second_frame_calls by (simp add: f)
  have "waits_unsignalled 7 True
     (calls_since example_attached (beginFrame (Some 0) (endFrame example_frame)))"
    unfolding c by simp
  then show ?thesis
    using c by (simp add: endFrame_calls example_frame_fields)
qed


section \<open>A failed initialisation\<close>

lemma live_api: "live (api c w) = live w"
  by (simp add: api_def)

lemma live_vkDestroy: "live (vkDestroy k h w) = live w - {(k, h)}"
  by (simp add: vkDestroy_def)

lemma live_destroy_if: "live (destroy_if k h w) = live w - opt k h"
  by (simp add: destroy_if_def opt_def live_vkDestroy)

lemma live_destroy_all: "live (destroy_all k hs w) = live w - Pair k ` set hs"
  unfolding destroy_all_def
  by (induction hs arbitrary: w) (auto simp: live_vkDestroy)

text \<open>\<^verbatim>\<open>shutdown\<close> destroys exactly the objects the renderer holds.\<close>

lemma live_shutdown: "live (world (shutdown s)) = live (world s) - held s"
  by (auto simp: shutdown_def shutdown_with_def destroy_surface_and_instance_def destroy_device_def
      destroy_pools_def destroy_sync_objects_def clear_resources_def destroySwapchain_def
      live_api live_vkDestroy live_destroy_if live_destroy_all held_def)

text \<open>With no framebuffer and no render pass, the two definitions of
  \<^verbatim>\<open>destroySwapchain\<close> do the same.\<close>

lemma destroySwapchain_agree:
  "framebuffers s = [] \<Longrightarrow> renderPass s = VK_NULL_HANDLE \<Longrightarrow>
     destroySwapchain_vk_swapchain s = destroySwapchain s"
  by (cases s) (simp add: destroySwapchain_def destroySwapchain_vk_swapchain_def destroy_if_def
      destroy_all_Nil)

lemma shutdown_agree:
  assumes "framebuffers s = []" "renderPass s = VK_NULL_HANDLE"
  shows "shutdown_vk_swapchain s = shutdown s"
proof -
  have "destroySwapchain_vk_swapchain (destroy_sync_objects (clear_resources s)) =
        destroySwapchain (destroy_sync_objects (clear_resources s))"
    by (rule destroySwapchain_agree)
      (simp_all add: assms destroy_sync_objects_def clear_resources_def)
  then show ?thesis
    by (simp add: shutdown_def shutdown_vk_swapchain_def shutdown_with_def)
qed

lemma stage_shutdown:
  assumes "init_stage n s"
  shows "live (world (shutdown s)) = {}" and "live (world (shutdown_vk_swapchain s)) = {}"
proof -
  from assms have sub: "live (world s) \<subseteq> held s"
    and e: "framebuffers s = []" "renderPass s = VK_NULL_HANDLE"
    by (simp_all add: init_stage_def)
  show "live (world (shutdown s)) = {}"
    using sub by (simp add: live_shutdown)
  show "live (world (shutdown_vk_swapchain s)) = {}"
    using sub by (simp add: shutdown_agree [OF e] live_shutdown)
qed

lemma created_Nil: "created [] = {}"
  by (simp add: created_def List.map_filter_simps)

lemma created_Cons:
  "created (c # cs) = (case created_object c of None \<Rightarrow> {} | Some x \<Rightarrow> {x}) \<union> created cs"
  by (auto simp: created_def List.map_filter_def split: option.splits)

lemma created_append: "created (xs @ ys) = created xs \<union> created ys"
  by (auto simp: created_def List.map_filter_def)

lemma vkCreate_cases:
  "vkCreate k ok out w =
     (if ok then (True, fresh w, w\<lparr>calls := calls w @ [Create k (fresh w)],
                                  live := insert (k, fresh w) (live w), fresh := fresh w + 1\<rparr>)
      else (False, out, w\<lparr>calls := calls w @ [CreateFailed k]\<rparr>))"
  by (simp add: vkCreate_def vkCreateWith_def api_def)

lemma opt_null: "opt k VK_NULL_HANDLE = {}"
  by (simp add: opt_def)

lemma opt_nonnull: "h \<noteq> VK_NULL_HANDLE \<Longrightarrow> opt k h = {(k, h)}"
  by (simp add: opt_def)

lemma succ_not_null: "Suc n \<noteq> VK_NULL_HANDLE"
  by (simp add: VK_NULL_HANDLE_def)

lemmas stage_simps = init_stage_def vkCreate_cases held_def opt_null opt_nonnull succ_not_null
  created_Nil created_Cons created_append api_def Let_def

lemma stage_new: "init_stage 0 (new_VulkanRendererNative u (new_world mp))"
  by (simp add: init_stage_def new_VulkanRendererNative_def new_world_def VK_NULL_HANDLE_def
      created_Nil)

lemma stage_mono: "init_stage n s \<Longrightarrow> n \<le> m \<Longrightarrow> init_stage m s"
  by (simp add: init_stage_def)

text \<open>Each step of \<^verbatim>\<open>initialize\<close> takes the renderer from one stage to the next, whether
  it succeeds or not.\<close>

lemma stage_createInstance: "init_stage 0 s \<Longrightarrow> init_stage 1 (snd (createInstance e s))"
  by (auto simp: stage_simps createInstance_def)

lemma stage_pickPhysicalDevice: "init_stage 1 s \<Longrightarrow> init_stage 2 (snd (pickPhysicalDevice e s))"
  by (auto simp: init_stage_def pickPhysicalDevice_def held_def split: list.splits)

lemma stage_createLogicalDevice:
  "init_stage 2 s \<Longrightarrow> init_stage 3 (snd (createLogicalDevice e s)) \<and>
     (fst (createLogicalDevice e s) \<longrightarrow> device (snd (createLogicalDevice e s)) \<noteq> VK_NULL_HANDLE)"
  by (auto simp: stage_simps createLogicalDevice_def split: prod.splits)

lemma stage_createLogicalDevice_vk_device:
  "init_stage 2 s \<Longrightarrow> init_stage 3 (snd (createLogicalDevice_vk_device e s)) \<and>
     (fst (createLogicalDevice_vk_device e s) \<longrightarrow>
        device (snd (createLogicalDevice_vk_device e s)) \<noteq> VK_NULL_HANDLE)"
  by (auto simp: stage_simps createLogicalDevice_vk_device_def split: prod.splits)

lemma stage_createCommandPools:
  "init_stage 3 s \<Longrightarrow> device s \<noteq> VK_NULL_HANDLE \<Longrightarrow>
     init_stage 4 (snd (createCommandPools e s)) \<and>
     device (snd (createCommandPools e s)) \<noteq> VK_NULL_HANDLE"
  by (auto simp: stage_simps createCommandPools_def)

lemma stage_createSyncObjects:
  "init_stage 4 s \<Longrightarrow> device s \<noteq> VK_NULL_HANDLE \<Longrightarrow>
     init_stage 5 (snd (createSyncObjects e s)) \<and>
     device (snd (createSyncObjects e s)) \<noteq> VK_NULL_HANDLE"
  by (auto simp: stage_simps createSyncObjects_def)

lemma stage_createDescriptorPool:
  "init_stage 5 s \<Longrightarrow> device s \<noteq> VK_NULL_HANDLE \<Longrightarrow>
     init_stage 6 (snd (createDescriptorPool e s))"
  by (auto simp: stage_simps createDescriptorPool_def)

lemma stage_initialize_with:
  assumes cld: "\<And>s. init_stage 2 s \<Longrightarrow> init_stage 3 (snd (cld e s)) \<and>
      (fst (cld e s) \<longrightarrow> device (snd (cld e s)) \<noteq> VK_NULL_HANDLE)"
    and s: "init_stage 0 s"
  shows "init_stage 6 (snd (initialize_with cld e s))"
proof -
  obtain ok1 s1 where r1: "createInstance e s = (ok1, s1)" by force
  obtain ok2 s2 where r2: "pickPhysicalDevice e s1 = (ok2, s2)" by force
  obtain ok3 s3 where r3: "cld e s2 = (ok3, s3)" by force
  obtain ok4 s4 where r4: "createCommandPools e s3 = (ok4, s4)" by force
  obtain ok5 s5 where r5: "createSyncObjects e s4 = (ok5, s5)" by force
  obtain ok6 s6 where r6: "createDescriptorPool e s5 = (ok6, s6)" by force
  have st1: "init_stage 1 s1"
    using stage_createInstance [OF s, of e] r1 by simp
  have st2: "init_stage 2 s2"
    using stage_pickPhysicalDevice [OF st1, of e] r2 by simp
  have st3: "init_stage 3 s3" and d3: "ok3 \<Longrightarrow> device s3 \<noteq> VK_NULL_HANDLE"
    using cld [OF st2] r3 by simp_all
  have st4: "init_stage 4 s4 \<and> device s4 \<noteq> VK_NULL_HANDLE" if "ok3"
    using stage_createCommandPools [OF st3 d3 [OF that], of e] r4 by simp
  have st5: "init_stage 5 s5 \<and> device s5 \<noteq> VK_NULL_HANDLE" if "ok3"
    using stage_createSyncObjects [of s4 e] st4 [OF that] r5 by simp
  have st6: "init_stage 6 s6" if "ok3"
    using stage_createDescriptorPool [of s5 e] st5 [OF that] r6 by simp
  have m1: "init_stage 6 s1" by (rule stage_mono [OF st1]) simp
  have m2: "init_stage 6 s2" by (rule stage_mono [OF st2]) simp
  have m3: "init_stage 6 s3" by (rule stage_mono [OF st3]) simp
  have m4: "init_stage 6 s4" if "ok3"
    by (rule stage_mono [OF st4 [OF that, THEN conjunct1]]) simp
  have m5: "init_stage 6 s5" if "ok3"
    by (rule stage_mono [OF st5 [OF that, THEN conjunct1]]) simp
  show ?thesis
    using m1 m2 m3 m4 m5 st6 by (simp add: initialize_with_def r1 r2 r3 r4 r5 r6)
qed

lemma initialize_with_result:
  "fst (initialize_with cld e s) = (False \<notin> set (step_results cld e s))"
  by (simp add: initialize_with_def step_results_def Let_def split: prod.splits)

lemma example_no_descriptor_pool:
  "fst (initialize init_no_descriptor_pool example_renderer) = False \<and>
   instance_h (snd (initialize init_no_descriptor_pool example_renderer)) = 1 \<and>
   device (snd (initialize init_no_descriptor_pool example_renderer)) = 2 \<and>
   live (world (snd (initialize init_no_descriptor_pool example_renderer))) =
     {(KFence, 7), (KSemaphore, 6), (KSemaphore, 5), (KCommandPool, 4), (KCommandPool, 3),
      (KDevice, 2), (KInstance, 1)}"
  by (simp add: init_no_descriptor_pool_def init_defs del: One_nat_def)

text \<open>
  C2, as the code has it. \<^verbatim>\<open>initialize\<close> on a renderer fresh from its constructor
  returns \<^verbatim>\<open>false\<close> exactly when one of its six steps fails. In every run in which a
  step fails, \<^verbatim>\<open>initialize\<close> has destroyed nothing when it returns: every object the
  earlier steps created is still live. A \<^verbatim>\<open>shutdown\<close> afterwards destroys them all. This
  holds with either definition of \<^verbatim>\<open>createLogicalDevice\<close> and of
  \<^verbatim>\<open>destroySwapchain\<close>.
\<close>

theorem initialize_failure_leaves_objects_to_shutdown:
  "fst (initialize e (new_VulkanRendererNative u (new_world mp))) =
     (False \<notin> set (step_results createLogicalDevice e (new_VulkanRendererNative u (new_world mp)))) \<and>
   fst (initialize_vk_device e (new_VulkanRendererNative u (new_world mp))) =
     (False \<notin> set (step_results createLogicalDevice_vk_device e
        (new_VulkanRendererNative u (new_world mp)))) \<and>
   (\<not> fst (initialize e (new_VulkanRendererNative u (new_world mp))) \<longrightarrow>
      filter is_destruction
        (calls (world (snd (initialize e (new_VulkanRendererNative u (new_world mp)))))) = [] \<and>
      live (world (snd (initialize e (new_VulkanRendererNative u (new_world mp))))) =
        created (calls (world (snd (initialize e (new_VulkanRendererNative u (new_world mp)))))) \<and>
      live (world (shutdown
        (snd (initialize e (new_VulkanRendererNative u (new_world mp)))))) = {} \<and>
      live (world (shutdown_vk_swapchain
        (snd (initialize e (new_VulkanRendererNative u (new_world mp)))))) = {}) \<and>
   (\<not> fst (initialize_vk_device e (new_VulkanRendererNative u (new_world mp))) \<longrightarrow>
      filter is_destruction
        (calls (world (snd (initialize_vk_device e
           (new_VulkanRendererNative u (new_world mp)))))) = [] \<and>
      live (world (snd (initialize_vk_device e (new_VulkanRendererNative u (new_world mp))))) =
        created (calls (world (snd (initialize_vk_device e
           (new_VulkanRendererNative u (new_world mp)))))) \<and>
      live (world (shutdown
        (snd (initialize_vk_device e (new_VulkanRendererNative u (new_world mp)))))) = {} \<and>
      live (world (shutdown_vk_swapchain
        (snd (initialize_vk_device e (new_VulkanRendererNative u (new_world mp)))))) = {})"
proof -
  let ?s0 = "new_VulkanRendererNative u (new_world mp)"
  have a: "init_stage 6 (snd (initialize e ?s0))"
    unfolding initialize_def
    by (rule stage_initialize_with [OF stage_createLogicalDevice stage_new])
  have b: "init_stage 6 (snd (initialize_vk_device e ?s0))"
    unfolding initialize_vk_device_def
    by (rule stage_initialize_with [OF stage_createLogicalDevice_vk_device stage_new])
  have r: "fst (initialize e ?s0) = (False \<notin> set (step_results createLogicalDevice e ?s0))"
    "fst (initialize_vk_device e ?s0) =
       (False \<notin> set (step_results createLogicalDevice_vk_device e ?s0))"
    by (simp_all only: initialize_def initialize_vk_device_def initialize_with_result)
  have a': "filter is_destruction (calls (world (snd (initialize e ?s0)))) = []"
    "live (world (snd (initialize e ?s0))) = created (calls (world (snd (initialize e ?s0))))"
    using a by (simp_all add: init_stage_def)
  have b': "filter is_destruction (calls (world (snd (initialize_vk_device e ?s0)))) = []"
    "live (world (snd (initialize_vk_device e ?s0))) =
       created (calls (world (snd (initialize_vk_device e ?s0))))"
    using b by (simp_all add: init_stage_def)
  show ?thesis
    using r a' b' stage_shutdown [OF a] stage_shutdown [OF b] by blast
qed

theorem initialize_failure_leaves_objects_to_shutdown_witness:
  "\<not> fst (initialize init_no_descriptor_pool example_renderer) \<and>
   filter is_destruction
     (calls (world (snd (initialize init_no_descriptor_pool example_renderer)))) = [] \<and>
   live (world (snd (initialize init_no_descriptor_pool example_renderer))) =
     {(KFence, 7), (KSemaphore, 6), (KSemaphore, 5), (KCommandPool, 4), (KCommandPool, 3),
      (KDevice, 2), (KInstance, 1)} \<and>
   live (world (shutdown (snd (initialize init_no_descriptor_pool example_renderer)))) = {}"
  using initialize_failure_leaves_objects_to_shutdown
    [of init_no_descriptor_pool example_properties example_memory]
    example_no_descriptor_pool
  by (simp add: example_renderer_def)

text \<open>The claim as the specification has it fails: when the descriptor pool, the last step,
  cannot be created, \<^verbatim>\<open>initialize\<close> returns \<^verbatim>\<open>false\<close> and the instance, the device,
  the two command pools, the two semaphores and the fence are live, their handles still in
  the renderer.\<close>

theorem initialize_failure_destroys_nothing:
  "fst (initialize init_no_descriptor_pool example_renderer) = False \<and>
   instance_h (snd (initialize init_no_descriptor_pool example_renderer)) = 1 \<and>
   device (snd (initialize init_no_descriptor_pool example_renderer)) = 2 \<and>
   live (world (snd (initialize init_no_descriptor_pool example_renderer))) =
     {(KFence, 7), (KSemaphore, 6), (KSemaphore, 5), (KCommandPool, 4), (KCommandPool, 3),
      (KDevice, 2), (KInstance, 1)}"
  by (rule example_no_descriptor_pool)

section \<open>Recreating the swapchain\<close>

lemma appends_iff: "appends P w w' \<longleftrightarrow> (\<exists>xs. calls w' = calls w @ xs \<and> list_all P xs)"
proof
  assume "appends P w w'"
  then have "calls w' = calls w @ drop (length (calls w)) (calls w')"
    "list_all P (drop (length (calls w)) (calls w'))"
    unfolding appends_def by (metis append_take_drop_id, simp)
  then show "\<exists>xs. calls w' = calls w @ xs \<and> list_all P xs" by blast
next
  assume "\<exists>xs. calls w' = calls w @ xs \<and> list_all P xs"
  then show "appends P w w'" by (auto simp: appends_def)
qed

lemma appends_refl: "appends P w w"
  by (simp add: appends_def)

lemma appends_trans: "appends P w w1 \<Longrightarrow> appends P w1 w2 \<Longrightarrow> appends P w w2"
  unfolding appends_iff by auto

lemma appends_api: "P c \<Longrightarrow> appends P w (api c w)"
  by (simp add: appends_iff api_def)

lemma appends_fresh: "appends P w w' \<Longrightarrow> appends P w (w'\<lparr>fresh := n\<rparr>)"
  by (simp add: appends_def)

lemma appends_vkCreateWith:
  "(\<And>h. P (ev h)) \<Longrightarrow> P (CreateFailed k) \<Longrightarrow>
     appends P w (snd (snd (vkCreateWith ev k ok out w)))"
  by (simp add: appends_iff vkCreateWith_def api_def)

lemma rebuild_call_simps:
  "rebuild_call srf (CreateFailed k)"
  "rebuild_call srf (Create k h)"
  "rebuild_call srf (CreateImageView iv h)"
  "rebuild_call srf (CreateFramebuffer rp v ext h)"
  "rebuild_call srf (AllocateCommandBuffers cp n b)"
  "rebuild_call srf (CreateSwapchain info h) = (sci_surface info = srf)"
  by (auto simp: rebuild_call_def)

lemma appends_createImageViews:
  "appends (rebuild_call srf) w (snd (createImageViews ok fmt imgs i views w))"
proof (induction imgs arbitrary: i views w)
  case Nil
  show ?case by (simp add: appends_refl)
next
  case (Cons img imgs)
  obtain r v w1 where c: "vkCreateWith
             (CreateImageView \<lparr>ivi_image = img, ivi_format = fmt,
                                ivi_levelCount = 1, ivi_layerCount = 1\<rparr>)
             KImageView (ok i) (views ! i) w = (r, v, w1)"
    using prod_cases3 by blast
  have "appends (rebuild_call srf) w (snd (snd (vkCreateWith
             (CreateImageView \<lparr>ivi_image = img, ivi_format = fmt,
                                ivi_levelCount = 1, ivi_layerCount = 1\<rparr>)
             KImageView (ok i) (views ! i) w)))"
    by (rule appends_vkCreateWith) (simp_all add: rebuild_call_simps)
  then have "appends (rebuild_call srf) w w1"
    using c by simp
  moreover have "appends (rebuild_call srf) w1
      (snd (createImageViews ok fmt imgs (Suc i) (views[i := v]) w1))"
    by (rule Cons.IH)
  ultimately have "appends (rebuild_call srf) w
      (snd (createImageViews ok fmt imgs (Suc i) (views[i := v]) w1))"
    by (rule appends_trans)
  then show ?case
    using c by simp
qed

lemma appends_createImageViews_vk_swapchain:
  "appends (rebuild_call srf) w (snd (snd (createImageViews_vk_swapchain ok fmt imgs i views w)))"
proof (induction imgs arbitrary: i views w)
  case Nil
  show ?case by (simp add: appends_refl)
next
  case (Cons img imgs)
  obtain r v w1 where c: "vkCreateWith
             (CreateImageView \<lparr>ivi_image = img, ivi_format = fmt,
                                ivi_levelCount = 1, ivi_layerCount = 1\<rparr>)
             KImageView (ok i) (views ! i) w = (r, v, w1)"
    using prod_cases3 by blast
  have "appends (rebuild_call srf) w (snd (snd (vkCreateWith
             (CreateImageView \<lparr>ivi_image = img, ivi_format = fmt,
                                ivi_levelCount = 1, ivi_layerCount = 1\<rparr>)
             KImageView (ok i) (views ! i) w)))"
    by (rule appends_vkCreateWith) (simp_all add: rebuild_call_simps)
  then have "appends (rebuild_call srf) w w1"
    using c by simp
  note a = this
  have "appends (rebuild_call srf) w1
      (snd (snd (createImageViews_vk_swapchain ok fmt imgs (Suc i) (views[i := v]) w1)))"
    by (rule Cons.IH)
  with a have "appends (rebuild_call srf) w
      (snd (snd (createImageViews_vk_swapchain ok fmt imgs (Suc i) (views[i := v]) w1)))"
    by (rule appends_trans)
  then show ?case
    using c a by simp
qed

lemma appends_createFramebuffers_loop:
  "appends (rebuild_call srf) w (snd (snd (createFramebuffers_loop ok rp ext views i fbs w)))"
proof (induction views arbitrary: i fbs w)
  case Nil
  show ?case by (simp add: appends_refl)
next
  case (Cons view views)
  obtain r v w1 where c: "vkCreateWith (CreateFramebuffer rp view ext) KFramebuffer (ok i)
      (fbs ! i) w = (r, v, w1)"
    using prod_cases3 by blast
  have "appends (rebuild_call srf) w (snd (snd (vkCreateWith (CreateFramebuffer rp view ext)
      KFramebuffer (ok i) (fbs ! i) w)))"
    by (rule appends_vkCreateWith) (simp_all add: rebuild_call_simps)
  then have "appends (rebuild_call srf) w w1"
    using c by simp
  note a = this
  have "appends (rebuild_call srf) w1
      (snd (snd (createFramebuffers_loop ok rp ext views (Suc i) (fbs[i := v]) w1)))"
    by (rule Cons.IH)
  with a have "appends (rebuild_call srf) w
      (snd (snd (createFramebuffers_loop ok rp ext views (Suc i) (fbs[i := v]) w1)))"
    by (rule appends_trans)
  then show ?case
    using c a by simp
qed

lemma rebuilds_createSwapchain:
  "appends (rebuild_call (surface s)) (world s) (world (snd (createSwapchain e s))) \<and>
   surface (snd (createSwapchain e s)) = surface s"
proof -
  let ?ev = "CreateSwapchain \<lparr>sci_surface = surface s, sci_minImageCount = 2,
                        sci_imageFormat = VK_FORMAT_B8G8R8A8_UNORM,
                        sci_imageColorSpace = VK_COLOR_SPACE_SRGB_NONLINEAR_KHR,
                        sci_extent = swapchainExtent s,
                        sci_presentMode = VK_PRESENT_MODE_FIFO_KHR\<rparr>"
  obtain ok sc w where c: "vkCreateWith ?ev KSwapchain (se_swapchain_ok e) (swapchain s) (world s)
      = (ok, sc, w)"
    using prod_cases3 by blast
  have "appends (rebuild_call (surface s)) (world s)
     (snd (snd (vkCreateWith ?ev KSwapchain (se_swapchain_ok e) (swapchain s) (world s))))"
    by (rule appends_vkCreateWith) (simp_all add: rebuild_call_simps)
  then have a: "appends (rebuild_call (surface s)) (world s) w"
    using c by simp
  obtain views w1 where v: "createImageViews (se_view_ok e) VK_FORMAT_B8G8R8A8_UNORM (se_images e) 0
             (resize (length (se_images e)) (swapchainImageViews s)) w = (views, w1)"
    by force
  have b: "appends (rebuild_call (surface s)) w w1"
    using appends_createImageViews [of "surface s" w "se_view_ok e" VK_FORMAT_B8G8R8A8_UNORM
        "se_images e" 0 "resize (length (se_images e)) (swapchainImageViews s)"] v
    by simp
  show ?thesis
    using a appends_trans [OF a b] c v by (simp add: createSwapchain_def Let_def)
qed

lemma rebuilds_createSwapchain_vk_swapchain:
  "appends (rebuild_call (surface s)) (world s) (world (snd (createSwapchain_vk_swapchain e s))) \<and>
   surface (snd (createSwapchain_vk_swapchain e s)) = surface s \<and>
   renderPass (snd (createSwapchain_vk_swapchain e s)) = renderPass s"
proof -
  define surfaceFormat where "surfaceFormat = chooseFormat (se_format0 e) (se_format0 e # se_formats e)"
  define ext where "ext = (if fst (se_currentExtent e) \<noteq> UINT32_MAX
                then se_currentExtent e else swapchainExtent s)"
  let ?ev = "CreateSwapchain \<lparr>sci_surface = surface s,
                        sci_minImageCount = chooseImageCount (se_minImageCount e) (se_maxImageCount e),
                        sci_imageFormat = fst surfaceFormat,
                        sci_imageColorSpace = snd surfaceFormat,
                        sci_extent = ext,
                        sci_presentMode = choosePresentMode (se_presentModes e)\<rparr>"
  obtain ok sc w where c: "vkCreateWith ?ev KSwapchain (se_swapchain_ok e) (swapchain s) (world s)
      = (ok, sc, w)"
    using prod_cases3 by blast
  have "appends (rebuild_call (surface s)) (world s)
     (snd (snd (vkCreateWith ?ev KSwapchain (se_swapchain_ok e) (swapchain s) (world s))))"
    by (rule appends_vkCreateWith) (simp_all add: rebuild_call_simps)
  then have a: "appends (rebuild_call (surface s)) (world s) w"
    using c by simp
  obtain r views w1 where v: "createImageViews_vk_swapchain (se_view_ok e) (fst surfaceFormat)
             (se_images e) 0
             (resize (length (se_images e)) (swapchainImageViews s)) w = (r, views, w1)"
    using prod_cases3 by blast
  have b: "appends (rebuild_call (surface s)) w w1"
    using appends_createImageViews_vk_swapchain [of "surface s" w "se_view_ok e" "fst surfaceFormat"
        "se_images e" 0 "resize (length (se_images e)) (swapchainImageViews s)"] v
    by simp
  show ?thesis
    using a appends_trans [OF a b] c v
    by (auto simp: createSwapchain_vk_swapchain_def Let_def surfaceFormat_def ext_def
        simp del: chooseFormat.simps)
qed

lemma rebuilds_createRenderPass:
  "appends (rebuild_call srf) (world s) (world (snd (createRenderPass e s))) \<and>
   surface (snd (createRenderPass e s)) = surface s"
proof -
  obtain ok h w where c: "vkCreateWith (Create KRenderPass) KRenderPass (se_renderPass_ok e)
      (renderPass s) (world s) = (ok, h, w)"
    using prod_cases3 by blast
  have "appends (rebuild_call srf) (world s)
     (snd (snd (vkCreateWith (Create KRenderPass) KRenderPass (se_renderPass_ok e) (renderPass s)
        (world s))))"
    by (rule appends_vkCreateWith) (simp_all add: rebuild_call_simps)
  then show ?thesis
    using c by (simp add: createRenderPass_def vkCreate_def)
qed

lemma rebuilds_createFramebuffers:
  "appends (rebuild_call srf) (world s) (world (snd (createFramebuffers e s))) \<and>
   surface (snd (createFramebuffers e s)) = surface s \<and>
   renderPass (snd (createFramebuffers e s)) = renderPass s"
proof -
  obtain r fbs w where c: "createFramebuffers_loop (se_framebuffer_ok e) (renderPass s)
      (swapchainExtent s) (swapchainImageViews s) 0
      (resize (length (swapchainImageViews s)) (framebuffers s)) (world s) = (r, fbs, w)"
    using prod_cases3 by blast
  show ?thesis
    using appends_createFramebuffers_loop [of srf "world s" "se_framebuffer_ok e" "renderPass s"
      "swapchainExtent s" "swapchainImageViews s" 0
      "resize (length (swapchainImageViews s)) (framebuffers s)"] c
    by (simp add: createFramebuffers_def)
qed

lemma rebuilds_createCommandBuffers:
  "appends (rebuild_call srf) (world s) (world (snd (createCommandBuffers e s))) \<and>
   surface (snd (createCommandBuffers e s)) = surface s"
  by (simp add: createCommandBuffers_def Let_def appends_api appends_fresh rebuild_call_simps)

lemma calls_destroy_all: "calls (destroy_all k hs w) = calls w @ map (Destroy k) hs"
  unfolding destroy_all_def
  by (induction hs arbitrary: w) (simp_all add: vkDestroy_def)

lemma calls_destroy_if:
  "calls (destroy_if k h w) = calls w @ (if h \<noteq> VK_NULL_HANDLE then [Destroy k h] else [])"
  by (simp add: destroy_if_def vkDestroy_def)


lemma calls_destroySwapchain:
  "calls (world (destroySwapchain s)) =
     calls (world s) @
     map (Destroy KFramebuffer) (framebuffers s) @
     map (Destroy KImageView) (swapchainImageViews s) @
     (if renderPass s \<noteq> VK_NULL_HANDLE then [Destroy KRenderPass (renderPass s)] else []) @
     (if swapchain s \<noteq> VK_NULL_HANDLE then [Destroy KSwapchain (swapchain s)] else [])"
  by (simp add: destroySwapchain_def calls_destroy_all calls_destroy_if)

lemma calls_destroySwapchain_vk_swapchain:
  "calls (world (destroySwapchain_vk_swapchain s)) =
     calls (world s) @
     map (Destroy KImageView) (swapchainImageViews s) @
     (if swapchain s \<noteq> VK_NULL_HANDLE then [Destroy KSwapchain (swapchain s)] else [])"
  by (simp add: destroySwapchain_vk_swapchain_def calls_destroy_all calls_destroy_if)

lemma rebuilds_native:
  "appends (rebuild_call (surface s)) (world s)
     (world (snd (createCommandBuffers e (snd (createFramebuffers e
        (snd (createRenderPass e (snd (createSwapchain e s)))))))))  \<and>
   surface (snd (createCommandBuffers e (snd (createFramebuffers e
        (snd (createRenderPass e (snd (createSwapchain e s)))))))) = surface s"
proof -
  let ?P = "rebuild_call (surface s)"
  let ?s3 = "snd (createSwapchain e s)"
  let ?s4 = "snd (createRenderPass e ?s3)"
  let ?s5 = "snd (createFramebuffers e ?s4)"
  let ?s6 = "snd (createCommandBuffers e ?s5)"
  have a3: "appends ?P (world s) (world ?s3)" and b3: "surface ?s3 = surface s"
    using rebuilds_createSwapchain [of s e] by simp_all
  have a4: "appends ?P (world ?s3) (world ?s4)" and b4: "surface ?s4 = surface s"
    using rebuilds_createRenderPass [of "surface s" ?s3 e] b3 by simp_all
  have a5: "appends ?P (world ?s4) (world ?s5)" and b5: "surface ?s5 = surface s"
    using rebuilds_createFramebuffers [of "surface s" ?s4 e] b4 by simp_all
  have a6: "appends ?P (world ?s5) (world ?s6)" and b6: "surface ?s6 = surface s"
    using rebuilds_createCommandBuffers [of "surface s" ?s5 e] b5 by simp_all
  have "appends ?P (world s) (world ?s6)"
    by (rule appends_trans [OF appends_trans [OF appends_trans [OF a3 a4] a5] a6])
  then show ?thesis
    using b6 by simp
qed

lemma rebuilds_vk_swapchain:
  "appends (rebuild_call (surface s)) (world s)
     (world (snd (createFramebuffers e (snd (createSwapchain_vk_swapchain e s))))) \<and>
   surface (snd (createFramebuffers e (snd (createSwapchain_vk_swapchain e s)))) = surface s \<and>
   renderPass (snd (createFramebuffers e (snd (createSwapchain_vk_swapchain e s)))) = renderPass s"
proof -
  let ?P = "rebuild_call (surface s)"
  let ?s4 = "snd (createSwapchain_vk_swapchain e s)"
  let ?s5 = "snd (createFramebuffers e ?s4)"
  have a4: "appends ?P (world s) (world ?s4)" and b4: "surface ?s4 = surface s"
    and c4: "renderPass ?s4 = renderPass s"
    using rebuilds_createSwapchain_vk_swapchain [of s e] by simp_all
  have a5: "appends ?P (world ?s4) (world ?s5)" and b5: "surface ?s5 = surface s"
    and c5: "renderPass ?s5 = renderPass s"
    using rebuilds_createFramebuffers [of "surface s" ?s4 e] b4 c4 by simp_all
  show ?thesis
    using appends_trans [OF a4 a5] b5 c5 by simp
qed

lemma appends_since:
  assumes "calls (world s2) = calls (world s) @ pre" and "appends P (world s2) (world s')"
  shows "\<exists>xs. calls_since s s' = pre @ xs \<and> list_all P xs"
proof -
  from assms(2) obtain xs where "calls (world s') = calls (world s2) @ xs" "list_all P xs"
    unfolding appends_iff by blast
  then have "calls_since s s' = pre @ xs \<and> list_all P xs"
    using assms(1) by (simp add: calls_since_def)
  then show ?thesis ..
qed

lemma length_resize: "length (resize n xs) = n"
  by (simp add: resize_def)

lemma update_take_Suc: "i < length xs \<Longrightarrow> take (Suc i) (xs[i := v]) = take i xs @ [v]"
  by (simp add: take_Suc_conv_app_nth)

lemma upt_shift: "[f..<Suc (f + n)] = f # [Suc f..<Suc (f + n)]"
  by (simp add: upt_conv_Cons del: upt_Suc)

lemma createImageViews_success:
  "(\<forall>j<length imgs. ok (i + j)) \<Longrightarrow> i + length imgs \<le> length views \<Longrightarrow>
     fst (createImageViews ok fmt imgs i views w) =
       take i views @ [fresh w..<fresh w + length imgs] @ drop (i + length imgs) views \<and>
     calls (snd (createImageViews ok fmt imgs i views w)) =
       calls w @ view_creations fmt imgs (fresh w) \<and>
     fresh (snd (createImageViews ok fmt imgs i views w)) = fresh w + length imgs"
proof (induction imgs arbitrary: i views w)
  case Nil
  then show ?case by simp
next
  case (Cons img imgs)
  let ?w1 = "w\<lparr>calls := calls w @ [CreateImageView \<lparr>ivi_image = img, ivi_format = fmt,
                        ivi_levelCount = 1, ivi_layerCount = 1\<rparr> (fresh w)],
              live := insert (KImageView, fresh w) (live w), fresh := fresh w + 1\<rparr>"
  have ok0: "ok i" using Cons.prems(1) by force
  have oks: "\<forall>j<length imgs. ok (Suc i + j)" using Cons.prems(1) by force
  have len: "Suc i + length imgs \<le> length (views[i := fresh w])" using Cons.prems(2) by simp
  have i: "i < length views" using Cons.prems(2) by simp
  have step: "createImageViews ok fmt (img # imgs) i views w =
      createImageViews ok fmt imgs (Suc i) (views[i := fresh w]) ?w1"
    using ok0 by (simp add: vkCreateWith_def)
  note ih = Cons.IH [OF oks len, of ?w1]
  show ?case
    unfolding step using ih i
    by (simp add: update_take_Suc upt_shift del: upt_Suc)
qed

lemma createImageViews_vk_swapchain_success:
  "(\<forall>j<length imgs. ok (i + j)) \<Longrightarrow> i + length imgs \<le> length views \<Longrightarrow>
     fst (createImageViews_vk_swapchain ok fmt imgs i views w) \<and>
     fst (snd (createImageViews_vk_swapchain ok fmt imgs i views w)) =
       take i views @ [fresh w..<fresh w + length imgs] @ drop (i + length imgs) views \<and>
     calls (snd (snd (createImageViews_vk_swapchain ok fmt imgs i views w))) =
       calls w @ view_creations fmt imgs (fresh w) \<and>
     fresh (snd (snd (createImageViews_vk_swapchain ok fmt imgs i views w))) = fresh w + length imgs"
proof (induction imgs arbitrary: i views w)
  case Nil
  then show ?case by simp
next
  case (Cons img imgs)
  let ?w1 = "w\<lparr>calls := calls w @ [CreateImageView \<lparr>ivi_image = img, ivi_format = fmt,
                        ivi_levelCount = 1, ivi_layerCount = 1\<rparr> (fresh w)],
              live := insert (KImageView, fresh w) (live w), fresh := fresh w + 1\<rparr>"
  have ok0: "ok i" using Cons.prems(1) by force
  have oks: "\<forall>j<length imgs. ok (Suc i + j)" using Cons.prems(1) by force
  have len: "Suc i + length imgs \<le> length (views[i := fresh w])" using Cons.prems(2) by simp
  have i: "i < length views" using Cons.prems(2) by simp
  have step: "createImageViews_vk_swapchain ok fmt (img # imgs) i views w =
      createImageViews_vk_swapchain ok fmt imgs (Suc i) (views[i := fresh w]) ?w1"
    using ok0 by (simp add: vkCreateWith_def)
  note ih = Cons.IH [OF oks len, of ?w1]
  show ?case
    unfolding step using ih i
    by (simp add: update_take_Suc upt_shift del: upt_Suc)
qed

lemma createFramebuffers_loop_success:
  "(\<forall>j<length views. ok (i + j)) \<Longrightarrow> i + length views \<le> length fbs \<Longrightarrow>
     fst (createFramebuffers_loop ok rp ext views i fbs w) \<and>
     fst (snd (createFramebuffers_loop ok rp ext views i fbs w)) =
       take i fbs @ [fresh w..<fresh w + length views] @ drop (i + length views) fbs \<and>
     calls (snd (snd (createFramebuffers_loop ok rp ext views i fbs w))) =
       calls w @ framebuffer_creations rp ext views (fresh w) \<and>
     fresh (snd (snd (createFramebuffers_loop ok rp ext views i fbs w))) = fresh w + length views"
proof (induction views arbitrary: i fbs w)
  case Nil
  then show ?case by simp
next
  case (Cons view views)
  let ?w1 = "w\<lparr>calls := calls w @ [CreateFramebuffer rp view ext (fresh w)],
              live := insert (KFramebuffer, fresh w) (live w), fresh := fresh w + 1\<rparr>"
  have ok0: "ok i" using Cons.prems(1) by force
  have oks: "\<forall>j<length views. ok (Suc i + j)" using Cons.prems(1) by force
  have len: "Suc i + length views \<le> length (fbs[i := fresh w])" using Cons.prems(2) by simp
  have i: "i < length fbs" using Cons.prems(2) by simp
  have step: "createFramebuffers_loop ok rp ext (view # views) i fbs w =
      createFramebuffers_loop ok rp ext views (Suc i) (fbs[i := fresh w]) ?w1"
    using ok0 by (simp add: vkCreateWith_def)
  note ih = Cons.IH [OF oks len, of ?w1]
  show ?case
    unfolding step using ih i
    by (simp add: update_take_Suc upt_shift del: upt_Suc)
qed


lemma createSwapchain_keeps:
  "renderPass (snd (createSwapchain e s)) = renderPass s"
  "framebuffers (snd (createSwapchain e s)) = framebuffers s"
  "swapchainExtent (snd (createSwapchain e s)) = swapchainExtent s"
  "commandPool (snd (createSwapchain e s)) = commandPool s"
  by (simp_all add: createSwapchain_def Let_def split: prod.splits)

lemma createSwapchain_success:
  assumes "se_swapchain_ok e" "\<forall>j<length (se_images e). se_view_ok e j"
  shows "calls (world (snd (createSwapchain e s))) =
      calls (world s) @
      CreateSwapchain \<lparr>sci_surface = surface s, sci_minImageCount = 2,
                        sci_imageFormat = VK_FORMAT_B8G8R8A8_UNORM,
                        sci_imageColorSpace = VK_COLOR_SPACE_SRGB_NONLINEAR_KHR,
                        sci_extent = swapchainExtent s,
                        sci_presentMode = VK_PRESENT_MODE_FIFO_KHR\<rparr> (fresh (world s)) #
      view_creations VK_FORMAT_B8G8R8A8_UNORM (se_images e) (fresh (world s) + 1)"
    and "fresh (world (snd (createSwapchain e s))) = fresh (world s) + 1 + length (se_images e)"
    and "swapchain (snd (createSwapchain e s)) = fresh (world s)"
    and "swapchainImageViews (snd (createSwapchain e s)) =
      [fresh (world s) + 1..<fresh (world s) + 1 + length (se_images e)]"
proof -
  let ?w1 = "world s\<lparr>calls := calls (world s) @
      [CreateSwapchain \<lparr>sci_surface = surface s, sci_minImageCount = 2,
                        sci_imageFormat = VK_FORMAT_B8G8R8A8_UNORM,
                        sci_imageColorSpace = VK_COLOR_SPACE_SRGB_NONLINEAR_KHR,
                        sci_extent = swapchainExtent s,
                        sci_presentMode = VK_PRESENT_MODE_FIFO_KHR\<rparr> (fresh (world s))],
      live := insert (KSwapchain, fresh (world s)) (live (world s)),
      fresh := fresh (world s) + 1\<rparr>"
  let ?r = "createImageViews (se_view_ok e) VK_FORMAT_B8G8R8A8_UNORM (se_images e) 0
      (resize (length (se_images e)) (swapchainImageViews s)) ?w1"
  have h: "fst ?r = [fresh ?w1..<fresh ?w1 + length (se_images e)] \<and>
      calls (snd ?r) = calls ?w1 @ view_creations VK_FORMAT_B8G8R8A8_UNORM (se_images e) (fresh ?w1) \<and>
      fresh (snd ?r) = fresh ?w1 + length (se_images e)"
    using createImageViews_success [of "se_images e" "se_view_ok e" 0
        "resize (length (se_images e)) (swapchainImageViews s)" VK_FORMAT_B8G8R8A8_UNORM ?w1]
      assms(2)
    by (simp add: length_resize)
  have eq: "snd (createSwapchain e s) =
      s\<lparr>swapchainFormat := VK_FORMAT_B8G8R8A8_UNORM, swapchain := fresh (world s),
        swapchainImages := se_images e, swapchainImageViews := fst ?r, world := snd ?r\<rparr>"
    using assms(1) by (simp add: createSwapchain_def Let_def vkCreateWith_def case_prod_beta)
  show "calls (world (snd (createSwapchain e s))) =
      calls (world s) @
      CreateSwapchain \<lparr>sci_surface = surface s, sci_minImageCount = 2,
                        sci_imageFormat = VK_FORMAT_B8G8R8A8_UNORM,
                        sci_imageColorSpace = VK_COLOR_SPACE_SRGB_NONLINEAR_KHR,
                        sci_extent = swapchainExtent s,
                        sci_presentMode = VK_PRESENT_MODE_FIFO_KHR\<rparr> (fresh (world s)) #
      view_creations VK_FORMAT_B8G8R8A8_UNORM (se_images e) (fresh (world s) + 1)"
    unfolding eq using h by simp
  show "fresh (world (snd (createSwapchain e s))) = fresh (world s) + 1 + length (se_images e)"
    unfolding eq using h by simp
  show "swapchain (snd (createSwapchain e s)) = fresh (world s)"
    unfolding eq by simp
  show "swapchainImageViews (snd (createSwapchain e s)) =
      [fresh (world s) + 1..<fresh (world s) + 1 + length (se_images e)]"
    unfolding eq using h by simp
qed

lemma createRenderPass_keeps:
  "framebuffers (snd (createRenderPass e s)) = framebuffers s"
  "swapchainExtent (snd (createRenderPass e s)) = swapchainExtent s"
  "commandPool (snd (createRenderPass e s)) = commandPool s"
  "swapchain (snd (createRenderPass e s)) = swapchain s"
  "swapchainImageViews (snd (createRenderPass e s)) = swapchainImageViews s"
  by (simp_all add: createRenderPass_def split: prod.splits)

lemma createRenderPass_success:
  assumes "se_renderPass_ok e"
  shows "calls (world (snd (createRenderPass e s))) =
      calls (world s) @ [Create KRenderPass (fresh (world s))]"
    and "fresh (world (snd (createRenderPass e s))) = fresh (world s) + 1"
    and "renderPass (snd (createRenderPass e s)) = fresh (world s)"
  using assms by (simp_all add: createRenderPass_def vkCreate_def vkCreateWith_def)

lemma createFramebuffers_keeps:
  "commandPool (snd (createFramebuffers e s)) = commandPool s"
  "swapchain (snd (createFramebuffers e s)) = swapchain s"
  "swapchainImageViews (snd (createFramebuffers e s)) = swapchainImageViews s"
  "renderPass (snd (createFramebuffers e s)) = renderPass s"
  by (simp_all add: createFramebuffers_def split: prod.splits)

lemma createFramebuffers_success:
  assumes "\<forall>j<length (swapchainImageViews s). se_framebuffer_ok e j"
  shows "calls (world (snd (createFramebuffers e s))) =
      calls (world s) @
      framebuffer_creations (renderPass s) (swapchainExtent s) (swapchainImageViews s)
        (fresh (world s))"
    and "fresh (world (snd (createFramebuffers e s))) =
      fresh (world s) + length (swapchainImageViews s)"
    and "framebuffers (snd (createFramebuffers e s)) =
      [fresh (world s)..<fresh (world s) + length (swapchainImageViews s)]"
  using createFramebuffers_loop_success [of "swapchainImageViews s" "se_framebuffer_ok e" 0
      "resize (length (swapchainImageViews s)) (framebuffers s)" "renderPass s"
      "swapchainExtent s" "world s"] assms
  by (simp_all add: createFramebuffers_def case_prod_beta length_resize)

lemma createCommandBuffers_keeps:
  "swapchain (snd (createCommandBuffers e s)) = swapchain s"
  "swapchainImageViews (snd (createCommandBuffers e s)) = swapchainImageViews s"
  "renderPass (snd (createCommandBuffers e s)) = renderPass s"
  "framebuffers (snd (createCommandBuffers e s)) = framebuffers s"
  by (simp_all add: createCommandBuffers_def Let_def)

lemma createCommandBuffers_success:
  assumes "se_commandBuffers_ok e"
  shows "calls (world (snd (createCommandBuffers e s))) =
      calls (world s) @ [AllocateCommandBuffers (commandPool s) (length (framebuffers s)) True]"
  using assms by (simp add: createCommandBuffers_def Let_def api_def)

lemma construction_success:
  assumes "se_swapchain_ok e" "\<forall>j<length (se_images e). se_view_ok e j" "se_renderPass_ok e"
    "\<forall>j<length (se_images e). se_framebuffer_ok e j" "se_commandBuffers_ok e"
  shows "calls (world (construction e s)) =
      calls (world s) @
      CreateSwapchain \<lparr>sci_surface = surface s, sci_minImageCount = 2,
                        sci_imageFormat = VK_FORMAT_B8G8R8A8_UNORM,
                        sci_imageColorSpace = VK_COLOR_SPACE_SRGB_NONLINEAR_KHR,
                        sci_extent = swapchainExtent s,
                        sci_presentMode = VK_PRESENT_MODE_FIFO_KHR\<rparr> (fresh (world s)) #
      view_creations VK_FORMAT_B8G8R8A8_UNORM (se_images e) (fresh (world s) + 1) @
      Create KRenderPass (fresh (world s) + 1 + length (se_images e)) #
      framebuffer_creations (fresh (world s) + 1 + length (se_images e)) (swapchainExtent s)
        [fresh (world s) + 1..<fresh (world s) + 1 + length (se_images e)]
        (fresh (world s) + 2 + length (se_images e)) @
      [AllocateCommandBuffers (commandPool s) (length (se_images e)) True]"
    and "swapchain (construction e s) = fresh (world s)"
    and "swapchainImageViews (construction e s) =
      [fresh (world s) + 1..<fresh (world s) + 1 + length (se_images e)]"
    and "renderPass (construction e s) = fresh (world s) + 1 + length (se_images e)"
    and "framebuffers (construction e s) =
      [fresh (world s) + 2 + length (se_images e)..<
       fresh (world s) + 2 + length (se_images e) + length (se_images e)]"
proof -
  let ?s3 = "snd (createSwapchain e s)"
  let ?s4 = "snd (createRenderPass e ?s3)"
  let ?s5 = "snd (createFramebuffers e ?s4)"
  note a = createSwapchain_success [OF assms(1,2), of s] createSwapchain_keeps [of e s]
  note b = createRenderPass_success [OF assms(3), of ?s3] createRenderPass_keeps [of e ?s3]
  have v: "swapchainImageViews ?s4 =
      [fresh (world s) + 1..<fresh (world s) + 1 + length (se_images e)]"
    by (simp add: a b del: upt_Suc)
  have "\<forall>j<length (swapchainImageViews ?s4). se_framebuffer_ok e j"
    using assms(4) by (simp add: v del: upt_Suc)
  note c = createFramebuffers_success [OF this] createFramebuffers_keeps [of e ?s4]
  note d = createCommandBuffers_success [OF assms(5), of ?s5] createCommandBuffers_keeps [of e ?s5]
  show "calls (world (construction e s)) =
      calls (world s) @
      CreateSwapchain \<lparr>sci_surface = surface s, sci_minImageCount = 2,
                        sci_imageFormat = VK_FORMAT_B8G8R8A8_UNORM,
                        sci_imageColorSpace = VK_COLOR_SPACE_SRGB_NONLINEAR_KHR,
                        sci_extent = swapchainExtent s,
                        sci_presentMode = VK_PRESENT_MODE_FIFO_KHR\<rparr> (fresh (world s)) #
      view_creations VK_FORMAT_B8G8R8A8_UNORM (se_images e) (fresh (world s) + 1) @
      Create KRenderPass (fresh (world s) + 1 + length (se_images e)) #
      framebuffer_creations (fresh (world s) + 1 + length (se_images e)) (swapchainExtent s)
        [fresh (world s) + 1..<fresh (world s) + 1 + length (se_images e)]
        (fresh (world s) + 2 + length (se_images e)) @
      [AllocateCommandBuffers (commandPool s) (length (se_images e)) True]"
    unfolding construction_def by (simp add: d c v b a del: upt_Suc)
  show "swapchain (construction e s) = fresh (world s)"
    unfolding construction_def by (simp add: d c b a del: upt_Suc)
  show "swapchainImageViews (construction e s) =
      [fresh (world s) + 1..<fresh (world s) + 1 + length (se_images e)]"
    unfolding construction_def by (simp add: d c v del: upt_Suc)
  show "renderPass (construction e s) = fresh (world s) + 1 + length (se_images e)"
    unfolding construction_def by (simp add: d c b a del: upt_Suc)
  show "framebuffers (construction e s) =
      [fresh (world s) + 2 + length (se_images e)..<
       fresh (world s) + 2 + length (se_images e) + length (se_images e)]"
    unfolding construction_def by (simp add: d c v b a del: upt_Suc)
qed


lemma createImageViews_vk_swapchain_all:
  assumes "\<forall>j<length imgs. ok j" "length views = length imgs"
  shows "fst (createImageViews_vk_swapchain ok fmt imgs 0 views w)"
    and "fst (snd (createImageViews_vk_swapchain ok fmt imgs 0 views w)) =
      [fresh w..<fresh w + length imgs]"
    and "calls (snd (snd (createImageViews_vk_swapchain ok fmt imgs 0 views w))) =
      calls w @ view_creations fmt imgs (fresh w)"
    and "fresh (snd (snd (createImageViews_vk_swapchain ok fmt imgs 0 views w))) =
      fresh w + length imgs"
  using createImageViews_vk_swapchain_success [of imgs ok 0 views fmt w] assms
  by simp_all

lemma createSwapchain_vk_swapchain_keeps:
  "renderPass (snd (createSwapchain_vk_swapchain e s)) = renderPass s"
  "framebuffers (snd (createSwapchain_vk_swapchain e s)) = framebuffers s"
  by (simp_all add: createSwapchain_vk_swapchain_def Let_def split: prod.splits
      del: chooseFormat.simps)

lemma createSwapchain_vk_swapchain_success:
  assumes "se_swapchain_ok e" "\<forall>j<length (se_images e). se_view_ok e j"
  shows "calls (world (snd (createSwapchain_vk_swapchain e s))) =
      calls (world s) @
      CreateSwapchain
        \<lparr>sci_surface = surface s,
         sci_minImageCount = chooseImageCount (se_minImageCount e) (se_maxImageCount e),
         sci_imageFormat = fst (chooseFormat (se_format0 e) (se_format0 e # se_formats e)),
         sci_imageColorSpace = snd (chooseFormat (se_format0 e) (se_format0 e # se_formats e)),
         sci_extent = (if fst (se_currentExtent e) \<noteq> UINT32_MAX
                       then se_currentExtent e else swapchainExtent s),
         sci_presentMode = choosePresentMode (se_presentModes e)\<rparr> (fresh (world s)) #
      view_creations (fst (chooseFormat (se_format0 e) (se_format0 e # se_formats e)))
        (se_images e) (fresh (world s) + 1)"
    and "fresh (world (snd (createSwapchain_vk_swapchain e s))) =
      fresh (world s) + 1 + length (se_images e)"
    and "swapchain (snd (createSwapchain_vk_swapchain e s)) = fresh (world s)"
    and "swapchainImageViews (snd (createSwapchain_vk_swapchain e s)) =
      [fresh (world s) + 1..<fresh (world s) + 1 + length (se_images e)]"
    and "swapchainExtent (snd (createSwapchain_vk_swapchain e s)) =
      (if fst (se_currentExtent e) \<noteq> UINT32_MAX
       then se_currentExtent e else swapchainExtent s)"
  using assms
  by (auto simp: createSwapchain_vk_swapchain_def Let_def vkCreateWith_def case_prod_beta
      createImageViews_vk_swapchain_all length_resize simp del: chooseFormat.simps upt_Suc)

lemma recreation_vk_swapchain_success:
  assumes "se_swapchain_ok e" "\<forall>j<length (se_images e). se_view_ok e j"
    "\<forall>j<length (se_images e). se_framebuffer_ok e j"
  shows "calls (world (snd (createFramebuffers e (snd (createSwapchain_vk_swapchain e s))))) =
      calls (world s) @
      CreateSwapchain
        \<lparr>sci_surface = surface s,
         sci_minImageCount = chooseImageCount (se_minImageCount e) (se_maxImageCount e),
         sci_imageFormat = fst (chooseFormat (se_format0 e) (se_format0 e # se_formats e)),
         sci_imageColorSpace = snd (chooseFormat (se_format0 e) (se_format0 e # se_formats e)),
         sci_extent = (if fst (se_currentExtent e) \<noteq> UINT32_MAX
                       then se_currentExtent e else swapchainExtent s),
         sci_presentMode = choosePresentMode (se_presentModes e)\<rparr> (fresh (world s)) #
      view_creations (fst (chooseFormat (se_format0 e) (se_format0 e # se_formats e)))
        (se_images e) (fresh (world s) + 1) @
      framebuffer_creations (renderPass s)
        (if fst (se_currentExtent e) \<noteq> UINT32_MAX
         then se_currentExtent e else swapchainExtent s)
        [fresh (world s) + 1..<fresh (world s) + 1 + length (se_images e)]
        (fresh (world s) + 1 + length (se_images e))"
    and "swapchain (snd (createFramebuffers e (snd (createSwapchain_vk_swapchain e s)))) =
      fresh (world s)"
    and "swapchainImageViews (snd (createFramebuffers e (snd (createSwapchain_vk_swapchain e s)))) =
      [fresh (world s) + 1..<fresh (world s) + 1 + length (se_images e)]"
    and "framebuffers (snd (createFramebuffers e (snd (createSwapchain_vk_swapchain e s)))) =
      [fresh (world s) + 1 + length (se_images e)..<
       fresh (world s) + 1 + length (se_images e) + length (se_images e)]"
proof -
  let ?s4 = "snd (createSwapchain_vk_swapchain e s)"
  note a = createSwapchain_vk_swapchain_success [OF assms(1,2), of s]
    createSwapchain_vk_swapchain_keeps [of e s]
  have "\<forall>j<length (swapchainImageViews ?s4). se_framebuffer_ok e j"
    using assms(3) by (simp add: a(4) del: upt_Suc)
  note c = createFramebuffers_success [OF this] createFramebuffers_keeps [of e ?s4]
  show "calls (world (snd (createFramebuffers e ?s4))) =
      calls (world s) @
      CreateSwapchain
        \<lparr>sci_surface = surface s,
         sci_minImageCount = chooseImageCount (se_minImageCount e) (se_maxImageCount e),
         sci_imageFormat = fst (chooseFormat (se_format0 e) (se_format0 e # se_formats e)),
         sci_imageColorSpace = snd (chooseFormat (se_format0 e) (se_format0 e # se_formats e)),
         sci_extent = (if fst (se_currentExtent e) \<noteq> UINT32_MAX
                       then se_currentExtent e else swapchainExtent s),
         sci_presentMode = choosePresentMode (se_presentModes e)\<rparr> (fresh (world s)) #
      view_creations (fst (chooseFormat (se_format0 e) (se_format0 e # se_formats e)))
        (se_images e) (fresh (world s) + 1) @
      framebuffer_creations (renderPass s)
        (if fst (se_currentExtent e) \<noteq> UINT32_MAX
         then se_currentExtent e else swapchainExtent s)
        [fresh (world s) + 1..<fresh (world s) + 1 + length (se_images e)]
        (fresh (world s) + 1 + length (se_images e))"
    by (simp add: c a del: upt_Suc chooseFormat.simps)
  show "swapchain (snd (createFramebuffers e ?s4)) = fresh (world s)"
    by (simp add: c a del: upt_Suc chooseFormat.simps)
  show "swapchainImageViews (snd (createFramebuffers e ?s4)) =
      [fresh (world s) + 1..<fresh (world s) + 1 + length (se_images e)]"
    by (simp add: c a del: upt_Suc chooseFormat.simps)
  show "framebuffers (snd (createFramebuffers e ?s4)) =
      [fresh (world s) + 1 + length (se_images e)..<
       fresh (world s) + 1 + length (se_images e) + length (se_images e)]"
    by (simp add: c a del: upt_Suc chooseFormat.simps)
qed

lemma swapchain_attempt_rebuild: "swapchain_attempt srf c \<Longrightarrow> rebuild_call srf c"
  by (cases c) (auto simp: swapchain_attempt_def rebuild_call_def)

lemma createSwapchain_starts:
  "\<exists>c w1. calls w1 = calls (world s) @ [c] \<and> swapchain_attempt (surface s) c \<and>
     appends (rebuild_call (surface s)) w1 (world (snd (createSwapchain e s)))"
proof (cases "se_swapchain_ok e")
  case False
  then have "calls (world (snd (createSwapchain e s))) = calls (world s) @ [CreateFailed KSwapchain]"
    by (simp add: createSwapchain_def Let_def vkCreateWith_def api_def)
  moreover have "swapchain_attempt (surface s) (CreateFailed KSwapchain)"
    by (simp add: swapchain_attempt_def)
  ultimately show ?thesis
    using appends_refl by blast
next
  case True
  let ?c = "CreateSwapchain \<lparr>sci_surface = surface s, sci_minImageCount = 2,
                        sci_imageFormat = VK_FORMAT_B8G8R8A8_UNORM,
                        sci_imageColorSpace = VK_COLOR_SPACE_SRGB_NONLINEAR_KHR,
                        sci_extent = swapchainExtent s,
                        sci_presentMode = VK_PRESENT_MODE_FIFO_KHR\<rparr> (fresh (world s))"
  let ?w1 = "world s\<lparr>calls := calls (world s) @ [?c],
      live := insert (KSwapchain, fresh (world s)) (live (world s)),
      fresh := fresh (world s) + 1\<rparr>"
  have "world (snd (createSwapchain e s)) =
      snd (createImageViews (se_view_ok e) VK_FORMAT_B8G8R8A8_UNORM (se_images e) 0
        (resize (length (se_images e)) (swapchainImageViews s)) ?w1)"
    using True by (simp add: createSwapchain_def Let_def vkCreateWith_def case_prod_beta)
  then have "appends (rebuild_call (surface s)) ?w1 (world (snd (createSwapchain e s)))"
    by (simp add: appends_createImageViews)
  moreover have "calls ?w1 = calls (world s) @ [?c]"
    by simp
  moreover have "swapchain_attempt (surface s) ?c"
    by (simp add: swapchain_attempt_def)
  ultimately show ?thesis
    by blast
qed

lemma createSwapchain_vk_swapchain_starts:
  "\<exists>c w1. calls w1 = calls (world s) @ [c] \<and> swapchain_attempt (surface s) c \<and>
     appends (rebuild_call (surface s)) w1 (world (snd (createSwapchain_vk_swapchain e s)))"
proof (cases "se_swapchain_ok e")
  case False
  then have "calls (world (snd (createSwapchain_vk_swapchain e s))) =
      calls (world s) @ [CreateFailed KSwapchain]"
    by (simp add: createSwapchain_vk_swapchain_def Let_def vkCreateWith_def api_def
        del: chooseFormat.simps)
  moreover have "swapchain_attempt (surface s) (CreateFailed KSwapchain)"
    by (simp add: swapchain_attempt_def)
  ultimately show ?thesis
    using appends_refl by blast
next
  case True
  let ?c = "CreateSwapchain
        \<lparr>sci_surface = surface s,
         sci_minImageCount = chooseImageCount (se_minImageCount e) (se_maxImageCount e),
         sci_imageFormat = fst (chooseFormat (se_format0 e) (se_format0 e # se_formats e)),
         sci_imageColorSpace = snd (chooseFormat (se_format0 e) (se_format0 e # se_formats e)),
         sci_extent = (if fst (se_currentExtent e) \<noteq> UINT32_MAX
                       then se_currentExtent e else swapchainExtent s),
         sci_presentMode = choosePresentMode (se_presentModes e)\<rparr> (fresh (world s))"
  let ?w1 = "world s\<lparr>calls := calls (world s) @ [?c],
      live := insert (KSwapchain, fresh (world s)) (live (world s)),
      fresh := fresh (world s) + 1\<rparr>"
  have "world (snd (createSwapchain_vk_swapchain e s)) =
      snd (snd (createImageViews_vk_swapchain (se_view_ok e)
        (fst (chooseFormat (se_format0 e) (se_format0 e # se_formats e))) (se_images e) 0
        (resize (length (se_images e)) (swapchainImageViews s)) ?w1))"
    using True
    by (auto simp: createSwapchain_vk_swapchain_def Let_def vkCreateWith_def case_prod_beta
        simp del: chooseFormat.simps)
  then have "appends (rebuild_call (surface s)) ?w1 (world (snd (createSwapchain_vk_swapchain e s)))"
    by (simp add: appends_createImageViews_vk_swapchain)
  moreover have "calls ?w1 = calls (world s) @ [?c]"
    by simp
  moreover have "swapchain_attempt (surface s) ?c"
    by (simp add: swapchain_attempt_def)
  ultimately show ?thesis
    by blast
qed

lemma starts_since:
  assumes "calls (world s2) = calls (world s) @ pre"
    and "calls w1 = calls (world s2) @ [c]" and "Q c" and "P c"
    and "appends P w1 (world s')"
  shows "\<exists>xs. calls_since s s' = pre @ xs \<and> list_all P xs \<and> xs \<noteq> [] \<and> Q (hd xs)"
proof -
  from assms(5) obtain ys where ys: "calls (world s') = calls w1 @ ys" "list_all P ys"
    unfolding appends_iff by blast
  have "calls_since s s' = pre @ (c # ys)"
    using ys(1) assms(1,2) by (simp add: calls_since_def)
  moreover have "list_all P (c # ys)" "c # ys \<noteq> []" "Q (hd (c # ys))"
    using ys(2) assms(3,4) by simp_all
  ultimately show ?thesis
    by blast
qed


lemma fresh_destroy_all: "fresh (destroy_all k hs w) = fresh w"
  unfolding destroy_all_def
  by (induction hs arbitrary: w) (simp_all add: vkDestroy_def)

lemma fresh_destroy_if: "fresh (destroy_if k h w) = fresh w"
  by (simp add: destroy_if_def vkDestroy_def)

lemma rebuilds_after_swapchain:
  "appends (rebuild_call srf) (world s)
     (world (snd (createCommandBuffers e (snd (createFramebuffers e
        (snd (createRenderPass e s)))))))"
proof -
  let ?s4 = "snd (createRenderPass e s)"
  let ?s5 = "snd (createFramebuffers e ?s4)"
  have a4: "appends (rebuild_call srf) (world s) (world ?s4)"
    using rebuilds_createRenderPass [of srf s e] by simp
  have a5: "appends (rebuild_call srf) (world ?s4) (world ?s5)"
    using rebuilds_createFramebuffers [of srf ?s4 e] by simp
  have a6: "appends (rebuild_call srf) (world ?s5) (world (snd (createCommandBuffers e ?s5)))"
    using rebuilds_createCommandBuffers [of srf ?s5 e] by simp
  show ?thesis
    by (rule appends_trans [OF appends_trans [OF a4 a5] a6])
qed


text \<open>
  C5, as the code has it. \<^verbatim>\<open>recreateSwapchain\<close> of
  \<^verbatim>\<open>vulkan_renderer_native.cpp\<close> first waits for the device, then destroys every
  framebuffer, every image view, the render pass and the swapchain, in this order, and only
  then rebuilds: the calls that follow destroy nothing, the first of them tries to create a
  swapchain on the surface the renderer already had, and the surface is kept. The rebuild is
  the four construction steps that \<^verbatim>\<open>setSurface\<close> runs after it has created the
  surface. \<^verbatim>\<open>recreateSwapchain\<close> of \<^verbatim>\<open>vk_swapchain.cpp\<close> waits, destroys every
  image view, the swapchain and then every framebuffer, and rebuilds in the same way,
  beginning with the swapchain on the same surface; it leaves the render pass as it is.
  When every creation succeeds, the first definition creates, in this order, the swapchain,
  one image view per image, the render pass, one framebuffer per image view over the new
  render pass, and allocates the command buffers; the second creates the swapchain, one
  image view per image and one framebuffer per image view over the render pass it kept. The
  renderer then holds the new handles.
\<close>

theorem recreateSwapchain_teardown_then_rebuild:
  "(\<exists>rebuild.
      calls_since s (recreateSwapchain e s) =
        (DeviceWaitIdle (device s) #
         map (Destroy KFramebuffer) (framebuffers s) @
         map (Destroy KImageView) (swapchainImageViews s) @
         (if renderPass s \<noteq> VK_NULL_HANDLE then [Destroy KRenderPass (renderPass s)] else []) @
         (if swapchain s \<noteq> VK_NULL_HANDLE then [Destroy KSwapchain (swapchain s)] else [])) @
        rebuild \<and>
      list_all (rebuild_call (surface s)) rebuild \<and>
      rebuild \<noteq> [] \<and> swapchain_attempt (surface s) (hd rebuild)) \<and>
   surface (recreateSwapchain e s) = surface s \<and>
   (\<exists>rebuild.
      calls_since s (recreateSwapchain_vk_swapchain e s) =
        (DeviceWaitIdle (device s) #
         map (Destroy KImageView) (swapchainImageViews s) @
         (if swapchain s \<noteq> VK_NULL_HANDLE then [Destroy KSwapchain (swapchain s)] else []) @
         map (Destroy KFramebuffer) (framebuffers s)) @
        rebuild \<and>
      list_all (rebuild_call (surface s)) rebuild \<and>
      rebuild \<noteq> [] \<and> swapchain_attempt (surface s) (hd rebuild)) \<and>
   surface (recreateSwapchain_vk_swapchain e s) = surface s \<and>
   renderPass (recreateSwapchain_vk_swapchain e s) = renderPass s \<and>
   recreateSwapchain e s =
     construction e (destroySwapchain (s\<lparr>world := api (DeviceWaitIdle (device s)) (world s)\<rparr>)) \<and>
   setSurface True e width height s =
     construction e
       (s\<lparr>surface := fresh (world s),
          world := snd (snd (vkCreate KSurface True (surface s) (world s))),
          swapchainExtent := (width, height)\<rparr>) \<and>
   (se_swapchain_ok e \<and> (\<forall>j<length (se_images e). se_view_ok e j) \<and> se_renderPass_ok e \<and>
    (\<forall>j<length (se_images e). se_framebuffer_ok e j) \<and> se_commandBuffers_ok e \<longrightarrow>
      calls_since s (recreateSwapchain e s) =
        (DeviceWaitIdle (device s) #
         map (Destroy KFramebuffer) (framebuffers s) @
         map (Destroy KImageView) (swapchainImageViews s) @
         (if renderPass s \<noteq> VK_NULL_HANDLE then [Destroy KRenderPass (renderPass s)] else []) @
         (if swapchain s \<noteq> VK_NULL_HANDLE then [Destroy KSwapchain (swapchain s)] else [])) @
        (CreateSwapchain \<lparr>sci_surface = surface s, sci_minImageCount = 2,
                          sci_imageFormat = VK_FORMAT_B8G8R8A8_UNORM,
                          sci_imageColorSpace = VK_COLOR_SPACE_SRGB_NONLINEAR_KHR,
                          sci_extent = swapchainExtent s,
                          sci_presentMode = VK_PRESENT_MODE_FIFO_KHR\<rparr> (fresh (world s)) #
         view_creations VK_FORMAT_B8G8R8A8_UNORM (se_images e) (fresh (world s) + 1) @
         Create KRenderPass (fresh (world s) + 1 + length (se_images e)) #
         framebuffer_creations (fresh (world s) + 1 + length (se_images e)) (swapchainExtent s)
           [fresh (world s) + 1..<fresh (world s) + 1 + length (se_images e)]
           (fresh (world s) + 2 + length (se_images e)) @
         [AllocateCommandBuffers (commandPool s) (length (se_images e)) True]) \<and>
      swapchain (recreateSwapchain e s) = fresh (world s) \<and>
      swapchainImageViews (recreateSwapchain e s) =
        [fresh (world s) + 1..<fresh (world s) + 1 + length (se_images e)] \<and>
      renderPass (recreateSwapchain e s) = fresh (world s) + 1 + length (se_images e) \<and>
      framebuffers (recreateSwapchain e s) =
        [fresh (world s) + 2 + length (se_images e)..<
         fresh (world s) + 2 + length (se_images e) + length (se_images e)]) \<and>
   (se_swapchain_ok e \<and> (\<forall>j<length (se_images e). se_view_ok e j) \<and>
    (\<forall>j<length (se_images e). se_framebuffer_ok e j) \<longrightarrow>
      calls_since s (recreateSwapchain_vk_swapchain e s) =
        (DeviceWaitIdle (device s) #
         map (Destroy KImageView) (swapchainImageViews s) @
         (if swapchain s \<noteq> VK_NULL_HANDLE then [Destroy KSwapchain (swapchain s)] else []) @
         map (Destroy KFramebuffer) (framebuffers s)) @
        (CreateSwapchain
           \<lparr>sci_surface = surface s,
            sci_minImageCount = chooseImageCount (se_minImageCount e) (se_maxImageCount e),
            sci_imageFormat = fst (chooseFormat (se_format0 e) (se_format0 e # se_formats e)),
            sci_imageColorSpace = snd (chooseFormat (se_format0 e) (se_format0 e # se_formats e)),
            sci_extent = (if fst (se_currentExtent e) \<noteq> UINT32_MAX
                          then se_currentExtent e else swapchainExtent s),
            sci_presentMode = choosePresentMode (se_presentModes e)\<rparr> (fresh (world s)) #
         view_creations (fst (chooseFormat (se_format0 e) (se_format0 e # se_formats e)))
           (se_images e) (fresh (world s) + 1) @
         framebuffer_creations (renderPass s)
           (if fst (se_currentExtent e) \<noteq> UINT32_MAX
            then se_currentExtent e else swapchainExtent s)
           [fresh (world s) + 1..<fresh (world s) + 1 + length (se_images e)]
           (fresh (world s) + 1 + length (se_images e))) \<and>
      swapchain (recreateSwapchain_vk_swapchain e s) = fresh (world s) \<and>
      swapchainImageViews (recreateSwapchain_vk_swapchain e s) =
        [fresh (world s) + 1..<fresh (world s) + 1 + length (se_images e)] \<and>
      framebuffers (recreateSwapchain_vk_swapchain e s) =
        [fresh (world s) + 1 + length (se_images e)..<
         fresh (world s) + 1 + length (se_images e) + length (se_images e)])"
proof -
  let ?P = "rebuild_call (surface s)"
  let ?s1 = "s\<lparr>world := api (DeviceWaitIdle (device s)) (world s)\<rparr>"
  let ?s2 = "destroySwapchain ?s1"
  have p: "calls (world ?s2) = calls (world s) @
        (DeviceWaitIdle (device s) #
         map (Destroy KFramebuffer) (framebuffers s) @
         map (Destroy KImageView) (swapchainImageViews s) @
         (if renderPass s \<noteq> VK_NULL_HANDLE then [Destroy KRenderPass (renderPass s)] else []) @
         (if swapchain s \<noteq> VK_NULL_HANDLE then [Destroy KSwapchain (swapchain s)] else []))"
    by (simp add: calls_destroySwapchain api_def)
  have f2: "surface ?s2 = surface s" "fresh (world ?s2) = fresh (world s)"
    "swapchainExtent ?s2 = swapchainExtent s" "commandPool ?s2 = commandPool s"
    by (simp_all add: destroySwapchain_def fresh_destroy_all fresh_destroy_if api_def)
  have k: "recreateSwapchain e s = construction e ?s2"
    by (simp add: recreateSwapchain_def construction_def Let_def)
  have sn: "surface (recreateSwapchain e s) = surface s"
    using rebuilds_native [of ?s2 e] unfolding k construction_def f2 by simp
  obtain c w1 where c: "calls w1 = calls (world ?s2) @ [c]" "swapchain_attempt (surface s) c"
      "appends ?P w1 (world (snd (createSwapchain e ?s2)))"
    using createSwapchain_starts [of ?s2 e] unfolding f2 by blast
  have "appends ?P w1 (world (recreateSwapchain e s))"
    unfolding k construction_def
    by (rule appends_trans [OF c(3) rebuilds_after_swapchain])
  note gn = starts_since [where Q = "swapchain_attempt (surface s)" and P = "rebuild_call (surface s)",
      OF p c(1) c(2) swapchain_attempt_rebuild [OF c(2)] this]
  have en: "calls_since s (recreateSwapchain e s) =
        (DeviceWaitIdle (device s) #
         map (Destroy KFramebuffer) (framebuffers s) @
         map (Destroy KImageView) (swapchainImageViews s) @
         (if renderPass s \<noteq> VK_NULL_HANDLE then [Destroy KRenderPass (renderPass s)] else []) @
         (if swapchain s \<noteq> VK_NULL_HANDLE then [Destroy KSwapchain (swapchain s)] else [])) @
        (CreateSwapchain \<lparr>sci_surface = surface s, sci_minImageCount = 2,
                          sci_imageFormat = VK_FORMAT_B8G8R8A8_UNORM,
                          sci_imageColorSpace = VK_COLOR_SPACE_SRGB_NONLINEAR_KHR,
                          sci_extent = swapchainExtent s,
                          sci_presentMode = VK_PRESENT_MODE_FIFO_KHR\<rparr> (fresh (world s)) #
         view_creations VK_FORMAT_B8G8R8A8_UNORM (se_images e) (fresh (world s) + 1) @
         Create KRenderPass (fresh (world s) + 1 + length (se_images e)) #
         framebuffer_creations (fresh (world s) + 1 + length (se_images e)) (swapchainExtent s)
           [fresh (world s) + 1..<fresh (world s) + 1 + length (se_images e)]
           (fresh (world s) + 2 + length (se_images e)) @
         [AllocateCommandBuffers (commandPool s) (length (se_images e)) True]) \<and>
      swapchain (recreateSwapchain e s) = fresh (world s) \<and>
      swapchainImageViews (recreateSwapchain e s) =
        [fresh (world s) + 1..<fresh (world s) + 1 + length (se_images e)] \<and>
      renderPass (recreateSwapchain e s) = fresh (world s) + 1 + length (se_images e) \<and>
      framebuffers (recreateSwapchain e s) =
        [fresh (world s) + 2 + length (se_images e)..<
         fresh (world s) + 2 + length (se_images e) + length (se_images e)]"
    if "se_swapchain_ok e" "\<forall>j<length (se_images e). se_view_ok e j" "se_renderPass_ok e"
      "\<forall>j<length (se_images e). se_framebuffer_ok e j" "se_commandBuffers_ok e"
    using construction_success [OF that, of ?s2] p unfolding k f2
    by (simp add: calls_since_def)
  let ?t2 = "destroySwapchain_vk_swapchain ?s1"
  let ?t3 = "?t2\<lparr>world := destroy_all KFramebuffer (framebuffers ?t2) (world ?t2),
                  framebuffers := []\<rparr>"
  have q: "calls (world ?t3) = calls (world s) @
        (DeviceWaitIdle (device s) #
         map (Destroy KImageView) (swapchainImageViews s) @
         (if swapchain s \<noteq> VK_NULL_HANDLE then [Destroy KSwapchain (swapchain s)] else []) @
         map (Destroy KFramebuffer) (framebuffers s))"
    by (simp add: calls_destroy_all calls_destroySwapchain_vk_swapchain api_def)
      (simp add: destroySwapchain_vk_swapchain_def)
  have f3: "surface ?t3 = surface s" "renderPass ?t3 = renderPass s"
    "fresh (world ?t3) = fresh (world s)" "swapchainExtent ?t3 = swapchainExtent s"
    by (simp_all add: destroySwapchain_vk_swapchain_def fresh_destroy_all fresh_destroy_if
        api_def)
  have k': "recreateSwapchain_vk_swapchain e s =
      snd (createFramebuffers e (snd (createSwapchain_vk_swapchain e ?t3)))"
    by (simp add: recreateSwapchain_vk_swapchain_def Let_def)
  have sv: "surface (recreateSwapchain_vk_swapchain e s) = surface s"
    and rv: "renderPass (recreateSwapchain_vk_swapchain e s) = renderPass s"
    using rebuilds_vk_swapchain [of ?t3 e] unfolding k' f3 by simp_all
  obtain d w2 where d: "calls w2 = calls (world ?t3) @ [d]" "swapchain_attempt (surface s) d"
      "appends ?P w2 (world (snd (createSwapchain_vk_swapchain e ?t3)))"
    using createSwapchain_vk_swapchain_starts [of ?t3 e] unfolding f3 by blast
  have "appends ?P (world (snd (createSwapchain_vk_swapchain e ?t3)))
      (world (recreateSwapchain_vk_swapchain e s))"
    unfolding k' using rebuilds_createFramebuffers [of "surface s" _ e] by simp
  then have "appends ?P w2 (world (recreateSwapchain_vk_swapchain e s))"
    by (rule appends_trans [OF d(3)])
  note gv = starts_since [where Q = "swapchain_attempt (surface s)" and P = "rebuild_call (surface s)",
      OF q d(1) d(2) swapchain_attempt_rebuild [OF d(2)] this]
  have ev: "calls_since s (recreateSwapchain_vk_swapchain e s) =
        (DeviceWaitIdle (device s) #
         map (Destroy KImageView) (swapchainImageViews s) @
         (if swapchain s \<noteq> VK_NULL_HANDLE then [Destroy KSwapchain (swapchain s)] else []) @
         map (Destroy KFramebuffer) (framebuffers s)) @
        (CreateSwapchain
           \<lparr>sci_surface = surface s,
            sci_minImageCount = chooseImageCount (se_minImageCount e) (se_maxImageCount e),
            sci_imageFormat = fst (chooseFormat (se_format0 e) (se_format0 e # se_formats e)),
            sci_imageColorSpace = snd (chooseFormat (se_format0 e) (se_format0 e # se_formats e)),
            sci_extent = (if fst (se_currentExtent e) \<noteq> UINT32_MAX
                          then se_currentExtent e else swapchainExtent s),
            sci_presentMode = choosePresentMode (se_presentModes e)\<rparr> (fresh (world s)) #
         view_creations (fst (chooseFormat (se_format0 e) (se_format0 e # se_formats e)))
           (se_images e) (fresh (world s) + 1) @
         framebuffer_creations (renderPass s)
           (if fst (se_currentExtent e) \<noteq> UINT32_MAX
            then se_currentExtent e else swapchainExtent s)
           [fresh (world s) + 1..<fresh (world s) + 1 + length (se_images e)]
           (fresh (world s) + 1 + length (se_images e))) \<and>
      swapchain (recreateSwapchain_vk_swapchain e s) = fresh (world s) \<and>
      swapchainImageViews (recreateSwapchain_vk_swapchain e s) =
        [fresh (world s) + 1..<fresh (world s) + 1 + length (se_images e)] \<and>
      framebuffers (recreateSwapchain_vk_swapchain e s) =
        [fresh (world s) + 1 + length (se_images e)..<
         fresh (world s) + 1 + length (se_images e) + length (se_images e)]"
    if "se_swapchain_ok e" "\<forall>j<length (se_images e). se_view_ok e j"
      "\<forall>j<length (se_images e). se_framebuffer_ok e j"
    using recreation_vk_swapchain_success [OF that, of ?t3] q unfolding k' f3
    by (simp add: calls_since_def)
  have k'': "setSurface True e width height s =
     construction e
       (s\<lparr>surface := fresh (world s),
          world := snd (snd (vkCreate KSurface True (surface s) (world s))),
          swapchainExtent := (width, height)\<rparr>)"
    by (simp add: setSurface_def construction_def vkCreate_def vkCreateWith_def Let_def)
  show ?thesis
    using gn sn gv sv rv k k'' en ev by blast
qed


lemma example_attached_fields:
  "device example_attached = 2" "framebuffers example_attached = [14, 15]"
  "swapchainImageViews example_attached = [11, 12]" "renderPass example_attached = 13"
  "swapchain example_attached = 10" "surface example_attached = 9"
  "fresh (world example_attached) = 18" "commandPool example_attached = 3"
  "swapchainExtent example_attached = (640, 480)"
  by (simp_all add: example_attached_eq)

theorem recreateSwapchain_teardown_then_rebuild_witness:
  "calls_since example_attached (recreateSwapchain swap_ok example_attached) =
     [DeviceWaitIdle 2, Destroy KFramebuffer 14, Destroy KFramebuffer 15,
      Destroy KImageView 11, Destroy KImageView 12, Destroy KRenderPass 13,
      Destroy KSwapchain 10,
      CreateSwapchain \<lparr>sci_surface = 9, sci_minImageCount = 2, sci_imageFormat = 44,
        sci_imageColorSpace = 0, sci_extent = (640, 480), sci_presentMode = 2\<rparr> 18,
      CreateImageView \<lparr>ivi_image = 201, ivi_format = 44, ivi_levelCount = 1,
        ivi_layerCount = 1\<rparr> 19,
      CreateImageView \<lparr>ivi_image = 202, ivi_format = 44, ivi_levelCount = 1,
        ivi_layerCount = 1\<rparr> 20,
      Create KRenderPass 21, CreateFramebuffer 21 19 (640, 480) 22,
      CreateFramebuffer 21 20 (640, 480) 23, AllocateCommandBuffers 3 2 True] \<and>
   surface (recreateSwapchain swap_ok example_attached) = 9 \<and>
   swapchain (recreateSwapchain swap_ok example_attached) = 18 \<and>
   swapchainImageViews (recreateSwapchain swap_ok example_attached) = [19, 20] \<and>
   renderPass (recreateSwapchain swap_ok example_attached) = 21 \<and>
   framebuffers (recreateSwapchain swap_ok example_attached) = [22, 23] \<and>
   calls_since example_attached (recreateSwapchain_vk_swapchain swap_ok example_attached) =
     [DeviceWaitIdle 2, Destroy KImageView 11, Destroy KImageView 12, Destroy KSwapchain 10,
      Destroy KFramebuffer 14, Destroy KFramebuffer 15,
      CreateSwapchain \<lparr>sci_surface = 9, sci_minImageCount = 3, sci_imageFormat = 44,
        sci_imageColorSpace = 0, sci_extent = (640, 480), sci_presentMode = 2\<rparr> 18,
      CreateImageView \<lparr>ivi_image = 201, ivi_format = 44, ivi_levelCount = 1,
        ivi_layerCount = 1\<rparr> 19,
      CreateImageView \<lparr>ivi_image = 202, ivi_format = 44, ivi_levelCount = 1,
        ivi_layerCount = 1\<rparr> 20,
      CreateFramebuffer 13 19 (640, 480) 21, CreateFramebuffer 13 20 (640, 480) 22] \<and>
   surface (recreateSwapchain_vk_swapchain swap_ok example_attached) = 9 \<and>
   renderPass (recreateSwapchain_vk_swapchain swap_ok example_attached) = 13 \<and>
   swapchain (recreateSwapchain_vk_swapchain swap_ok example_attached) = 18 \<and>
   swapchainImageViews (recreateSwapchain_vk_swapchain swap_ok example_attached) = [19, 20] \<and>
   framebuffers (recreateSwapchain_vk_swapchain swap_ok example_attached) = [21, 22]"
proof -
  note t = recreateSwapchain_teardown_then_rebuild [of example_attached swap_ok 640 480]
  have n: "se_swapchain_ok swap_ok \<and> (\<forall>j<length (se_images swap_ok). se_view_ok swap_ok j) \<and>
      se_renderPass_ok swap_ok \<and> (\<forall>j<length (se_images swap_ok). se_framebuffer_ok swap_ok j) \<and>
      se_commandBuffers_ok swap_ok"
    by (simp add: swap_ok_def)
  have v: "se_swapchain_ok swap_ok \<and> (\<forall>j<length (se_images swap_ok). se_view_ok swap_ok j) \<and>
      (\<forall>j<length (se_images swap_ok). se_framebuffer_ok swap_ok j)"
    by (simp add: swap_ok_def)
  note tn = t [THEN conjunct2, THEN conjunct2, THEN conjunct2, THEN conjunct2, THEN conjunct2,
      THEN conjunct2, THEN conjunct2, THEN conjunct1, THEN mp, OF n]
  note tv = t [THEN conjunct2, THEN conjunct2, THEN conjunct2, THEN conjunct2, THEN conjunct2,
      THEN conjunct2, THEN conjunct2, THEN conjunct2, THEN mp, OF v]
  note ts = t [THEN conjunct2, THEN conjunct1]
    t [THEN conjunct2, THEN conjunct2, THEN conjunct2, THEN conjunct1]
    t [THEN conjunct2, THEN conjunct2, THEN conjunct2, THEN conjunct2, THEN conjunct1]
  show ?thesis
    using tn tv ts
    by (simp add: example_attached_fields swap_ok_def VK_NULL_HANDLE_def
        VK_FORMAT_B8G8R8A8_UNORM_def VK_FORMAT_B8G8R8A8_SRGB_def
        VK_COLOR_SPACE_SRGB_NONLINEAR_KHR_def VK_PRESENT_MODE_FIFO_KHR_def
        VK_PRESENT_MODE_MAILBOX_KHR_def UINT32_MAX_def chooseImageCount_def
        choosePresentMode_def Let_def upt_rec del: One_nat_def)
qed

lemma example_recreated:
  "calls_since example_attached (recreateSwapchain swap_ok example_attached) =
     [DeviceWaitIdle 2, Destroy KFramebuffer 14, Destroy KFramebuffer 15,
      Destroy KImageView 11, Destroy KImageView 12, Destroy KRenderPass 13,
      Destroy KSwapchain 10,
      CreateSwapchain \<lparr>sci_surface = 9, sci_minImageCount = 2, sci_imageFormat = 44,
        sci_imageColorSpace = 0, sci_extent = (640, 480), sci_presentMode = 2\<rparr> 18,
      CreateImageView \<lparr>ivi_image = 201, ivi_format = 44, ivi_levelCount = 1,
        ivi_layerCount = 1\<rparr> 19,
      CreateImageView \<lparr>ivi_image = 202, ivi_format = 44, ivi_levelCount = 1,
        ivi_layerCount = 1\<rparr> 20,
      Create KRenderPass 21, CreateFramebuffer 21 19 (640, 480) 22,
      CreateFramebuffer 21 20 (640, 480) 23, AllocateCommandBuffers 3 2 True]"
  by (simp add: calls_since_def recreateSwapchain_def destroySwapchain_def destroy_all_def
      destroy_if_def vkDestroy_def example_attached_eq swap_defs upt_rec del: One_nat_def)

lemma example_recreated_vk_swapchain:
  "List.map_filter destroyed_kind
     (calls_since example_attached (recreateSwapchain_vk_swapchain swap_ok example_attached)) =
     [KImageView, KImageView, KSwapchain, KFramebuffer, KFramebuffer]"
  by (simp add: calls_since_def recreateSwapchain_vk_swapchain_def
      destroySwapchain_vk_swapchain_def createSwapchain_vk_swapchain_def
      createFramebuffers_def resize_def swap_ok_def vkCreateWith_def api_def Let_def
      chooseImageCount_def choosePresentMode_def UINT32_MAX_def
      destroy_all_def destroy_if_def vkDestroy_def example_attached_eq 
      VK_NULL_HANDLE_def List.map_filter_simps del: One_nat_def)

text \<open>The order of the specification, framebuffers, render pass, image views, swapchain,
  is not the order of either definition: on the example renderer with its surface attached,
  the render pass is destroyed after the image views by the one and not at all by the
  other, which destroys the framebuffers last.\<close>

theorem recreateSwapchain_render_pass_not_second:
  "List.map_filter destroyed_kind
     (calls_since example_attached (recreateSwapchain swap_ok example_attached)) =
     [KFramebuffer, KFramebuffer, KImageView, KImageView, KRenderPass, KSwapchain] \<and>
   List.map_filter destroyed_kind
     (calls_since example_attached (recreateSwapchain_vk_swapchain swap_ok example_attached)) =
     [KImageView, KImageView, KSwapchain, KFramebuffer, KFramebuffer]"
  by (simp add: example_recreated example_recreated_vk_swapchain List.map_filter_simps)

end
